theory Spec2Isabelle
  imports Main "HOL-Library.Sublist" "HOL-Library.List_Lexorder" "HOL-Library.Product_Lexorder"
begin

section \<open>Python text\<close>

text \<open>
  A Python \<open>str\<close> is a sequence of Unicode code points, and \<open>len\<close>, slicing, \<open>in\<close> and
  \<open>lower\<close> work on code points. The model keeps that: a text is the list of its code points.
  ASCII literals of the source are written \<open>py ''...''\<close>; literals with Cyrillic letters are
  given by their code points, with the source text quoted beside them.
\<close>

type_synonym pystr = "nat list"

definition py :: "string \<Rightarrow> pystr" where
  "py s = map of_char s"

text \<open>
  \<open>str.lower\<close>, code point by code point, on the Basic Latin, Latin-1 and Cyrillic blocks
  (every literal of the source lies there); other code points are left as they are.
\<close>

definition lower_cp :: "nat \<Rightarrow> nat" where
  "lower_cp c =
     (if 65 \<le> c \<and> c \<le> 90 then c + 32
      else if 192 \<le> c \<and> c \<le> 222 \<and> c \<noteq> 215 then c + 32
      else if 1040 \<le> c \<and> c \<le> 1071 then c + 32
      else if 1024 \<le> c \<and> c \<le> 1039 then c + 80
      else c)"

definition lower :: "pystr \<Rightarrow> pystr" where
  "lower s = map lower_cp s"

text \<open>\<open>sub in s\<close>: \<open>sub\<close> occurs in \<open>s\<close> as a contiguous block.\<close>

definition py_in :: "pystr \<Rightarrow> pystr \<Rightarrow> bool" where
  "py_in sub s = sublist sub s"

text \<open>\<open>str(n)\<close> and \<open>int(s)\<close> for decimal numerals.\<close>

fun str_nat :: "nat \<Rightarrow> pystr" where
  "str_nat n = (if n < 10 then [48 + n] else str_nat (n div 10) @ [48 + n mod 10])"

declare str_nat.simps [simp del]

definition str_int :: "int \<Rightarrow> pystr" where
  "str_int i = (if i < 0 then 45 # str_nat (nat (- i)) else str_nat (nat i))"

definition int_of_digits :: "pystr \<Rightarrow> int" where
  "int_of_digits ds = int (foldl (\<lambda>acc d. 10 * acc + (d - 48)) 0 ds)"

text \<open>
  \<open>is_space\<close> is \<open>str.isspace\<close>, the whitespace of \<open>str.split()\<close> and of \<open>\s\<close> in a pattern.
  \<open>is_digit\<close> is the ASCII part of \<open>\d\<close>; the decimal digits of other scripts are left out.
\<close>

definition is_space :: "nat \<Rightarrow> bool" where
  "is_space c = ((9 \<le> c \<and> c \<le> 13) \<or> (28 \<le> c \<and> c \<le> 32) \<or> c = 133 \<or> c = 160
                 \<or> c = 5760 \<or> (8192 \<le> c \<and> c \<le> 8202) \<or> c = 8232 \<or> c = 8233
                 \<or> c = 8239 \<or> c = 8287 \<or> c = 12288)"

definition is_digit :: "nat \<Rightarrow> bool" where
  "is_digit c = (48 \<le> c \<and> c \<le> 57)"

text \<open>
  \<open>is_word\<close> is \<open>\w\<close> in a pattern (a letter, a digit or the underscore) on the Basic
  Latin, Latin-1 and Cyrillic blocks.
\<close>

definition is_word :: "nat \<Rightarrow> bool" where
  "is_word c =
     ((48 \<le> c \<and> c \<le> 57) \<or> (65 \<le> c \<and> c \<le> 90) \<or> c = 95 \<or> (97 \<le> c \<and> c \<le> 122)
      \<or> c = 170 \<or> c = 178 \<or> c = 179 \<or> c = 181 \<or> c = 185 \<or> c = 186
      \<or> (188 \<le> c \<and> c \<le> 190) \<or> (192 \<le> c \<and> c \<le> 214) \<or> (216 \<le> c \<and> c \<le> 246)
      \<or> (248 \<le> c \<and> c \<le> 255) \<or> (1024 \<le> c \<and> c \<le> 1153) \<or> (1162 \<le> c \<and> c \<le> 1327))"

text \<open>\<open>sep.join(xs)\<close>.\<close>

fun py_join :: "pystr \<Rightarrow> pystr list \<Rightarrow> pystr" where
  "py_join sep [] = []"
| "py_join sep [x] = x"
| "py_join sep (x # y # ys) = x @ sep @ py_join sep (y # ys)"

text \<open>\<open>s.split(c)\<close> for a separator of one code point; the result is never empty.\<close>

fun split_cp :: "nat \<Rightarrow> pystr \<Rightarrow> pystr list" where
  "split_cp sep [] = [[]]"
| "split_cp sep (c # cs) =
     (if c = sep then [] # split_cp sep cs
      else (case split_cp sep cs of
              [] \<Rightarrow> [[c]]
            | w # ws \<Rightarrow> (c # w) # ws))"

text \<open>
  \<open>s.replace(old, new)\<close> for a non-empty \<open>old\<close>, left to right without overlap; the
  counter skips the rest of an occurrence just replaced.
\<close>

fun replace_go :: "pystr \<Rightarrow> pystr \<Rightarrow> nat \<Rightarrow> pystr \<Rightarrow> pystr" where
  "replace_go old new k [] = []"
| "replace_go old new (Suc k) (c # cs) = replace_go old new k cs"
| "replace_go old new 0 (c # cs) =
     (if old \<noteq> [] \<and> prefix old (c # cs) then new @ replace_go old new (length old - 1) cs
      else c # replace_go old new 0 cs)"

definition py_replace :: "pystr \<Rightarrow> pystr \<Rightarrow> pystr \<Rightarrow> pystr" where
  "py_replace old new s = replace_go old new 0 s"

text \<open>\<open>s.rstrip(chars)\<close>, \<open>s.strip()\<close> and \<open>s.split()\<close> on whitespace.\<close>

definition rstrip_chars :: "pystr \<Rightarrow> pystr \<Rightarrow> pystr" where
  "rstrip_chars chars s = rev (dropWhile (\<lambda>c. c \<in> set chars) (rev s))"

definition py_strip :: "pystr \<Rightarrow> pystr" where
  "py_strip s = rev (dropWhile is_space (rev (dropWhile is_space s)))"

fun split_ws_go :: "pystr \<Rightarrow> pystr \<Rightarrow> pystr list" where
  "split_ws_go cur [] = (if cur = [] then [] else [cur])"
| "split_ws_go cur (c # cs) =
     (if is_space c then (if cur = [] then split_ws_go [] cs else cur # split_ws_go [] cs)
      else split_ws_go (cur @ [c]) cs)"

definition split_ws :: "pystr \<Rightarrow> pystr list" where
  "split_ws s = split_ws_go [] s"

text \<open>
  \<open>xs[-k:]\<close> for \<open>k \<ge> 0\<close>: the last \<open>k\<close> items, and the whole list when \<open>k\<close>
  is 0, since \<open>-0\<close> is \<open>0\<close>.
\<close>

definition last_n :: "nat \<Rightarrow> 'a list \<Rightarrow> 'a list" where
  "last_n k xs = (if k = 0 then xs else drop (length xs - k) xs)"

text \<open>
  A dictionary whose order matters is the list of its items in insertion order, with
  distinct keys.
\<close>

definition dict_get :: "('k \<times> 'v) list \<Rightarrow> 'k \<Rightarrow> 'v \<Rightarrow> 'v" where
  "dict_get d k dflt = (case map_of d k of None \<Rightarrow> dflt | Some v \<Rightarrow> v)"

fun dict_set :: "('k \<times> 'v) list \<Rightarrow> 'k \<Rightarrow> 'v \<Rightarrow> ('k \<times> 'v) list" where
  "dict_set [] k v = [(k, v)]"
| "dict_set ((k', v') # d) k v = (if k' = k then (k, v) # d else (k', v') # dict_set d k v)"


section \<open>Decisions\<close>

text \<open>
  A decision names an action and carries its parameters, a dictionary parsed from JSON.
  The model has text, integer, boolean and null values.
\<close>

datatype pyval = PStr pystr | PInt int | PBool bool | PNone

type_synonym params = "(pystr \<times> pyval) list"

text \<open>Truthiness of a value, as \<open>if v:\<close> tests it.\<close>

fun truthy :: "pyval \<Rightarrow> bool" where
  "truthy (PStr s) = (s \<noteq> [])"
| "truthy (PInt i) = (i \<noteq> 0)"
| "truthy (PBool b) = b"
| "truthy PNone = False"

section \<open>Action results\<close>

text \<open>
  The result of an executed action is a dictionary. The model keeps the keys that the
  controller, the cycle detector and the validator read: the backend's \<open>success\<close>, \<open>error\<close>,
  \<open>message\<close>, \<open>text\<close>, \<open>url\<close> and \<open>answer\<close>, and the page-diff flags that the controller adds
  after the action. An absent \<open>success\<close> reads as \<open>False\<close>, an absent text as the empty
  text; \<open>error\<close> keeps the difference between an absent key and a text.
\<close>

record action_result =
  r_success :: bool
  r_error :: "pystr option"
  r_message :: pystr
  r_text :: pystr
  r_url :: pystr
  r_answer :: pystr
  r_page_changed :: bool
  r_new_modals :: bool
  r_new_forms :: bool
  r_new_interactive :: bool
  r_missing_steps :: "pystr list"
  r_suggestions :: "pystr list"

section \<open>AgentStateManager: history, cycle detection and asked questions\<close>

text \<open>
  An attribute or an operation that a value does not have raises; the model returns the
  exception as a value. \<open>as_text\<close> is what a text method (\<open>lower\<close>, \<open>split\<close>, slicing)
  needs of its receiver.
\<close>

datatype py_error = AttributeError | TypeError

definition bind_err :: "py_error + 'a \<Rightarrow> ('a \<Rightarrow> py_error + 'b) \<Rightarrow> py_error + 'b" where
  "bind_err x f = (case x of Inl e \<Rightarrow> Inl e | Inr v \<Rightarrow> f v)"

fun map_err :: "('a \<Rightarrow> py_error + 'b) \<Rightarrow> 'a list \<Rightarrow> py_error + 'b list" where
  "map_err f [] = Inr []"
| "map_err f (x # xs) = bind_err (f x) (\<lambda>y. bind_err (map_err f xs) (\<lambda>ys. Inr (y # ys)))"

fun as_text :: "py_error \<Rightarrow> pyval \<Rightarrow> py_error + pystr" where
  "as_text e (PStr s) = Inr s"
| "as_text e v = Inl e"

text \<open>\<open>str(v)\<close>, as an f-string renders a value.\<close>

fun py_str :: "pyval \<Rightarrow> pystr" where
  "py_str (PStr s) = s"
| "py_str (PInt i) = str_int i"
| "py_str (PBool b) = (if b then py ''True'' else py ''False'')"
| "py_str PNone = py ''None''"

text \<open>
  \<open>json.dumps(params, sort_keys=True, default=str)\<close> for a dictionary of such values:
  keys in code point order, texts quoted and escaped to ASCII (\<open>ensure_ascii\<close> is on):
  quote, backslash and the control characters by their short escapes, every other code
  point outside space..tilde as \<open>\uXXXX\<close>, beyond the basic plane as a surrogate pair.
\<close>

definition hex_digit :: "nat \<Rightarrow> nat" where
  "hex_digit n = (if n < 10 then 48 + n else 87 + n)"

definition u_escape :: "nat \<Rightarrow> pystr" where
  "u_escape n = py [CHR 0x5C] @ py ''u''
                 @ [hex_digit (n div 4096 mod 16), hex_digit (n div 256 mod 16),
                    hex_digit (n div 16 mod 16), hex_digit (n mod 16)]"

definition json_escape_cp :: "nat \<Rightarrow> pystr" where
  "json_escape_cp c =
     (if c = 34 then py [CHR 0x5C, CHR 0x22]
      else if c = 92 then py [CHR 0x5C, CHR 0x5C]
      else if c = 10 then py [CHR 0x5C] @ py ''n''
      else if c = 13 then py [CHR 0x5C] @ py ''r''
      else if c = 9 then py [CHR 0x5C] @ py ''t''
      else if c = 12 then py [CHR 0x5C] @ py ''f''
      else if c = 8 then py [CHR 0x5C] @ py ''b''
      else if 32 \<le> c \<and> c \<le> 126 then [c]
      else if c < 65536 then u_escape c
      else u_escape (55296 + (c - 65536) div 1024) @ u_escape (56320 + (c - 65536) mod 1024))"

definition json_text :: "pystr \<Rightarrow> pystr" where
  "json_text s = [34] @ concat (map json_escape_cp s) @ [34]"

fun json_value :: "pyval \<Rightarrow> pystr" where
  "json_value (PStr s) = json_text s"
| "json_value (PInt i) = str_int i"
| "json_value (PBool b) = (if b then py ''true'' else py ''false'')"
| "json_value PNone = py ''null''"

definition json_dumps_sorted :: "params \<Rightarrow> pystr" where
  "json_dumps_sorted p =
     py ''{'' @ py_join (py '', '')
                  (map (\<lambda>(k, v). json_text k @ py '': '' @ json_value v) (sort_key fst p))
     @ py ''}''"

text \<open>
  One record of the action history, as \<open>execute_task\<close> appends it: the decision, the
  result, and the page diff (\<open>page_changed\<close> and the flags of \<open>new_elements\<close>).
\<close>

record action_record =
  a_action :: pystr
  a_parameters :: params
  a_result :: action_result
  a_page_changed :: bool
  a_new_modals :: bool
  a_new_forms :: bool
  a_new_interactive :: bool

record query_record =
  qr_query :: pystr
  qr_normalized_query :: pystr
  qr_answer :: pystr
  qr_url :: pystr
  qr_iteration :: nat

datatype agent_state =
  IDLE | OBSERVING | DECIDING | ACTING | REFLECTING | WAITING_USER | COMPLETED | ERROR

record state_manager =
  sm_state :: agent_state
  sm_current_task :: "pystr option"
  action_history :: "action_record list"
  visited_urls :: "pystr list"
  query_dom_history :: "query_record list"
  iteration_count :: nat
  last_error :: "pystr option"

definition new_state_manager :: state_manager where
  "new_state_manager =
     \<lparr>sm_state = IDLE, sm_current_task = None, action_history = [], visited_urls = [],
      query_dom_history = [], iteration_count = 0, last_error = None\<rparr>"

definition sm_set_task :: "state_manager \<Rightarrow> pystr \<Rightarrow> state_manager" where
  "sm_set_task sm task =
     \<lparr>sm_state = OBSERVING, sm_current_task = Some task, action_history = [],
      visited_urls = [], query_dom_history = [], iteration_count = 0, last_error = None\<rparr>"

definition add_action :: "state_manager \<Rightarrow> action_record \<Rightarrow> state_manager" where
  "add_action sm a =
     sm\<lparr>action_history := action_history sm @ [a], iteration_count := iteration_count sm + 1\<rparr>"

text \<open>\<open>url.split('?')[0].split('#')[0].rstrip('/')\<close>, written out in three places of the source.\<close>

definition normalize_url :: "pystr \<Rightarrow> pystr" where
  "normalize_url u = rstrip_chars (py ''/'') (hd (split_cp 35 (hd (split_cp 63 u))))"

definition add_visited_url :: "state_manager \<Rightarrow> pystr \<Rightarrow> state_manager" where
  "add_visited_url sm u =
     (if normalize_url u \<notin> set (visited_urls sm)
      then sm\<lparr>visited_urls := visited_urls sm @ [normalize_url u]\<rparr> else sm)"

definition is_url_visited :: "state_manager \<Rightarrow> pystr \<Rightarrow> bool" where
  "is_url_visited sm u = (normalize_url u \<in> set (visited_urls sm))"

subsection \<open>The checks of the cycle detector\<close>

text \<open>
  A positive verdict names the check that fired, the offending action, parameters, error
  or URL, and the repeat count. The human-readable \<open>reason\<close> text of the source is left
  out of the model.
\<close>

datatype check =
  ConsecutiveRepeat | RepeatingError | RepeatingUrl | PatternRepetition
  | RepeatedExtractText | RepeatedQueryDom

record verdict =
  v_check :: check
  v_action :: "pystr option"
  v_parameters :: "params option"
  v_repeats :: "nat option"
  v_error :: "pystr option"
  v_url :: "pystr option"
  v_pattern :: "pystr list"
  v_is_critical :: "bool option"

definition sm_is_critical_action :: "pystr \<Rightarrow> bool" where
  "sm_is_critical_action action_name = (action_name \<in> set [py ''navigate'', py ''click_element''])"

definition get_action_signature :: "action_record \<Rightarrow> pystr \<times> bool \<times> bool \<times> pystr" where
  "get_action_signature a =
     (let action_name = a_action a;
          has_new_elements = (a_new_modals a \<or> a_new_forms a \<or> a_new_interactive a);
          effective_page_changed = (a_page_changed a \<or> has_new_elements);
          signature = action_name @ py '':'' @ json_dumps_sorted (a_parameters a)
      in (signature, effective_page_changed, has_new_elements, action_name))"

text \<open>
  \<open>_check_consecutive_repeats\<close>. The loop carries \<open>consecutive_repeats\<close> and
  \<open>last_signature\<close> and returns from inside at the threshold.
\<close>

fun repeats_loop ::
  "action_record list \<Rightarrow> nat \<Rightarrow> nat \<Rightarrow> nat \<Rightarrow> pystr option
     \<Rightarrow> (pystr \<times> bool \<times> bool \<times> pystr) list \<Rightarrow> verdict option" where
  "repeats_loop recent critical_threshold normal_threshold consecutive_repeats last_signature [] = None"
| "repeats_loop recent critical_threshold normal_threshold consecutive_repeats last_signature
     ((signature, effective_page_changed, has_new_elements, action_name) # rest) =
     (if Some signature = last_signature then
        (if \<not> effective_page_changed \<and> \<not> has_new_elements then
           (let consecutive_repeats' = consecutive_repeats + 1;
                threshold = (if sm_is_critical_action action_name then critical_threshold
                             else normal_threshold)
            in if consecutive_repeats' \<ge> threshold then
                 Some \<lparr>v_check = ConsecutiveRepeat, v_action = Some action_name,
                       v_parameters =
                         Some (a_parameters (recent ! (length recent - consecutive_repeats'))),
                       v_repeats = Some consecutive_repeats', v_error = None, v_url = None,
                       v_pattern = [], v_is_critical = Some (sm_is_critical_action action_name)\<rparr>
               else repeats_loop recent critical_threshold normal_threshold consecutive_repeats'
                      (Some signature) rest)
         else repeats_loop recent critical_threshold normal_threshold 1 (Some signature) rest)
      else repeats_loop recent critical_threshold normal_threshold 1 (Some signature) rest)"

definition check_consecutive_repeats ::
  "action_record list \<Rightarrow> nat \<Rightarrow> nat \<Rightarrow> verdict option" where
  "check_consecutive_repeats recent_actions critical_threshold normal_threshold =
     (if length recent_actions < 2 then None
      else repeats_loop recent_actions critical_threshold normal_threshold 1 None
             (map get_action_signature recent_actions))"

text \<open>
  \<open>_check_repeating_errors\<close>. The source compares \<open>set(str(p) for p in action_params)\<close>;
  Python renders a dictionary of such values injectively, in insertion order, so the
  renderings are equal exactly when the parameter lists are.
\<close>

definition is_failure :: "action_record \<Rightarrow> bool" where
  "is_failure a = (\<not> r_success (a_result a)
                   \<and> (case r_error (a_result a) of None \<Rightarrow> False | Some e \<Rightarrow> e \<noteq> []))"

definition check_repeating_errors :: "action_record list \<Rightarrow> nat \<Rightarrow> verdict option" where
  "check_repeating_errors recent_actions threshold =
     (let failed = filter is_failure recent_actions;
          error_messages = map (\<lambda>a. the (r_error (a_result a))) failed;
          page_changes = map a_page_changed failed;
          action_names = map a_action failed;
          action_params = map a_parameters failed
      in if length error_messages \<ge> threshold
            \<and> length (remdups error_messages) \<le> 1 \<and> \<not> list_ex id page_changes
            \<and> length (remdups action_names) \<le> 1 \<and> length (remdups action_params) \<le> 1
         then Some \<lparr>v_check = RepeatingError, v_action = Some (hd action_names),
                    v_parameters = Some (hd action_params),
                    v_repeats = Some (length error_messages),
                    v_error = Some (hd error_messages), v_url = None, v_pattern = [],
                    v_is_critical = None\<rparr>
         else None)"

text \<open>
  \<open>_check_repeating_urls\<close>. The URL is the result's, or else the \<open>url\<close> parameter; a
  parameter that is truthy and not a text has no \<open>split\<close>.
\<close>

definition navigated_url :: "action_record \<Rightarrow> py_error + (pystr \<times> bool) option" where
  "navigated_url a =
     (if a_action a = py ''navigate'' then
        (let u = (if r_url (a_result a) \<noteq> [] then PStr (r_url (a_result a))
                  else dict_get (a_parameters a) (py ''url'') (PStr []))
         in if truthy u
            then bind_err (as_text AttributeError u)
                   (\<lambda>t. Inr (Some (normalize_url t, a_page_changed a)))
            else Inr None)
      else Inr None)"

definition check_repeating_urls ::
  "action_record list \<Rightarrow> nat \<Rightarrow> py_error + verdict option" where
  "check_repeating_urls recent_actions threshold =
     bind_err (map_err navigated_url recent_actions)
       (\<lambda>found.
          let recent_urls = map fst (List.map_filter id found);
              page_changes = map snd (List.map_filter id found)
          in if length recent_urls \<ge> threshold \<and> length (remdups recent_urls) \<le> 1
                \<and> \<not> list_ex id page_changes
             then Inr (Some \<lparr>v_check = RepeatingUrl, v_action = None, v_parameters = None,
                              v_repeats = Some (length recent_urls), v_error = None,
                              v_url = Some (hd recent_urls), v_pattern = [],
                              v_is_critical = None\<rparr>)
             else Inr None)"

text \<open>
  \<open>_check_pattern_repetition\<close>: for \<open>i\<close> in \<open>range(len - 4)\<close>, the two descriptions from
  \<open>i\<close> against the two after them.
\<close>

definition check_pattern_repetition :: "pystr list \<Rightarrow> verdict option" where
  "check_pattern_repetition ds =
     (if length ds \<ge> 4 then
        (case filter (\<lambda>i. take 2 (drop i ds) = take 2 (drop (i + 2) ds)) [0 ..< length ds - 4] of
           [] \<Rightarrow> None
         | i # _ \<Rightarrow> Some \<lparr>v_check = PatternRepetition, v_action = None, v_parameters = None,
                          v_repeats = None, v_error = None, v_url = None,
                          v_pattern = take 2 (drop i ds), v_is_critical = None\<rparr>)
      else None)"

text \<open>The description of an action that \<open>detect_loop\<close> builds for the pattern check.\<close>

definition action_description :: "action_record \<Rightarrow> py_error + pystr" where
  "action_description a =
     (let params = a_parameters a;
          get = (\<lambda>k. dict_get params (py k) PNone) in
      if truthy (get ''description'') then Inr (a_action a @ py '':'' @ py_str (get ''description''))
      else if truthy (get ''element_description'')
        then Inr (a_action a @ py '':'' @ py_str (get ''element_description''))
      else if truthy (get ''url'')
        then bind_err (as_text AttributeError (get ''url''))
               (\<lambda>u. Inr (a_action a @ py '':'' @ normalize_url u))
      else Inr (a_action a))"

subsection \<open>Questions already asked\<close>

definition synonyms :: "(pystr \<times> pystr) list" where
  "synonyms =
     [([1089, 1077, 1083, 1077, 1082, 1090, 1086, 1088],
       [1089, 1077, 1083, 1077, 1082, 1090, 1086, 1088]),
      ([1089, 1077, 1083, 1077, 1082, 1090, 1086, 1088, 1099],
       [1089, 1077, 1083, 1077, 1082, 1090, 1086, 1088]),
      ([1080, 1076, 1077, 1085, 1090, 1080, 1092, 1080, 1082, 1072, 1090, 1086, 1088],
       [1089, 1077, 1083, 1077, 1082, 1090, 1086, 1088]),
      ([1080, 1076, 1077, 1085, 1090, 1080, 1092, 1080, 1082, 1072, 1090, 1086, 1088, 1099],
       [1089, 1077, 1083, 1077, 1082, 1090, 1086, 1088]),
      ([1101, 1083, 1077, 1084, 1077, 1085, 1090],
       [1101, 1083, 1077, 1084, 1077, 1085, 1090]),
      ([1101, 1083, 1077, 1084, 1077, 1085, 1090, 1099],
       [1101, 1083, 1077, 1084, 1077, 1085, 1090]),
      ([1089, 1087, 1080, 1089, 1086, 1082],
       [1089, 1087, 1080, 1089, 1086, 1082]),
      ([1074, 1080, 1076, 1085, 1099],
       [1074, 1080, 1076, 1077, 1085]),
      ([1074, 1080, 1076, 1085, 1086],
       [1074, 1080, 1076, 1077, 1085]),
      ([1077, 1089, 1090, 1100, 32, 1083, 1080],
       [1077, 1089, 1090, 1100]),
      ([1082, 1072, 1082, 1080, 1077],
       [1082, 1072, 1082, 1086, 1081]),
      ([1087, 1077, 1088, 1074, 1099, 1081],
       [1087, 1077, 1088, 1074, 1099, 1081]),
      ([1087, 1077, 1088, 1074, 1099, 1077],
       [1087, 1077, 1088, 1074, 1099, 1081]),
      ([49, 48],
       [49, 48]),
      ([1076, 1077, 1089, 1103, 1090, 1100],
       [49, 48])]"

text \<open>
  \<open>_normalize_query\<close>: lower case, surrounding and repeated whitespace removed, the
  punctuation \<open>?.,!;:\<close> stripped from the end only, then each word looked up in the
  synonym table.
\<close>

definition normalize_query :: "pystr \<Rightarrow> pystr" where
  "normalize_query query =
     (let normalized = py_strip (lower query);
          normalized = py_join (py '' '') (split_ws normalized);
          normalized = rstrip_chars (py ''?.,!;:'') normalized;
          normalized_words = map (\<lambda>w. dict_get synonyms w w) (split_ws normalized)
      in py_join (py '' '') normalized_words)"

text \<open>
  \<open>_are_queries_similar\<close>. The source compares the floating-point quotient
  \<open>len(common) / max(len1, len2)\<close> with \<open>0.7\<close>; for word counts of any realistic size that is
  the comparison of \<open>10 * common\<close> with \<open>7 * max\<close>.
\<close>

definition are_queries_similar :: "pystr \<Rightarrow> pystr \<Rightarrow> bool" where
  "are_queries_similar query1 query2 =
     (let words1 = remdups (split_ws query1);
          words2 = remdups (split_ws query2) in
      if length words1 < 3 \<or> length words2 < 3 then False
      else
        let common_words = filter (\<lambda>w. w \<in> set words2) words1
        in 10 * length common_words \<ge> 7 * max (length words1) (length words2))"






subsection \<open>The cycle detector\<close>

text \<open>
  Python's equality on the values, under which \<open>set(...)\<close> counts: \<open>True\<close> and
  \<open>False\<close> are the integers 1 and 0.
\<close>

fun py_eq :: "pyval \<Rightarrow> pyval \<Rightarrow> bool" where
  "py_eq (PInt i) (PBool b) = (i = (if b then 1 else 0))"
| "py_eq (PBool b) (PInt i) = (i = (if b then 1 else 0))"
| "py_eq v w = (v = w)"

fun py_distinct :: "pyval list \<Rightarrow> pyval list" where
  "py_distinct [] = []"
| "py_distinct (v # vs) = v # py_distinct (filter (\<lambda>w. \<not> py_eq v w) vs)"

text \<open>Check 5 of \<open>detect_loop\<close>: \<open>extract_text\<close> repeated with one description.\<close>

definition check_extract_text :: "action_record list \<Rightarrow> verdict option" where
  "check_extract_text recent_actions =
     (let extract_text_actions =
            filter (\<lambda>a. a_action a = py ''extract_text'') (last_n 3 recent_actions);
          descriptions =
            map (\<lambda>a. dict_get (a_parameters a) (py ''description'') (PStr []))
              extract_text_actions;
          page_changes = map a_page_changed extract_text_actions
      in if length recent_actions \<ge> 2 \<and> length extract_text_actions \<ge> 2
            \<and> length (py_distinct descriptions) \<le> 1 \<and> truthy (hd descriptions)
            \<and> \<not> list_ex id page_changes
         then Some \<lparr>v_check = RepeatedExtractText, v_action = Some (py ''extract_text''),
                    v_parameters = Some [(py ''description'', hd descriptions)],
                    v_repeats = Some (length extract_text_actions), v_error = None,
                    v_url = None, v_pattern = [], v_is_critical = None\<rparr>
         else None)"

text \<open>
  Check 6: \<open>query_dom\<close> repeated with equal or similar questions. A truthy question
  that is not a text has no \<open>lower\<close>; building the verdict slices the last question,
  which a falsy value that is not a text does not support.
\<close>

fun similar_pairs :: "pystr list \<Rightarrow> nat" where
  "similar_pairs [] = 0"
| "similar_pairs (q # qs) =
     length (filter (\<lambda>q'. q = q' \<or> are_queries_similar q q') qs) + similar_pairs qs"

definition check_query_dom :: "action_record list \<Rightarrow> py_error + verdict option" where
  "check_query_dom recent_actions =
     (let query_dom_actions =
            filter (\<lambda>a. a_action a = py ''query_dom'') (last_n 5 recent_actions);
          queries =
            map (\<lambda>a. dict_get (a_parameters a) (py ''query'') (PStr [])) query_dom_actions;
          page_changes = map a_page_changed query_dom_actions
      in if length recent_actions \<ge> 2 \<and> length query_dom_actions \<ge> 2 then
           bind_err (map_err (as_text AttributeError) (filter truthy queries))
             (\<lambda>asked.
                let normalized_queries = map normalize_query asked in
                if length normalized_queries \<ge> 2 \<and> similar_pairs normalized_queries \<ge> 1
                   \<and> \<not> list_ex id page_changes
                then bind_err (as_text TypeError (last queries))
                       (\<lambda>shown.
                          Inr (Some \<lparr>v_check = RepeatedQueryDom,
                                     v_action = Some (py ''query_dom''),
                                     v_parameters = Some [(py ''query'', last queries)],
                                     v_repeats = Some (length query_dom_actions),
                                     v_error = None, v_url = None, v_pattern = [],
                                     v_is_critical = None\<rparr>))
                else Inr None)
         else Inr None)"

text \<open>
  \<open>detect_loop\<close>: the checks in the order of the source, the first positive one returned.
  The controller calls it with the default \<open>lookback\<close> of 4.
\<close>

definition detect_loop :: "state_manager \<Rightarrow> nat \<Rightarrow> py_error + verdict option" where
  "detect_loop sm lookback =
     (if length (action_history sm) < 2 then Inr None
      else
        let recent_actions = last_n (lookback * 2) (action_history sm) in
        case check_consecutive_repeats (last_n 6 recent_actions) 2 3 of
          Some v \<Rightarrow> Inr (Some v)
        | None \<Rightarrow>
        (case check_repeating_errors (last_n lookback recent_actions) 2 of
          Some v \<Rightarrow> Inr (Some v)
        | None \<Rightarrow>
        bind_err (check_repeating_urls (last_n lookback recent_actions) 2)
          (\<lambda>url_check. case url_check of
             Some v \<Rightarrow> Inr (Some v)
           | None \<Rightarrow>
           bind_err (map_err action_description (last_n lookback recent_actions))
             (\<lambda>recent_action_descriptions.
                case check_pattern_repetition recent_action_descriptions of
                  Some v \<Rightarrow> Inr (Some v)
                | None \<Rightarrow>
                (case check_extract_text recent_actions of
                   Some v \<Rightarrow> Inr (Some v)
                 | None \<Rightarrow> check_query_dom recent_actions)))))"

subsection \<open>Repeated records\<close>

text \<open>
  The repeat threshold of an action, and a record that repeats a given action and
  parameters with no page diff: the page did not change and no modal, form or
  interactive element appeared. \<open>repeat_verdict\<close> is the verdict of the consecutive-repeat
  check at the threshold.
\<close>

definition threshold_of :: "pystr \<Rightarrow> nat" where
  "threshold_of action_name = (if sm_is_critical_action action_name then 2 else 3)"

definition unchanged_repeat :: "pystr \<Rightarrow> params \<Rightarrow> action_record \<Rightarrow> bool" where
  "unchanged_repeat action_name p a =
     (a_action a = action_name \<and> a_parameters a = p \<and> \<not> a_page_changed a
      \<and> \<not> a_new_modals a \<and> \<not> a_new_forms a \<and> \<not> a_new_interactive a)"

definition repeat_verdict :: "pystr \<Rightarrow> params \<Rightarrow> verdict" where
  "repeat_verdict action_name p =
     \<lparr>v_check = ConsecutiveRepeat, v_action = Some action_name, v_parameters = Some p,
      v_repeats = Some (threshold_of action_name), v_error = None, v_url = None, v_pattern = [],
      v_is_critical = Some (sm_is_critical_action action_name)\<rparr>"

section \<open>ActionResultValidator: two-tier validation\<close>

definition msg_action_failed :: pystr where \<comment> \<open>the action ended with an error: (prefix)\<close>
  "msg_action_failed =
     [1044, 1077, 1081, 1089, 1090, 1074, 1080, 1077, 32, 1079, 1072, 1074, 1077, 1088, 1096,
      1080, 1083, 1086, 1089, 1100, 32, 1086, 1096, 1080, 1073, 1082, 1086, 1081, 58, 32]"

definition msg_navigate_unchanged :: pystr where \<comment> \<open>navigation did not change the page\<close>
  "msg_navigate_unchanged =
     [1053, 1072, 1074, 1080, 1075, 1072, 1094, 1080, 1103, 32, 1085, 1077, 32, 1087, 1088,
      1080, 1074, 1077, 1083, 1072, 32, 1082, 32, 1080, 1079, 1084, 1077, 1085, 1077, 1085,
      1080, 1102, 32, 1089, 1090, 1088, 1072, 1085, 1080, 1094, 1099]"

definition msg_click_unchanged :: pystr where \<comment> \<open>the click changed nothing and no new elements appeared\<close>
  "msg_click_unchanged =
     [1050, 1083, 1080, 1082, 32, 1085, 1077, 32, 1087, 1088, 1080, 1074, 1077, 1083, 32, 1082,
      32, 1080, 1079, 1084, 1077, 1085, 1077, 1085, 1080, 1102, 32, 1089, 1090, 1088, 1072,
      1085, 1080, 1094, 1099, 32, 1080, 1083, 1080, 32, 1087, 1086, 1103, 1074, 1083, 1077,
      1085, 1080, 1102, 32, 1085, 1086, 1074, 1099, 1093, 32, 1101, 1083, 1077, 1084, 1077,
      1085, 1090, 1086, 1074]"

definition msg_text_entered :: pystr where \<comment> \<open>the text was entered into the field\<close>
  "msg_text_entered =
     [1058, 1077, 1082, 1089, 1090, 32, 1091, 1089, 1087, 1077, 1096, 1085, 1086, 32, 1074,
      1074, 1077, 1076, 1077, 1085, 32, 1074, 32, 1087, 1086, 1083, 1077]"

definition msg_text_not_entered :: pystr where \<comment> \<open>the text was not entered into the field\<close>
  "msg_text_not_entered =
     [1058, 1077, 1082, 1089, 1090, 32, 1085, 1077, 32, 1073, 1099, 1083, 32, 1074, 1074, 1077,
      1076, 1077, 1085, 32, 1074, 32, 1087, 1086, 1083, 1077]"

definition msg_action_done :: pystr where \<comment> \<open>the action succeeded\<close>
  "msg_action_done =
     [1044, 1077, 1081, 1089, 1090, 1074, 1080, 1077, 32, 1074, 1099, 1087, 1086, 1083, 1085,
      1077, 1085, 1086, 32, 1091, 1089, 1087, 1077, 1096, 1085, 1086]"

definition sg_check_selector :: pystr where \<comment> \<open>check the element selector\<close>
  "sg_check_selector =
     [1055, 1088, 1086, 1074, 1077, 1088, 1100, 1090, 1077, 32, 1089, 1077, 1083, 1077, 1082,
      1090, 1086, 1088, 32, 1101, 1083, 1077, 1084, 1077, 1085, 1090, 1072]"

definition sg_other_approach :: pystr where \<comment> \<open>try another approach\<close>
  "sg_other_approach =
     [1055, 1086, 1087, 1088, 1086, 1073, 1091, 1081, 1090, 1077, 32, 1076, 1088, 1091, 1075,
      1086, 1081, 32, 1087, 1086, 1076, 1093, 1086, 1076]"

definition sg_check_url :: pystr where \<comment> \<open>check the URL\<close>
  "sg_check_url =
     [1055, 1088, 1086, 1074, 1077, 1088, 1100, 1090, 1077, 32, 85, 82, 76]"

definition sg_wait_page_load :: pystr where \<comment> \<open>wait for the page to load\<close>
  "sg_wait_page_load =
     [1055, 1086, 1076, 1086, 1078, 1076, 1080, 1090, 1077, 32, 1079, 1072, 1075, 1088, 1091,
      1079, 1082, 1080, 32, 1089, 1090, 1088, 1072, 1085, 1080, 1094, 1099]"

definition sg_not_clickable :: pystr where \<comment> \<open>the element may not be clickable\<close>
  "sg_not_clickable =
     [1069, 1083, 1077, 1084, 1077, 1085, 1090, 32, 1084, 1086, 1078, 1077, 1090, 32, 1073,
      1099, 1090, 1100, 32, 1085, 1077, 32, 1082, 1083, 1080, 1082, 1072, 1073, 1077, 1083,
      1100, 1085, 1099, 1084]"

definition sg_other_element :: pystr where \<comment> \<open>try another element\<close>
  "sg_other_element =
     [1055, 1086, 1087, 1088, 1086, 1073, 1091, 1081, 1090, 1077, 32, 1076, 1088, 1091, 1075,
      1086, 1081, 32, 1101, 1083, 1077, 1084, 1077, 1085, 1090]"

definition sg_check_field_selector :: pystr where \<comment> \<open>check the field selector\<close>
  "sg_check_field_selector =
     [1055, 1088, 1086, 1074, 1077, 1088, 1100, 1090, 1077, 32, 1089, 1077, 1083, 1077, 1082,
      1090, 1086, 1088, 32, 1087, 1086, 1083, 1103]"

definition sg_field_unavailable :: pystr where \<comment> \<open>the field may be unavailable\<close>
  "sg_field_unavailable =
     [1055, 1086, 1083, 1077, 32, 1084, 1086, 1078, 1077, 1090, 32, 1073, 1099, 1090, 1100, 32,
      1085, 1077, 1076, 1086, 1089, 1090, 1091, 1087, 1085, 1086]"

definition sg_other_selector :: pystr where \<comment> \<open>try another selector\<close>
  "sg_other_selector =
     [1055, 1086, 1087, 1088, 1086, 1073, 1091, 1081, 1090, 1077, 32, 1076, 1088, 1091, 1075,
      1086, 1081, 32, 1089, 1077, 1083, 1077, 1082, 1090, 1086, 1088]"

record validation =
  is_valid :: bool
  expected_outcome :: pystr
  actual_outcome :: pystr
  validation_message :: pystr
  suggestions :: "pystr list"
  from_cache :: bool
  heuristic :: bool

definition CRITICAL_ACTIONS :: "pystr set" where
  "CRITICAL_ACTIONS = {py ''navigate'', py ''click_element'', py ''type_text''}"

definition val_is_critical_action :: "pystr \<Rightarrow> bool" where
  "val_is_critical_action action = (action \<in> CRITICAL_ACTIONS)"

text \<open>
  \<open>_heuristic_validation\<close>: the verdict (is_valid, message, suggestions), or \<open>None\<close> when the
  heuristics do not decide.
\<close>

definition heuristic_validation ::
  "pystr \<Rightarrow> action_result \<Rightarrow> (bool \<times> pystr \<times> pystr list) option" where
  "heuristic_validation action action_result =
     (let success = r_success action_result;
          page_changed = r_page_changed action_result;
          has_new_modals = r_new_modals action_result;
          has_new_forms = r_new_forms action_result in
      if \<not> success then
        Some (False,
              msg_action_failed @ (case r_error action_result of None \<Rightarrow> py ''Unknown error''
                                   | Some e \<Rightarrow> e),
              [sg_check_selector, sg_other_approach])
      else if action = py ''navigate'' \<and> \<not> page_changed then
        Some (False, msg_navigate_unchanged, [sg_check_url, sg_wait_page_load])
      else if action = py ''click_element'' \<and> \<not> page_changed \<and> \<not> has_new_modals
              \<and> \<not> has_new_forms then
        Some (False, msg_click_unchanged, [sg_check_selector, sg_not_clickable, sg_other_element])
      else if action = py ''type_text'' then
        (if success then Some (True, msg_text_entered, [])
         else Some (False, msg_text_not_entered,
                    [sg_check_field_selector, sg_field_unavailable, sg_other_selector]))
      else None)"

text \<open>
  The validator's state is its verdict cache, a dictionary in insertion order keyed by a
  digest. \<open>oracle_requests\<close> is not in the source: it counts the calls of the two
  oracle-backed helpers, \<open>_extract_expected_outcome\<close> and \<open>_check_outcome_match\<close>.
\<close>

record validator =
  validation_cache :: "(pystr \<times> validation) list"
  oracle_requests :: nat

text \<open>
  What \<open>validate_action_result\<close> calls beyond the heuristics, as parameters: the digest of
  \<open>_get_cache_key\<close> (MD5 of a JSON text), the two oracle-backed helpers and
  \<open>_extract_actual_outcome\<close>. The action's parameters, the task and the page model only flow
  into these, so they are one argument \<open>'q\<close> of the model.
\<close>

record 'q val_collaborators =
  validation_cache_key :: "pystr \<Rightarrow> 'q \<Rightarrow> action_result \<Rightarrow> pystr"
  extract_expected_outcome :: "pystr \<Rightarrow> 'q \<Rightarrow> pystr"
  extract_actual_outcome :: "action_result \<Rightarrow> 'q \<Rightarrow> pystr"
  check_outcome_match :: "pystr \<Rightarrow> 'q \<Rightarrow> pystr \<Rightarrow> pystr \<Rightarrow> bool \<times> pystr \<times> pystr list"

definition validate_action_result ::
  "'q val_collaborators \<Rightarrow> validator \<Rightarrow> pystr \<Rightarrow> 'q \<Rightarrow> action_result
     \<Rightarrow> validation \<times> validator" where
  "validate_action_result ext v action q action_result =
     (case heuristic_validation action action_result of
        Some (valid, msg, sugg) \<Rightarrow>
          (\<lparr>is_valid = valid, expected_outcome = [], actual_outcome = [],
            validation_message = msg, suggestions = sugg, from_cache = False,
            heuristic = True\<rparr>, v)
      | None \<Rightarrow>
          (let cache_key = validation_cache_key ext action q action_result in
           case map_of (validation_cache v) cache_key of
             Some cached_result \<Rightarrow> (cached_result\<lparr>from_cache := True\<rparr>, v)
           | None \<Rightarrow>
               if \<not> val_is_critical_action action then
                 (let result = \<lparr>is_valid = True, expected_outcome = [], actual_outcome = [],
                                 validation_message = msg_action_done, suggestions = [],
                                 from_cache = False, heuristic = False\<rparr> in
                  (result, v\<lparr>validation_cache := validation_cache v @ [(cache_key, result)]\<rparr>))
               else
                 (let expected = extract_expected_outcome ext action q;
                      actual = extract_actual_outcome ext action_result q;
                      (valid, msg, sugg) = check_outcome_match ext action q expected actual;
                      result = \<lparr>is_valid = valid, expected_outcome = expected,
                                 actual_outcome = actual, validation_message = msg,
                                 suggestions = sugg, from_cache = False, heuristic = False\<rparr>;
                      cache = validation_cache v @ [(cache_key, result)];
                      cache' = (if length cache > 100 then tl cache else cache) in
                  (result, v\<lparr>validation_cache := cache', oracle_requests := oracle_requests v + 2\<rparr>))))"

text \<open>
  A freshly constructed validator, collaborators whose oracle rejects everything, and the
  result of an action that succeeded and changed nothing on the page.
\<close>

definition new_validator :: validator where
  "new_validator = \<lparr>validation_cache = [], oracle_requests = 0\<rparr>"

definition guessing_collaborators :: "unit val_collaborators" where
  "guessing_collaborators =
     \<lparr>validation_cache_key = (\<lambda>a q r. []), extract_expected_outcome = (\<lambda>a q. []),
      extract_actual_outcome = (\<lambda>r q. []),
      check_outcome_match = (\<lambda>a q e c. (False, [], []))\<rparr>"

definition succeeded_unchanged :: action_result where
  "succeeded_unchanged =
     \<lparr>r_success = True, r_error = None, r_message = [], r_text = [], r_url = [], r_answer = [],
      r_page_changed = False, r_new_modals = False, r_new_forms = False,
      r_new_interactive = False, r_missing_steps = [], r_suggestions = []\<rparr>"

text \<open>An \<open>extract_text\<close> that succeeded and changed nothing on the page.\<close>

definition extract_price_unchanged :: action_record where
  "extract_price_unchanged =
     \<lparr>a_action = py ''extract_text'', a_parameters = [(py ''description'', PStr (py ''price''))],
      a_result = succeeded_unchanged, a_page_changed = False, a_new_modals = False,
      a_new_forms = False, a_new_interactive = False\<rparr>"

section \<open>ContextManager: history, requirements and progress\<close>

record config =
  MAX_CONTEXT_TOKENS :: int
  MAX_HISTORY_TOKENS :: int
  MAX_REQUEST_TOKENS :: int
  MAX_ITERATIONS :: int

definition kw_vakans :: pystr where \<comment> \<open>"vakans": vacancy\<close>
  "kw_vakans =
     [1074, 1072, 1082, 1072, 1085, 1089]"

definition kw_otklik :: pystr where \<comment> \<open>"otklik": response to a vacancy\<close>
  "kw_otklik =
     [1086, 1090, 1082, 1083, 1080, 1082]"

definition lbl_nuzhno :: pystr where \<comment> \<open>"nuzhno": needed\<close>
  "lbl_nuzhno =
     [1085, 1091, 1078, 1085, 1086, 32]"

definition lbl_vypolneno :: pystr where \<comment> \<open>"vypolneno": done\<close>
  "lbl_vypolneno =
     [44, 32, 1074, 1099, 1087, 1086, 1083, 1085, 1077, 1085, 1086, 32]"

definition lbl_tekst :: pystr where \<comment> \<open>"tekst": text\<close>
  "lbl_tekst =
     [1090, 1077, 1082, 1089, 1090]"

record history_entry =
  h_action :: pystr
  h_result :: action_result
  h_success :: bool

text \<open>
  The manager's fields that the core reads, with the token cache of its \<open>TokenOptimizer\<close>.
  (\<open>require_resume_review\<close>, \<open>resume_reviewed\<close> and \<open>pending_resume_wizard\<close> are written by
  \<open>set_task\<close> and read nowhere.)
\<close>

record context_manager =
  cm_history :: "history_entry list"
  current_task :: "pystr option"
  extracted_info :: "(pystr \<times> pystr) list"
  completed_steps :: "pystr list"
  progress_counters :: "(pystr \<times> int) list"
  requirements :: "(pystr \<times> int) list"
  token_count_cache :: "(pystr \<times> nat) list"

definition new_context_manager :: context_manager where
  "new_context_manager =
     \<lparr>cm_history = [], current_task = None, extracted_info = [], completed_steps = [],
      progress_counters = [], requirements = [], token_count_cache = []\<rparr>"

text \<open>
  \<open>_parse_task_requirements\<close>. \<open>requirement_matches\<close> is \<open>re.finditer\<close> for the pattern
  \<open>(\d+)\s+([^\n\r\.;,]*)\<close>: a run of digits, at least one whitespace, then the longest
  run free of line breaks, full stops, semicolons and commas. Every part is greedy and
  the last may be empty, so a match at a position exists exactly when the digits there
  are followed by whitespace; the search resumes after the match, or one code point
  further when there is none. The pairs are (count, second group).
\<close>

definition in_group2 :: "nat \<Rightarrow> bool" where
  "in_group2 c = (c \<notin> {10, 13, 46, 59, 44})"

function requirement_matches :: "pystr \<Rightarrow> (int \<times> pystr) list" where
  "requirement_matches [] = []"
| "requirement_matches (c # cs) =
     (let digits = takeWhile is_digit (c # cs);
          r1 = dropWhile is_digit (c # cs);
          spaces = takeWhile is_space r1;
          r2 = dropWhile is_space r1 in
      if digits \<noteq> [] \<and> spaces \<noteq> []
      then (int_of_digits digits, takeWhile in_group2 r2)
             # requirement_matches (dropWhile in_group2 r2)
      else requirement_matches cs)"
  by pat_completeness auto
termination
proof (relation "measure length")
  show "wf (measure length)"
    by simp
next
  fix c :: nat and cs digits r1 spaces r2
  assume "digits = takeWhile is_digit (c # cs)" "r1 = dropWhile is_digit (c # cs)"
    "spaces = takeWhile is_space r1" "r2 = dropWhile is_space r1"
    "digits \<noteq> [] \<and> spaces \<noteq> []"
  then have "is_digit c" and r1: "r1 = dropWhile is_digit cs"
    by (auto split: if_splits)
  have "length (dropWhile in_group2 r2) \<le> length r2"
    by (rule length_dropWhile_le)
  also have "\<dots> \<le> length r1"
    unfolding \<open>r2 = dropWhile is_space r1\<close> by (rule length_dropWhile_le)
  also have "\<dots> \<le> length cs"
    unfolding r1 by (rule length_dropWhile_le)
  finally show "(dropWhile in_group2 r2, c # cs) \<in> measure length"
    by simp
next
  fix c :: nat and cs
  show "(cs, c # cs) \<in> measure length"
    by simp
qed

definition parse_task_requirements :: "pystr \<Rightarrow> (pystr \<times> int) list" where
  "parse_task_requirements task =
     foldl (\<lambda>reqs (count, group2).
              let window = take 50 group2 in
              if py_in kw_vakans window \<or> py_in kw_otklik window
                 \<or> py_in (py ''respond'') window \<or> py_in (py ''apply'') window
              then dict_set reqs (py ''applications'')
                     (max (dict_get reqs (py ''applications'') 0) count)
              else reqs)
       [] (requirement_matches (lower task))"

definition cm_set_task :: "context_manager \<Rightarrow> pystr \<Rightarrow> context_manager" where
  "cm_set_task m task =
     m\<lparr>current_task := Some task, completed_steps := [], extracted_info := [],
       progress_counters := [], requirements := parse_task_requirements task\<rparr>"

text \<open>
  \<open>update_progress\<close>: the body of the source is a single \<open>pass\<close>, so the manager is
  returned as it is, whatever the decision and the result are.
\<close>

definition update_progress ::
  "context_manager \<Rightarrow> pystr \<times> params \<Rightarrow> action_result \<Rightarrow> context_manager" where
  "update_progress m decision action_result = m"

text \<open>\<open>can_complete_task\<close>: the loop over the requirements, leaving at the first unmet one.\<close>

fun unmet_free :: "(pystr \<times> int) list \<Rightarrow> (pystr \<times> int) list \<Rightarrow> bool" where
  "unmet_free counters [] = True"
| "unmet_free counters ((key, count) # rest) =
     (if dict_get counters key 0 < count then False else unmet_free counters rest)"

definition can_complete_task :: "context_manager \<Rightarrow> bool" where
  "can_complete_task m = unmet_free (progress_counters m) (requirements m)"

definition get_pending_requirements_message :: "context_manager \<Rightarrow> pystr" where
  "get_pending_requirements_message m =
     py_join (py ''; '')
       (map (\<lambda>(key, count). lbl_nuzhno @ str_int count @ py '' '' @ key @ lbl_vypolneno
                                @ str_int (dict_get (progress_counters m) key 0))
          (filter (\<lambda>(key, count). dict_get (progress_counters m) key 0 < count)
             (requirements m)))"

definition get_requirements_status :: "context_manager \<Rightarrow> pystr" where
  "get_requirements_status m =
     py_join [10]
       (map (\<lambda>(key, count). key @ py '': '' @ str_int (dict_get (progress_counters m) key 0)
                                @ py ''/'' @ str_int count)
          (requirements m))"

text \<open>
  \<open>_trim_history\<close>. Its measure is \<open>count_tokens(str(history))\<close>, the tokenizer applied to
  Python's rendering of the list; it is the parameter \<open>cost\<close>.
\<close>

definition is_important :: "history_entry \<Rightarrow> bool" where
  "is_important e =
     (let action = h_action e; success = r_success (h_result e) in
      action = py ''navigate'' \<or> (action = py ''click_element'' \<and> success)
      \<or> action = py ''task_complete'' \<or> (action = py ''extract_text'' \<and> success))"

definition is_less_important :: "history_entry \<Rightarrow> bool" where
  "is_less_important e =
     (let action = h_action e; success = r_success (h_result e) in
      action = py ''scroll'' \<or> action = py ''wait_for_element'' \<or> \<not> success)"

fun shrink_important ::
  "(history_entry list \<Rightarrow> int) \<Rightarrow> int \<Rightarrow> history_entry list \<Rightarrow> history_entry list
     \<Rightarrow> nat \<Rightarrow> int \<Rightarrow> nat" where
  "shrink_important cost limit important kept_less 0 tokens = 0"
| "shrink_important cost limit important kept_less (Suc k) tokens =
     (if tokens > limit
      then shrink_important cost limit important kept_less k
             (cost (last_n k important @ kept_less))
      else Suc k)"

definition trim_history ::
  "(history_entry list \<Rightarrow> int) \<Rightarrow> int \<Rightarrow> history_entry list \<Rightarrow> history_entry list" where
  "trim_history cost limit history =
     (if cost history \<le> limit then history
      else
        let important_actions = filter (\<lambda>e. is_important e \<or> \<not> is_less_important e) history;
            less_important_actions =
              filter (\<lambda>e. \<not> is_important e \<and> is_less_important e) history;
            keep_less_important = min (length less_important_actions) 5;
            kept_less = last_n keep_less_important less_important_actions;
            new_history = important_actions @ kept_less;
            new_history_tokens = cost new_history in
        if new_history_tokens \<le> limit then new_history
        else
          let keep_important =
                shrink_important cost limit important_actions kept_less
                  (length important_actions) new_history_tokens in
          if keep_important > 0 then last_n keep_important important_actions @ kept_less
          else last_n (length history div 2) history)"

text \<open>
  \<open>add_to_history\<close>. For a successful \<open>extract_text\<close> with a text, the description is cut
  out of the action's rendering, between the first \<open>(\<close> and the next \<open>)\<close>.
\<close>

definition add_extracted_info :: "context_manager \<Rightarrow> pystr \<Rightarrow> pystr \<Rightarrow> context_manager" where
  "add_extracted_info m description t =
     m\<lparr>extracted_info := dict_set (extracted_info m) description t\<rparr>"

definition add_to_history ::
  "(history_entry list \<Rightarrow> int) \<Rightarrow> config \<Rightarrow> context_manager \<Rightarrow> pystr \<Rightarrow> action_result
     \<Rightarrow> context_manager" where
  "add_to_history cost conf m action result =
     (let m1 = m\<lparr>cm_history := cm_history m
                    @ [\<lparr>h_action = action, h_result = result, h_success = r_success result\<rparr>]\<rparr>;
          m2 = (if py_in (py ''extract_text'') (lower action) \<and> r_success result
                   \<and> r_text result \<noteq> []
                then
                  let params_str =
                        (if py_in (py ''('') action
                         then hd (split_cp 41 (split_cp 40 action ! 1)) else []);
                      stripped = py_replace (py [CHR 0x22]) []
                                   (py_replace (py [CHR 0x27]) []
                                      (py_replace (py ''description='') [] params_str));
                      description = (if stripped = [] then lbl_tekst else stripped)
                  in add_extracted_info m1 description (r_text result)
                else m1)
      in m2\<lparr>cm_history := trim_history cost (MAX_HISTORY_TOKENS conf) (cm_history m2)\<rparr>)"

section \<open>The page model\<close>

text \<open>
  The page model is a dictionary produced by the page extractor. The model keeps the keys
  that the context assembly reads. An absent text reads as the empty text, an absent flag
  as \<open>False\<close>, an absent or null \<open>relevance_score\<close> as \<open>None\<close>; every element has a
  \<open>type\<close>. (The \<open>metadata.page_state\<close> of the page feeds two entries, \<open>visible_modals\<close> and
  \<open>active_modal_context\<close>, that \<open>prepare_context\<close> stores and \<open>format_context\<close> never
  renders; they are left out.)
\<close>

record element =
  e_type :: pystr
  e_selector :: "pystr option"
  e_text :: pystr
  e_in_modal :: bool
  e_in_form :: bool
  e_id :: pystr
  e_href :: pystr
  e_input_type :: pystr
  e_placeholder :: pystr
  e_relevance_score :: "int option"

record breadcrumb =
  b_text :: pystr
  b_href :: pystr

record modal =
  m_has_form :: bool
  m_input_count :: int
  m_selector :: pystr

record page_structure =
  breadcrumbs :: "breadcrumb list"
  current_section :: "(pystr \<times> pystr) option"
  st_visible_modals :: "modal list"

record location_context =
  lc_description :: pystr
  lc_visible_modals_count :: int
  lc_has_forms :: bool
  lc_structure :: "page_structure option"

record page_info =
  p_url :: pystr
  p_title :: pystr
  p_interactive_elements :: "element list"
  p_visible_text_preview :: pystr
  p_location_context :: "location_context option"
  p_visible_modals :: "(int \<times> modal list) option"

text \<open>
  What \<open>optimize_page_info\<close> returns and \<open>prepare_context\<close> then extends: the dictionary
  that \<open>format_context\<close> renders.
\<close>

record optimized_page =
  o_url :: pystr
  o_title :: pystr
  o_interactive_elements :: "element list"
  o_visible_text_preview :: pystr
  o_location_context :: "location_context option"
  o_visible_modals :: "(int \<times> modal list) option"
  o_completed_steps :: "pystr list"
  o_extracted_info :: "(pystr \<times> pystr) list"
  o_requirements_status :: pystr

section \<open>TokenOptimizer\<close>

text \<open>
  What the optimizer takes from outside the repository, as parameters: the tokenizer
  (\<open>tiktoken\<close>'s \<open>encode\<close> and \<open>decode\<close>), Python's \<open>repr\<close> of a text, and the four
  floating-point computations of the source: \<open>int(n * 0.2)\<close>, \<open>int(n * 0.7)\<close>, the test
  \<open>max_tokens / context_tokens > 0.8\<close> and \<open>int(k * (max_tokens / context_tokens))\<close>.
\<close>

record externals =
  tk_encode :: "pystr \<Rightarrow> nat list"
  tk_decode :: "nat list \<Rightarrow> pystr"
  repr_text :: "pystr \<Rightarrow> pystr"
  fl_fifth :: "int \<Rightarrow> int"
  fl_seven_tenths :: "int \<Rightarrow> int"
  fl_ratio_above_0_8 :: "int \<Rightarrow> int \<Rightarrow> bool"
  fl_scale :: "nat \<Rightarrow> int \<Rightarrow> int \<Rightarrow> int"

text \<open>
  \<open>count_tokens\<close> with its cache, a dictionary in insertion order from texts of at most
  500 code points to their counts, bounded to 1000 entries by dropping the oldest.
\<close>

type_synonym token_cache = "(pystr \<times> nat) list"

definition count_tokens_cached :: "externals \<Rightarrow> token_cache \<Rightarrow> pystr \<Rightarrow> nat \<times> token_cache" where
  "count_tokens_cached ext cache t =
     (if length t \<le> 500 then
        (case map_of cache t of
           Some n \<Rightarrow> (n, cache)
         | None \<Rightarrow>
             (let token_count = length (tk_encode ext t);
                  cache1 = cache @ [(t, token_count)];
                  cache2 = (if length cache1 > 1000 then tl cache1 else cache1)
              in (token_count, cache2)))
      else (length (tk_encode ext t), cache))"

text \<open>
  \<open>str(x)\<close> of dictionaries and lists: the items in insertion order, texts through \<open>repr\<close>.
\<close>

datatype pyobj =
  OStr pystr | OInt int | OBool bool | ONone | OList "pyobj list" | ODict "(pystr \<times> pyobj) list"

fun py_repr :: "(pystr \<Rightarrow> pystr) \<Rightarrow> pyobj \<Rightarrow> pystr" where
  "py_repr r (OStr s) = r s"
| "py_repr r (OInt i) = str_int i"
| "py_repr r (OBool b) = (if b then py ''True'' else py ''False'')"
| "py_repr r ONone = py ''None''"
| "py_repr r (OList xs) = py ''['' @ py_join (py '', '') (map (py_repr r) xs) @ py '']''"
| "py_repr r (ODict kvs) =
     py ''{'' @ py_join (py '', '') (map (\<lambda>kv. r (fst kv) @ py '': '' @ py_repr r (snd kv)) kvs)
     @ py ''}''"

text \<open>
  The compact dictionary of an element as an object, keys in the order in which
  \<open>_optimize_elements\<close> inserts them; a key is present when its value was stored.
\<close>

definition present :: "pystr \<Rightarrow> pystr \<Rightarrow> (pystr \<times> pyobj) list" where
  "present k v = (if v \<noteq> [] then [(k, OStr v)] else [])"

definition compact_obj :: "element \<Rightarrow> pyobj" where
  "compact_obj e =
     ODict ([(py ''type'', OStr (e_type e)),
             (py ''selector'', (case e_selector e of None \<Rightarrow> ONone | Some s \<Rightarrow> OStr s))]
            @ (if e_in_modal e then [(py ''in_modal'', OBool True)] else [])
            @ (if e_in_form e then [(py ''in_form'', OBool True)] else [])
            @ present (py ''text'') (e_text e)
            @ (case e_relevance_score e of None \<Rightarrow> [] | Some s \<Rightarrow> [(py ''relevance_score'', OInt s)])
            @ present (py ''href'') (e_href e)
            @ present (py ''id'') (e_id e)
            @ present (py ''input_type'') (e_input_type e)
            @ present (py ''placeholder'') (e_placeholder e))"

definition modal_obj :: "modal \<Rightarrow> pyobj" where
  "modal_obj m =
     ODict [(py ''has_form'', OBool (m_has_form m)), (py ''input_count'', OInt (m_input_count m)),
            (py ''selector'', OStr (m_selector m))]"

definition structure_obj :: "page_structure \<Rightarrow> pyobj" where
  "structure_obj s =
     ODict ((if breadcrumbs s \<noteq> []
             then [(py ''breadcrumbs'',
                    OList (map (\<lambda>b. ODict [(py ''text'', OStr (b_text b)),
                                            (py ''href'', OStr (b_href b))]) (breadcrumbs s)))]
             else [])
            @ (case current_section s of
                 None \<Rightarrow> []
               | Some (ty, preview) \<Rightarrow>
                   [(py ''current_section'',
                     ODict [(py ''type'', OStr ty), (py ''text_preview'', OStr preview)])])
            @ (if st_visible_modals s \<noteq> []
               then [(py ''visible_modals'', OList (map modal_obj (st_visible_modals s)))]
               else []))"

definition location_obj :: "location_context \<Rightarrow> pyobj" where
  "location_obj l =
     ODict ([(py ''description'', OStr (lc_description l)),
             (py ''visible_modals_count'', OInt (lc_visible_modals_count l)),
             (py ''has_forms'', OBool (lc_has_forms l))]
            @ (case lc_structure l of None \<Rightarrow> [] | Some s \<Rightarrow> [(py ''structure'', structure_obj s)]))"

definition visible_modals_obj :: "int \<times> modal list \<Rightarrow> pyobj" where
  "visible_modals_obj vm =
     ODict [(py ''count'', OInt (fst vm)), (py ''modals'', OList (map modal_obj (snd vm)))]"

text \<open>
  The one modal that the summaries keep: the first with a form, or else the first; its
  selector cut to 50 code points.
\<close>

definition important_modal :: "modal list \<Rightarrow> modal list" where
  "important_modal ms =
     (case filter m_has_form ms of
        m # _ \<Rightarrow> [m\<lparr>m_selector := take 50 (m_selector m)\<rparr>]
      | [] \<Rightarrow> (case ms of [] \<Rightarrow> [] | m # _ \<Rightarrow> [m\<lparr>m_selector := take 50 (m_selector m)\<rparr>]))"

definition optimize_location :: "location_context \<Rightarrow> location_context" where
  "optimize_location l =
     \<lparr>lc_description = take 200 (lc_description l),
      lc_visible_modals_count = lc_visible_modals_count l,
      lc_has_forms = lc_has_forms l,
      lc_structure =
        (case lc_structure l of
           None \<Rightarrow> None
         | Some s \<Rightarrow>
             Some \<lparr>breadcrumbs =
                      map (\<lambda>b. \<lparr>b_text = take 50 (b_text b), b_href = take 100 (b_href b)\<rparr>)
                        (take 5 (breadcrumbs s)),
                    current_section =
                      (case current_section s of
                         None \<Rightarrow> None
                       | Some (ty, preview) \<Rightarrow> Some (ty, take 150 preview)),
                    st_visible_modals = important_modal (st_visible_modals s)\<rparr>)\<rparr>"

subsection \<open>The element list\<close>

text \<open>
  The sort key of \<open>_optimize_elements\<close>, a tuple compared lexicographically, and
  \<open>sorted(..., reverse=True)\<close>, which is stable: elements with equal keys keep their order.
\<close>

definition sort_key_of :: "pystr option \<Rightarrow> element \<Rightarrow> int \<times> bool \<times> bool \<times> bool \<times> bool" where
  "sort_key_of task_type x =
     (let relevance_score = (case e_relevance_score x of None \<Rightarrow> 0 | Some s \<Rightarrow> s);
          boost =
            (if task_type = Some (py ''form'') then
               (if e_in_form x \<or> e_type x \<in> set [py ''button'', py ''input'', py ''select'',
                                                    py ''textarea''] then 20 else 0)
             else if task_type = Some (py ''navigation'') then
               (if e_type x \<in> set [py ''link'', py ''button''] \<or> e_href x \<noteq> [] then 15 else 0)
             else if task_type = Some (py ''reading'') then
               (if e_text x \<noteq> [] \<and> length (e_text x) > 50 then 10 else 0)
             else 0)
      in (relevance_score + boost, e_in_modal x, e_in_form x, e_id x \<noteq> [], e_text x \<noteq> []))"

definition sorted_reverse :: "('a \<Rightarrow> 'k::linorder) \<Rightarrow> 'a list \<Rightarrow> 'a list" where
  "sorted_reverse key xs = rev (sort_key key (rev xs))"

definition text_limit_of :: "pystr option \<Rightarrow> bool \<Rightarrow> bool \<Rightarrow> bool \<Rightarrow> int \<Rightarrow> nat" where
  "text_limit_of task_type is_in_modal is_in_form is_high_priority remaining_tokens =
     (if task_type = Some (py ''form'') then
        (if is_in_modal \<and> remaining_tokens > 200 then 120
         else if is_in_modal then 80
         else if is_in_form \<and> remaining_tokens > 200 then 80
         else if is_high_priority \<and> remaining_tokens > 200 then 60
         else if is_high_priority \<and> remaining_tokens > 100 then 40
         else 20)
      else if task_type = Some (py ''navigation'') then
        (if is_in_modal \<and> remaining_tokens > 200 then 80
         else if is_in_modal then 60
         else if is_high_priority \<and> remaining_tokens > 200 then 50
         else 30)
      else
        (if is_in_modal \<and> remaining_tokens > 200 then 100
         else if is_in_modal then 70
         else if is_in_form \<and> remaining_tokens > 200 then 70
         else if is_high_priority \<and> remaining_tokens > 200 then 60
         else if is_high_priority \<and> remaining_tokens > 100 then 40
         else if remaining_tokens > 50 then 25
         else 15))"

text \<open>
  One pass of the loop of \<open>_optimize_elements\<close> over an element, in its parts: the
  priority of the element, the compact dictionary built for the room that remains, its
  rendering \<open>str(compact_element)\<close>, and the smaller dictionary tried for an element of
  high priority that does not fit.
\<close>

definition is_high_priority :: "element \<Rightarrow> bool" where
  "is_high_priority element =
     (e_in_modal element \<or> e_in_form element
      \<or> (case e_relevance_score element of None \<Rightarrow> 0 | Some s \<Rightarrow> s) > 10
      \<or> e_id element \<noteq> [] \<or> e_type element \<in> set [py ''button'', py ''link''])"

definition compact_element_of :: "pystr option \<Rightarrow> int \<Rightarrow> element \<Rightarrow> element" where
  "compact_element_of task_type remaining_tokens element =
     (let text_limit = text_limit_of task_type (e_in_modal element) (e_in_form element)
                         (is_high_priority element) remaining_tokens
      in element\<lparr>e_text := take text_limit (e_text element),
                 e_href := (if remaining_tokens > 50 then e_href element else []),
                 e_input_type := (if remaining_tokens > 100 then e_input_type element else []),
                 e_placeholder := (if remaining_tokens > 100 then e_placeholder element else [])\<rparr>)"

definition smaller_element_of :: "int \<Rightarrow> element \<Rightarrow> element" where
  "smaller_element_of remaining_tokens compact_element =
     compact_element\<lparr>
       e_href := (if remaining_tokens < 50 then [] else e_href compact_element),
       e_placeholder := [],
       e_input_type := (if remaining_tokens < 30 then [] else e_input_type compact_element),
       e_text := take 20 (e_text compact_element)\<rparr>"

definition element_str :: "externals \<Rightarrow> element \<Rightarrow> pystr" where
  "element_str ext compact_element = py_repr (repr_text ext) (compact_obj compact_element)"

text \<open>
  The pass itself: the state is the list built so far, the running total and the token
  cache. An element of high priority that does not fit even when made smaller is added
  all the same when it is in a modal, or when its score is at least 5.
\<close>

definition place_element ::
  "externals \<Rightarrow> pystr option \<Rightarrow> int \<Rightarrow> (element list \<times> int) \<times> token_cache \<Rightarrow> element
     \<Rightarrow> (element list \<times> int) \<times> token_cache" where
  "place_element ext task_type max_tokens st element =
     (let optimized = fst (fst st); current_tokens = snd (fst st); cache = snd st;
          relevance_score = (case e_relevance_score element of None \<Rightarrow> 0 | Some s \<Rightarrow> s);
          remaining_tokens = max_tokens - current_tokens;
          compact_element = compact_element_of task_type remaining_tokens element;
          counted = count_tokens_cached ext cache (element_str ext compact_element);
          element_tokens = int (fst counted)
      in if current_tokens + element_tokens \<le> max_tokens then
           ((optimized @ [compact_element], current_tokens + element_tokens), snd counted)
         else if is_high_priority element then
           (let smaller = smaller_element_of remaining_tokens compact_element;
                recounted = count_tokens_cached ext (snd counted) (element_str ext smaller);
                element_tokens' = int (fst recounted)
            in if current_tokens + element_tokens' \<le> max_tokens
                  \<or> e_in_modal element \<or> (e_in_form element \<and> relevance_score \<ge> 5)
                  \<or> relevance_score \<ge> 5
               then ((optimized @ [smaller], current_tokens + element_tokens'), snd recounted)
               else ((optimized, current_tokens), snd recounted))
         else ((optimized, current_tokens), snd counted))"

definition optimize_elements ::
  "externals \<Rightarrow> token_cache \<Rightarrow> element list \<Rightarrow> int \<Rightarrow> pystr option
     \<Rightarrow> element list \<times> token_cache" where
  "optimize_elements ext cache elements max_tokens task_type =
     (if elements = [] then ([], cache)
      else
        let modal_elements = filter e_in_modal elements;
            form_elements = filter (\<lambda>e. e_in_form e \<and> \<not> e_in_modal e) elements;
            other_elements = filter (\<lambda>e. \<not> e_in_modal e \<and> \<not> e_in_form e) elements;
            sorted_elements = sorted_reverse (sort_key_of task_type) modal_elements
                              @ sorted_reverse (sort_key_of task_type) form_elements
                              @ sorted_reverse (sort_key_of task_type) other_elements;
            final = foldl (place_element ext task_type max_tokens) (([], 0), cache) sorted_elements
        in (fst (fst final), snd final))"

text \<open>
  \<open>_truncate_text\<close>: the text cut to a number of tokens, through the tokenizer. The
  callers pass a count of at least 100.
\<close>

definition truncate_text :: "externals \<Rightarrow> pystr \<Rightarrow> int \<Rightarrow> pystr" where
  "truncate_text ext t max_tokens =
     (if t = [] then []
      else
        let tokens = tk_encode ext t in
        if int (length tokens) \<le> max_tokens then t
        else tk_decode ext (take (nat max_tokens) tokens))"

text \<open>\<open>x or y\<close> on integers.\<close>

definition int_or :: "int option \<Rightarrow> int \<Rightarrow> int" where
  "int_or x y = (case x of None \<Rightarrow> y | Some v \<Rightarrow> if v = 0 then y else v)"

text \<open>
  \<open>optimize_page_info\<close>: a fifth of the ceiling (at least 500 tokens) is reserved, the
  elements get seven tenths of the rest, and the text preview what the elements and the
  summaries of location and modals leave of it, at least 100 tokens.
\<close>

definition optimize_page_info ::
  "externals \<Rightarrow> config \<Rightarrow> token_cache \<Rightarrow> page_info \<Rightarrow> int option \<Rightarrow> pystr option
     \<Rightarrow> optimized_page \<times> token_cache" where
  "optimize_page_info ext conf cache page max_tokens_arg task_type =
     (let max_tokens = int_or max_tokens_arg (MAX_CONTEXT_TOKENS conf);
          reserved_tokens = max 500 (fl_fifth ext max_tokens);
          available_tokens = max_tokens - reserved_tokens;
          optimized_location = map_option optimize_location (p_location_context page);
          optimized_modals =
            (case p_visible_modals page of
               None \<Rightarrow> None
             | Some vm \<Rightarrow>
                 (case important_modal (snd vm) of
                    [] \<Rightarrow> None
                  | ms \<Rightarrow> Some (fst vm, ms)));
          elements_tokens = fl_seven_tenths ext available_tokens;
          oe = optimize_elements ext cache (p_interactive_elements page) elements_tokens task_type;
          optimized_elements = fst oe;
          c1 = count_tokens_cached ext (snd oe)
                 (py_repr (repr_text ext) (OList (map compact_obj optimized_elements)));
          c2 = (case p_location_context page of
                  None \<Rightarrow> (0, snd c1)
                | Some l \<Rightarrow>
                    count_tokens_cached ext (snd c1)
                      (py_repr (repr_text ext) (location_obj (optimize_location l))));
          c3 = (case p_visible_modals page of
                  None \<Rightarrow> (0, snd c2)
                | Some vm \<Rightarrow>
                    count_tokens_cached ext (snd c2)
                      (py_repr (repr_text ext)
                         (case optimized_modals of
                            None \<Rightarrow> ODict []
                          | Some om \<Rightarrow> visible_modals_obj om)));
          used_tokens = int (fst c1) + int (fst c2) + int (fst c3);
          text_tokens = max 100 (available_tokens - used_tokens)
      in (\<lparr>o_url = p_url page, o_title = p_title page,
           o_interactive_elements = optimized_elements,
           o_visible_text_preview = truncate_text ext (p_visible_text_preview page) text_tokens,
           o_location_context = optimized_location,
           o_visible_modals = optimized_modals,
           o_completed_steps = [], o_extracted_info = [], o_requirements_status = []\<rparr>,
          snd c3))"

subsection \<open>Rendering the context\<close>

definition lbl_current_page :: pystr where \<comment> \<open>current page: \<close>
  "lbl_current_page =
     [1058, 1077, 1082, 1091, 1097, 1072, 1103, 32, 1089, 1090, 1088, 1072, 1085, 1080, 1094,
      1072, 58, 32]"

definition lbl_title :: pystr where \<comment> \<open>title: \<close>
  "lbl_title =
     [1047, 1072, 1075, 1086, 1083, 1086, 1074, 1086, 1082, 58, 32]"

definition lbl_location :: pystr where \<comment> \<open>newline, pin sign, location: \<close>
  "lbl_location =
     [10, 128205, 32, 1052, 1077, 1089, 1090, 1086, 1087, 1086, 1083, 1086, 1078, 1077, 1085,
      1080, 1077, 58, 32]"

definition lbl_navigation :: pystr where \<comment> \<open>navigation: \<close>
  "lbl_navigation =
     [32, 32, 32, 1053, 1072, 1074, 1080, 1075, 1072, 1094, 1080, 1103, 58, 32]"

definition lbl_elements_1 :: pystr where \<comment> \<open>newline, elements available on the page (total: \<close>
  "lbl_elements_1 =
     [10, 1044, 1086, 1089, 1090, 1091, 1087, 1085, 1099, 1077, 32, 1101, 1083, 1077, 1084,
      1077, 1085, 1090, 1099, 32, 1085, 1072, 32, 1089, 1090, 1088, 1072, 1085, 1080, 1094,
      1077, 32, 40, 1074, 1089, 1077, 1075, 1086, 58, 32]"

definition lbl_form_elements :: pystr where \<comment> \<open>newline, memo sign, ELEMENTS IN A FORM:\<close>
  "lbl_form_elements =
     [10, 128221, 32, 1069, 1051, 1045, 1052, 1045, 1053, 1058, 1067, 32, 1042, 32, 1060, 1054,
      1056, 1052, 1045, 58]"

definition lbl_relevance :: pystr where \<comment> \<open> [relevance: \<close>
  "lbl_relevance =
     [32, 91, 1088, 1077, 1083, 1077, 1074, 1072, 1085, 1090, 1085, 1086, 1089, 1090, 1100, 58,
      32]"

definition lbl_other_elements :: pystr where \<comment> \<open>newline, other elements:\<close>
  "lbl_other_elements =
     [10, 1054, 1089, 1090, 1072, 1083, 1100, 1085, 1099, 1077, 32, 1101, 1083, 1077, 1084,
      1077, 1085, 1090, 1099, 58]"

definition lbl_visible_text :: pystr where \<comment> \<open>newline, visible text on the page (fragment): newline\<close>
  "lbl_visible_text =
     [10, 1042, 1080, 1076, 1080, 1084, 1099, 1081, 32, 1090, 1077, 1082, 1089, 1090, 32, 1085,
      1072, 32, 1089, 1090, 1088, 1072, 1085, 1080, 1094, 1077, 32, 40, 1092, 1088, 1072, 1075,
      1084, 1077, 1085, 1090, 41, 58, 10]"

definition lbl_completed_steps :: pystr where \<comment> \<open>newline, check mark, completed steps of the task:\<close>
  "lbl_completed_steps =
     [10, 10003, 32, 1042, 1099, 1087, 1086, 1083, 1085, 1077, 1085, 1085, 1099, 1077, 32, 1096,
      1072, 1075, 1080, 32, 1079, 1072, 1076, 1072, 1095, 1080, 58]"

definition lbl_extracted_info :: pystr where \<comment> \<open>newline, page sign, extracted information (already read, do NOT extract again):\<close>
  "lbl_extracted_info =
     [10, 128196, 32, 1048, 1079, 1074, 1083, 1077, 1095, 1077, 1085, 1085, 1072, 1103, 32,
      1080, 1085, 1092, 1086, 1088, 1084, 1072, 1094, 1080, 1103, 32, 40, 1091, 1078, 1077, 32,
      1087, 1088, 1086, 1095, 1080, 1090, 1072, 1085, 1086, 44, 32, 1053, 1045, 32, 1080, 1079,
      1074, 1083, 1077, 1082, 1072, 1081, 32, 1087, 1086, 1074, 1090, 1086, 1088, 1085, 1086,
      41, 58]"

definition lbl_requirements :: pystr where \<comment> \<open>newline, pushpin sign, progress on the requirements of the task: newline\<close>
  "lbl_requirements =
     [10, 128204, 32, 1055, 1088, 1086, 1075, 1088, 1077, 1089, 1089, 32, 1087, 1086, 32, 1090,
      1088, 1077, 1073, 1086, 1074, 1072, 1085, 1080, 1103, 1084, 32, 1079, 1072, 1076, 1072,
      1095, 1080, 58, 10]"

definition lbl_history :: pystr where \<comment> \<open>newline, history of the last actions:\<close>
  "lbl_history =
     [10, 1048, 1089, 1090, 1086, 1088, 1080, 1103, 32, 1087, 1086, 1089, 1083, 1077, 1076,
      1085, 1080, 1093, 32, 1076, 1077, 1081, 1089, 1090, 1074, 1080, 1081, 58]"

definition mark_success :: pystr where \<comment> \<open>check mark\<close>
  "mark_success =
     [10003]"

definition mark_failure :: pystr where \<comment> \<open>ballot x\<close>
  "mark_failure =
     [10007]"

definition lbl_arrow :: pystr where \<comment> \<open>five spaces, arrow, space\<close>
  "lbl_arrow =
     [32, 32, 32, 32, 32, 8594, 32]"

text \<open>The format \<open>:.1f\<close> on an integer score.\<close>

definition format_1f :: "int \<Rightarrow> pystr" where
  "format_1f i = str_int i @ py ''.0''"

definition is_truthy_selector :: "pystr option \<Rightarrow> bool" where
  "is_truthy_selector s = (case s of None \<Rightarrow> False | Some t \<Rightarrow> t \<noteq> [])"

definition form_element_line :: "nat \<Rightarrow> element \<Rightarrow> pystr" where
  "form_element_line i elem =
     py ''  '' @ str_nat i @ py ''. '' @ e_type elem
     @ (if e_text elem \<noteq> [] then py '' - '' @ [39] @ e_text elem @ [39] else [])
     @ (if is_truthy_selector (e_selector elem) then py '' ('' @ the (e_selector elem) @ py '')''
        else [])
     @ (if e_placeholder elem \<noteq> []
        then py '' [placeholder: '' @ [39] @ e_placeholder elem @ [39] @ py '']'' else [])
     @ (case e_relevance_score elem of
          None \<Rightarrow> []
        | Some s \<Rightarrow> lbl_relevance @ format_1f s @ py '']'')"

definition other_element_line :: "nat \<Rightarrow> element \<Rightarrow> pystr" where
  "other_element_line i elem =
     py ''  '' @ str_nat i @ py ''. '' @ e_type elem
     @ (if e_text elem \<noteq> [] then py '' - '' @ [39] @ e_text elem @ [39] else [])
     @ (if is_truthy_selector (e_selector elem) then py '' ('' @ the (e_selector elem) @ py '')''
        else [])
     @ (if e_href elem \<noteq> []
        then py '' -> '' @ (if length (e_href elem) > 60 then take 57 (e_href elem) @ py ''...''
                            else e_href elem)
        else [])
     @ (case e_relevance_score elem of
          None \<Rightarrow> []
        | Some s \<Rightarrow> lbl_relevance @ format_1f s @ py '']'')"

definition numbered :: "(nat \<Rightarrow> 'a \<Rightarrow> 'b) \<Rightarrow> 'a list \<Rightarrow> 'b list" where
  "numbered f xs = map (\<lambda>(i, x). f (Suc i) x) (enumerate 0 xs)"

definition history_lines :: "nat \<Rightarrow> history_entry \<Rightarrow> pystr list" where
  "history_lines i action =
     (py ''  '' @ str_nat i @ py ''. ''
        @ (if r_success (h_result action) then mark_success else mark_failure)
        @ py '' '' @ h_action action)
     # (if r_message (h_result action) \<noteq> [] then [lbl_arrow @ r_message (h_result action)]
        else [])"

definition format_context :: "optimized_page \<Rightarrow> history_entry list \<Rightarrow> pystr" where
  "format_context page history =
     (let elements = o_interactive_elements page;
          form_elements = filter e_in_form elements;
          other_elements = filter (\<lambda>e. \<not> e_in_form e) elements;
          visible_text = o_visible_text_preview page;
          parts =
            [lbl_current_page @ o_url page, lbl_title @ o_title page]
            @ (case o_location_context page of
                 None \<Rightarrow> []
               | Some l \<Rightarrow>
                   (if lc_description l \<noteq> [] then [lbl_location @ lc_description l] else [])
                   @ (case lc_structure l of
                        None \<Rightarrow> []
                      | Some s \<Rightarrow>
                          (if breadcrumbs s \<noteq> []
                           then [lbl_navigation @ py_join (py '' > '') (map b_text (breadcrumbs s))]
                           else [])))
            @ (if elements \<noteq> [] then
                 [lbl_elements_1 @ str_nat (length elements) @ py ''):'']
                 @ (if form_elements \<noteq> []
                    then lbl_form_elements # numbered form_element_line form_elements else [])
                 @ (if other_elements \<noteq> []
                    then lbl_other_elements # numbered other_element_line other_elements else [])
               else [])
            @ (if visible_text \<noteq> [] then [lbl_visible_text @ take 300 visible_text] else [])
            @ (if o_completed_steps page \<noteq> []
               then lbl_completed_steps
                    # numbered (\<lambda>i step. py ''  '' @ str_nat i @ py ''. '' @ step)
                        (o_completed_steps page)
               else [])
            @ (if o_extracted_info page \<noteq> []
               then lbl_extracted_info
                    # map (\<lambda>(desc, t). py ''  - '' @ desc @ py '': '' @ take 200 t
                                         @ (if length t > 200 then py ''...'' else []))
                        (o_extracted_info page)
               else [])
            @ (if o_requirements_status page \<noteq> []
               then [lbl_requirements @ o_requirements_status page] else [])
            @ (if history \<noteq> []
               then lbl_history # concat (numbered history_lines (last_n 5 history))
               else [])
      in py_join [10] parts)"

section \<open>ContextExtractor\<close>

definition STOP_WORDS :: "pystr list" where
  "STOP_WORDS =
      [[1080],
       [1074],
       [1085, 1072],
       [1089],
       [1087, 1086],
       [1076, 1083, 1103],
       [1086, 1090],
       [1076, 1086],
       [1080, 1079],
       [1082],
       [1086],
       [1086, 1073],
       [1089, 1086],
       [116, 104, 101],
       [97],
       [97, 110],
       [97, 110, 100],
       [111, 114],
       [105, 110],
       [111, 110],
       [97, 116],
       [116, 111],
       [102, 111, 114],
       [111, 102],
       [119, 105, 116, 104]]"

definition TASK_KEYWORDS :: "(pystr \<times> pystr list) list" where
  "TASK_KEYWORDS =
      [(py ''navigation'',
        [[1085, 1072, 1081, 1090, 1080],
         [1085, 1072, 1081, 1076, 1080],
         [1086, 1090, 1082, 1088, 1099, 1090, 1100],
         [1086, 1090, 1082, 1088, 1086, 1081],
         [1087, 1077, 1088, 1077, 1081, 1090, 1080],
         [1087, 1077, 1088, 1077, 1081, 1076, 1080],
         [1089, 1089, 1099, 1083, 1082, 1072],
         [108, 105, 110, 107],
         [102, 105, 110, 100],
         [111, 112, 101, 110],
         [103, 111]]),
       (py ''form'',
        [[1092, 1086, 1088, 1084, 1072],
         [1079, 1072, 1087, 1086, 1083, 1085, 1080, 1090, 1100],
         [1079, 1072, 1087, 1086, 1083, 1085, 1080],
         [1074, 1074, 1077, 1089, 1090, 1080],
         [1074, 1074, 1077, 1076, 1080],
         [1087, 1086, 1083, 1077],
         [102, 105, 101, 108, 100],
         [102, 111, 114, 109],
         [102, 105, 108, 108],
         [105, 110, 112, 117, 116]]),
       (py ''extraction'',
        [[1087, 1088, 1086, 1095, 1080, 1090, 1072, 1090, 1100],
         [1087, 1088, 1086, 1095, 1080, 1090, 1072, 1081],
         [1080, 1079, 1074, 1083, 1077, 1095, 1100],
         [1080, 1079, 1074, 1083, 1077, 1082, 1080],
         [1085, 1072, 1081, 1090, 1080, 32, 1080, 1085, 1092, 1086, 1088, 1084, 1072, 1094, 1080, 1102],
         [114, 101, 97, 100],
         [101, 120, 116, 114, 97, 99, 116],
         [103, 101, 116]]),
       (py ''action'',
        [[1082, 1083, 1080, 1082, 1085, 1091, 1090, 1100],
         [1082, 1083, 1080, 1082, 1085, 1080],
         [1085, 1072, 1078, 1072, 1090, 1100],
         [1085, 1072, 1078, 1084, 1080],
         [99, 108, 105, 99, 107],
         [112, 114, 101, 115, 115],
         [98, 117, 116, 116, 111, 110]])]"

text \<open>
  \<open>_extract_keywords\<close>: \<open>re.findall(r'\b\w+\b', ...)\<close> gives the maximal runs of word
  characters; those longer than two code points that are no stop words are kept.
\<close>

fun word_runs_go :: "pystr \<Rightarrow> pystr \<Rightarrow> pystr list" where
  "word_runs_go cur [] = (if cur = [] then [] else [cur])"
| "word_runs_go cur (c # cs) =
     (if is_word c then word_runs_go (cur @ [c]) cs
      else (if cur = [] then word_runs_go [] cs else cur # word_runs_go [] cs))"

definition extract_keywords :: "pystr \<Rightarrow> pystr list" where
  "extract_keywords t =
     filter (\<lambda>w. length w > 2 \<and> w \<notin> set STOP_WORDS) (word_runs_go [] (lower t))"

definition detect_task_type :: "pystr \<Rightarrow> pystr option" where
  "detect_task_type task_description =
     (case filter (\<lambda>(task_type, keywords). list_ex (\<lambda>kw. py_in kw (lower task_description)) keywords)
             TASK_KEYWORDS of
        [] \<Rightarrow> None
      | (task_type, _) # _ \<Rightarrow> Some task_type)"

text \<open>
  \<open>_calculate_relevance_score\<close>, on the compact elements that \<open>prepare_context\<close> passes:
  they have no \<open>in_main_content\<close> and \<open>in_footer_header\<close> keys, and no \<open>visible\<close> key, which
  reads as \<open>True\<close> and adds the final 1.
\<close>

definition keyword_score :: "element \<Rightarrow> pystr \<Rightarrow> int" where
  "keyword_score element keyword =
     (let element_text = lower (e_text element);
          element_href = lower (e_href element);
          element_placeholder = lower (e_placeholder element)
      in (if py_in keyword element_text then 3 else 0)
         + (if py_in keyword element_href then 2 else 0)
         + (if py_in keyword element_placeholder then 2 else 0)
         + (if length keyword > 3 \<and> (py_in keyword element_text \<or> py_in element_text keyword)
            then 1 else 0))"

definition calculate_relevance_score :: "element \<Rightarrow> pystr list \<Rightarrow> pystr option \<Rightarrow> int" where
  "calculate_relevance_score element task_keywords task_type =
     sum_list (map (keyword_score element) task_keywords)
     + (case task_type of
          None \<Rightarrow> 0
        | Some ty \<Rightarrow>
            sum_list (map (\<lambda>task_kw. if py_in task_kw (lower (e_text element)) then 2 else 0)
                        (dict_get TASK_KEYWORDS ty [])))
     + (if e_id element \<noteq> [] then 1 else 0)
     + 1"

text \<open>
  \<open>extract_relevant_elements\<close>: the elements with a positive score, by descending score,
  then those elements with an \<open>id\<close> whose selector is not among them, with score 1. (Compact
  elements have no \<open>data_\<close> keys.)
\<close>

definition extract_relevant_elements :: "element list \<Rightarrow> pystr \<Rightarrow> element list" where
  "extract_relevant_elements elements task_description =
     (if elements = [] then []
      else
        let task_keywords = extract_keywords task_description;
            task_type = detect_task_type task_description;
            scored =
              map (\<lambda>e. e\<lparr>e_relevance_score :=
                           Some (calculate_relevance_score e task_keywords task_type)\<rparr>)
                (filter (\<lambda>e. calculate_relevance_score e task_keywords task_type > 0) elements);
            scored_elements =
              sorted_reverse (\<lambda>x. case e_relevance_score x of None \<Rightarrow> 0 | Some s \<Rightarrow> s) scored;
            scored_selectors = set (map e_selector scored_elements);
            important_elements =
              filter (\<lambda>e. e_selector e \<notin> scored_selectors \<and> e_id e \<noteq> []) elements
        in scored_elements @ map (\<lambda>e. e\<lparr>e_relevance_score := Some 1\<rparr>) important_elements)"

section \<open>ContextManager: preparing the context\<close>

definition form_task_words :: "pystr list" where
  "form_task_words =
      [[1079, 1072, 1087, 1086, 1083, 1085, 1080],
       [1074, 1074, 1077, 1076, 1080],
       [1092, 1086, 1088, 1084, 1072],
       [102, 105, 108, 108],
       [102, 111, 114, 109],
       [105, 110, 112, 117, 116]]"

definition navigation_task_words :: "pystr list" where
  "navigation_task_words =
      [[1085, 1072, 1081, 1076, 1080],
       [1087, 1077, 1088, 1077, 1081, 1076, 1080],
       [1086, 1090, 1082, 1088, 1086, 1081],
       [110, 97, 118, 105, 103, 97, 116, 101],
       [103, 111, 32, 116, 111],
       [102, 105, 110, 100]]"

definition reading_task_words :: "pystr list" where
  "reading_task_words =
      [[1087, 1088, 1086, 1095, 1080, 1090, 1072, 1081],
       [1080, 1079, 1074, 1083, 1077, 1082, 1080],
       [114, 101, 97, 100],
       [101, 120, 116, 114, 97, 99, 116]]"

definition task_type_of :: "pystr option \<Rightarrow> pystr option" where
  "task_type_of the_task =
     (case the_task of
        None \<Rightarrow> None
      | Some task \<Rightarrow>
          if task = [] then None
          else if list_ex (\<lambda>kw. py_in kw (lower task)) form_task_words then Some (py ''form'')
          else if list_ex (\<lambda>kw. py_in kw (lower task)) navigation_task_words
            then Some (py ''navigation'')
          else if list_ex (\<lambda>kw. py_in kw (lower task)) reading_task_words then Some (py ''reading'')
          else None)"

text \<open>
  The first part of \<open>prepare_context\<close>: the dictionary that is rendered first, from the
  optimized page, the relevant elements, the page's own location, and the manager's
  steps, extracted texts and requirement status.
\<close>

definition assemble_page ::
  "externals \<Rightarrow> config \<Rightarrow> context_manager \<Rightarrow> page_info \<Rightarrow> int
     \<Rightarrow> optimized_page \<times> token_cache" where
  "assemble_page ext conf m page max_tokens =
     (let opt = optimize_page_info ext conf (token_count_cache m) page (Some max_tokens)
                  (task_type_of (current_task m));
          optimized = fst opt;
          relevant_elements =
            (case current_task m of
               None \<Rightarrow> []
             | Some task \<Rightarrow>
                 if task = [] then []
                 else extract_relevant_elements (o_interactive_elements optimized) task);
          optimized1 = (if relevant_elements \<noteq> []
                        then optimized\<lparr>o_interactive_elements := relevant_elements\<rparr>
                        else optimized);
          optimized2 = (case p_location_context page of
                          None \<Rightarrow> optimized1
                        | Some l \<Rightarrow> optimized1\<lparr>o_location_context := Some l\<rparr>)
      in (optimized2\<lparr>
            o_completed_steps := completed_steps m,
            o_extracted_info :=
              map (\<lambda>(desc, t). (desc, take 500 t @ (if length t > 500 then py ''...'' else [])))
                (extracted_info m),
            o_requirements_status := get_requirements_status m\<rparr>,
          snd opt))"

text \<open>
  The reductions of \<open>prepare_context\<close> for a context that measures above the ceiling.
  The first is light when the ceiling is above 0.8 of the measure (element texts cut to
  30, the preview to 500 code points) and strong otherwise (the elements scoring above 5
  and a share of the others, the preview cut to 200); the history is reduced to the
  important and the last three records, at most five. The second keeps at most 15
  elements, drops the preview and keeps two records of history.
\<close>

definition score_of :: "element \<Rightarrow> int" where
  "score_of e = (case e_relevance_score e of None \<Rightarrow> 0 | Some s \<Rightarrow> s)"

definition combined_history :: "history_entry list \<Rightarrow> history_entry list" where
  "combined_history history =
     (let important_history =
            filter (\<lambda>h. h_action h = py ''navigate''
                        \<or> (h_action h = py ''click_element'' \<and> r_success (h_result h))
                        \<or> h_action h = py ''task_complete'') history;
          recent_history = (if length history > 3 then last_n 3 history else history)
      in important_history @ filter (\<lambda>h. h \<notin> set important_history) recent_history)"

definition reduce_once ::
  "externals \<Rightarrow> optimized_page \<Rightarrow> int \<Rightarrow> int \<Rightarrow> optimized_page \<times> element list" where
  "reduce_once ext optimized max_tokens context_tokens =
     (let elements = o_interactive_elements optimized in
      if fl_ratio_above_0_8 ext max_tokens context_tokens then
        (let shortened = map (\<lambda>e. if e_text e \<noteq> [] \<and> length (e_text e) > 30
                                    then e\<lparr>e_text := take 30 (e_text e)\<rparr> else e) elements
         in (optimized\<lparr>o_interactive_elements := shortened,
                       o_visible_text_preview := take 500 (o_visible_text_preview optimized)\<rparr>,
             filter (\<lambda>e. score_of e > 5) shortened))
      else
        (let important_elements = filter (\<lambda>e. score_of e > 5) elements;
             less_important_elements = filter (\<lambda>e. score_of e \<le> 5) elements;
             keep_count = max 10 (fl_scale ext (length less_important_elements) max_tokens
                                    context_tokens)
         in (optimized\<lparr>o_interactive_elements :=
                         important_elements @ take (nat keep_count) less_important_elements,
                       o_visible_text_preview := take 200 (o_visible_text_preview optimized)\<rparr>,
             important_elements)))"

definition reduce_twice :: "optimized_page \<Rightarrow> element list \<Rightarrow> optimized_page" where
  "reduce_twice optimized important_elements =
     (let important =
            (if important_elements = [] then
               (let current_elements = o_interactive_elements optimized;
                    high = filter (\<lambda>e. score_of e > 5) current_elements
                in if high \<noteq> [] then high else take 15 current_elements)
             else important_elements)
      in optimized\<lparr>o_interactive_elements := take 15 important, o_visible_text_preview := []\<rparr>)"

text \<open>
  \<open>prepare_context\<close>. The ceiling is the argument, or the configured one when the argument
  is absent or 0. The quotient \<open>max_tokens / context_tokens\<close> raises when the measure is 0,
  which takes a negative ceiling. The manager comes back with its token cache as the
  counting left it; nothing else of it is written.
\<close>

datatype arith_error = ZeroDivisionError

definition prepare_context ::
  "externals \<Rightarrow> config \<Rightarrow> context_manager \<Rightarrow> page_info \<Rightarrow> int option
     \<Rightarrow> (arith_error + pystr) \<times> context_manager" where
  "prepare_context ext conf m page max_tokens_arg =
     (let max_tokens = int_or max_tokens_arg (MAX_CONTEXT_TOKENS conf);
          assembled = assemble_page ext conf m page max_tokens;
          optimized = fst assembled;
          context = format_context optimized (cm_history m);
          c1 = count_tokens_cached ext (snd assembled) context;
          context_tokens = int (fst c1)
      in if context_tokens > max_tokens then
           (if context_tokens = 0 then (Inl ZeroDivisionError, m\<lparr>token_count_cache := snd c1\<rparr>)
            else
              let reduced = reduce_once ext optimized max_tokens context_tokens;
                  combined = combined_history (cm_history m);
                  context2 = format_context (fst reduced) (last_n 5 combined);
                  c2 = count_tokens_cached ext (snd c1) context2
              in if int (fst c2) > max_tokens then
                   (Inr (format_context (reduce_twice (fst reduced) (snd reduced))
                           (if length combined > 2 then last_n 2 combined else combined)),
                    m\<lparr>token_count_cache := snd c2\<rparr>)
                 else (Inr context2, m\<lparr>token_count_cache := snd c2\<rparr>))
         else (Inr context, m\<lparr>token_count_cache := snd c1\<rparr>))"

subsection \<open>Reference notions for the context\<close>

text \<open>
  A token cache is sound when every count in it is the tokenizer's count of its text.
  \<open>count_tokens\<close> is the only writer of the cache, and it keeps that. The measure of a
  text is its number of tokens; the three contexts are the renderings that
  \<open>prepare_context\<close> can return: the first, the one after the first reduction and the one
  after the second.
\<close>

definition cache_ok :: "externals \<Rightarrow> token_cache \<Rightarrow> bool" where
  "cache_ok ext cache = (\<forall>(t, n) \<in> set cache. n = length (tk_encode ext t))"

definition token_measure :: "externals \<Rightarrow> pystr \<Rightarrow> int" where
  "token_measure ext t = int (length (tk_encode ext t))"

definition first_context :: "externals \<Rightarrow> config \<Rightarrow> context_manager \<Rightarrow> page_info \<Rightarrow> int \<Rightarrow> pystr" where
  "first_context ext conf m page max_tokens =
     format_context (fst (assemble_page ext conf m page max_tokens)) (cm_history m)"

definition second_context :: "externals \<Rightarrow> config \<Rightarrow> context_manager \<Rightarrow> page_info \<Rightarrow> int \<Rightarrow> pystr" where
  "second_context ext conf m page max_tokens =
     format_context
       (fst (reduce_once ext (fst (assemble_page ext conf m page max_tokens)) max_tokens
               (token_measure ext (first_context ext conf m page max_tokens))))
       (last_n 5 (combined_history (cm_history m)))"

definition third_context :: "externals \<Rightarrow> config \<Rightarrow> context_manager \<Rightarrow> page_info \<Rightarrow> int \<Rightarrow> pystr" where
  "third_context ext conf m page max_tokens =
     (let reduced = reduce_once ext (fst (assemble_page ext conf m page max_tokens)) max_tokens
                      (token_measure ext (first_context ext conf m page max_tokens));
          combined = combined_history (cm_history m)
      in format_context (reduce_twice (fst reduced) (snd reduced))
           (if length combined > 2 then last_n 2 combined else combined))"

text \<open>
  Collaborators for running the assembly on examples: a tokenizer with one token for each
  code point, a \<open>repr\<close> that puts the text between single quotes, and the four
  floating-point computations in exact arithmetic. And a page with nothing on it.
\<close>

definition exact_arithmetic_tokenizer :: externals where
  "exact_arithmetic_tokenizer =
     \<lparr>tk_encode = (\<lambda>t. t), tk_decode = (\<lambda>tokens. tokens),
      repr_text = (\<lambda>t. [39] @ t @ [39]),
      fl_fifth = (\<lambda>n. if n \<ge> 0 then n div 5 else - ((- n) div 5)),
      fl_seven_tenths = (\<lambda>n. if n \<ge> 0 then 7 * n div 10 else - (7 * (- n) div 10)),
      fl_ratio_above_0_8 = (\<lambda>max_tokens context_tokens. 10 * max_tokens > 8 * context_tokens),
      fl_scale = (\<lambda>k max_tokens context_tokens.
                    if max_tokens \<ge> 0 then int k * max_tokens div context_tokens
                    else - (int k * (- max_tokens) div context_tokens))\<rparr>"

definition empty_page :: page_info where
  "empty_page =
     \<lparr>p_url = [], p_title = [], p_interactive_elements = [], p_visible_text_preview = [],
      p_location_context = None, p_visible_modals = None\<rparr>"

section \<open>MainAgent: completion and progress\<close>

definition msg_requirements_unmet :: pystr where \<comment> \<open>the requirements of the task are not met\<close>
  "msg_requirements_unmet =
     [1058, 1088, 1077, 1073, 1086, 1074, 1072, 1085, 1080, 1103, 32, 1079, 1072, 1076, 1072,
      1095, 1080, 32, 1085, 1077, 32, 1074, 1099, 1087, 1086, 1083, 1085, 1077, 1085, 1099]"

definition msg_task_not_done :: pystr where \<comment> \<open>the task is not done\<close>
  "msg_task_not_done =
     [1047, 1072, 1076, 1072, 1095, 1072, 32, 1085, 1077, 32, 1074, 1099, 1087, 1086, 1083,
      1085, 1077, 1085, 1072]"

definition msg_task_done :: pystr where \<comment> \<open>the task is done\<close>
  "msg_task_done =
     [1047, 1072, 1076, 1072, 1095, 1072, 32, 1074, 1099, 1087, 1086, 1083, 1085, 1077, 1085,
      1072]"

definition task_three_vacancies :: pystr where \<comment> \<open>a task text: respond to 3 vacancies\<close>
  "task_three_vacancies =
     [1086, 1090, 1082, 1083, 1080, 1082, 1085, 1080, 1089, 1100, 32, 1085, 1072, 32, 51, 32,
      1074, 1072, 1082, 1072, 1085, 1089, 1080, 1080]"

record agent =
  ag_sm :: state_manager
  ag_cm :: context_manager
  current_iteration :: int

text \<open>
  What one pass of the loop of \<open>execute_task\<close> does next: go on with the next pass
  (\<open>continue\<close>) or return the task's result.
\<close>

record task_result =
  tr_success :: bool
  tr_message :: pyval
  tr_iterations :: int

datatype step = Continue | Return task_result

text \<open>
  The answer of the validator's \<open>check_task_completion\<close>, an oracle request. The
  controller reads \<open>is_completed\<close> (absent: \<open>False\<close>), \<open>message\<close>, \<open>missing_steps\<close> and
  \<open>suggestions\<close>.
\<close>

record completion =
  is_completed :: bool
  c_message :: "pystr option"
  c_missing_steps :: "pystr list"
  c_suggestions :: "pystr list"

definition rejection :: "pystr \<Rightarrow> pystr list \<Rightarrow> pystr list \<Rightarrow> action_result" where
  "rejection reason missing sugg =
     \<lparr>r_success = False, r_error = Some reason, r_message = [], r_text = [], r_url = [],
      r_answer = [], r_page_changed = False, r_new_modals = False, r_new_forms = False,
      r_new_interactive = False, r_missing_steps = missing, r_suggestions = sugg\<rparr>"

text \<open>
  The branch of \<open>execute_task\<close> for a \<open>task_complete\<close> decision. \<open>check\<close> is the
  outcome of the completion check, consulted only once the requirements are met:
  \<open>None\<close> when the check raised, which the controller logs and then completes.
\<close>

definition on_task_complete ::
  "(history_entry list \<Rightarrow> int) \<Rightarrow> config \<Rightarrow> agent \<Rightarrow> params \<Rightarrow> completion option
     \<Rightarrow> step \<times> agent" where
  "on_task_complete cost conf ag parameters check =
     (let completed =
            (Return \<lparr>tr_success = True,
                     tr_message = dict_get parameters (py ''summary'') (PStr msg_task_done),
                     tr_iterations = current_iteration ag\<rparr>,
             ag\<lparr>ag_sm := (ag_sm ag)\<lparr>sm_state := COMPLETED\<rparr>\<rparr>) in
      if \<not> can_complete_task (ag_cm ag) then
        (let pending = get_pending_requirements_message (ag_cm ag);
             reason = (if pending \<noteq> [] then pending else msg_requirements_unmet) in
         (Continue,
          ag\<lparr>ag_cm := add_to_history cost conf (ag_cm ag) (py ''task_complete_rejected'')
                         (rejection reason [] [])\<rparr>))
      else
        (case check of
           Some c \<Rightarrow>
             if \<not> is_completed c then
               (Continue,
                ag\<lparr>ag_cm := add_to_history cost conf (ag_cm ag) (py ''task_complete_rejected'')
                      (rejection (case c_message c of None \<Rightarrow> msg_task_not_done | Some t \<Rightarrow> t)
                         (c_missing_steps c) (c_suggestions c))\<rparr>)
             else completed
         | None \<Rightarrow> completed))"







text \<open>
  After an action has been executed and recorded: \<open>update_progress\<close> is called when the
  result reports success.
\<close>

definition reflect_progress ::
  "context_manager \<Rightarrow> pystr \<times> params \<Rightarrow> action_result \<Rightarrow> context_manager" where
  "reflect_progress m decision action_result =
     (if r_success action_result then update_progress m decision action_result else m)"

text \<open>
  The ceilings that \<open>config.py\<close> takes when the environment sets none, a history measure
  that charges one token for each record, and the controller in its Deciding state for the
  task \<open>task_three_vacancies\<close> with a given number of achieved applications.
\<close>

definition default_config :: config where
  "default_config =
     \<lparr>MAX_CONTEXT_TOKENS = 3000, MAX_HISTORY_TOKENS = 2000, MAX_REQUEST_TOKENS = 25000,
      MAX_ITERATIONS = 50\<rparr>"

definition one_per_record :: "history_entry list \<Rightarrow> int" where
  "one_per_record h = int (length h)"

definition deciding_agent :: "int \<Rightarrow> agent" where
  "deciding_agent achieved =
     \<lparr>ag_sm = (sm_set_task new_state_manager task_three_vacancies)\<lparr>sm_state := DECIDING\<rparr>,
      ag_cm = (cm_set_task new_context_manager task_three_vacancies)
                \<lparr>progress_counters := [(py ''applications'', achieved)]\<rparr>,
      current_iteration = 7\<rparr>"

section \<open>MainAgent: deciding the next action\<close>

definition err_too_large_1 :: pystr where \<comment> \<open>the request is too large (\<close>
  "err_too_large_1 =
     [1047, 1072, 1087, 1088, 1086, 1089, 32, 1089, 1083, 1080, 1096, 1082, 1086, 1084, 32,
      1073, 1086, 1083, 1100, 1096, 1086, 1081, 32, 40]"

definition err_too_large_2 :: pystr where \<comment> \<open> tokens). The tool definitions take \<close>
  "err_too_large_2 =
     [32, 1090, 1086, 1082, 1077, 1085, 1086, 1074, 41, 46, 32, 84, 111, 111, 108, 115, 32, 100,
      101, 102, 105, 110, 105, 116, 105, 111, 110, 115, 32, 1079, 1072, 1085, 1080, 1084, 1072,
      1102, 1090, 32]"

definition err_too_large_3 :: pystr where \<comment> \<open> tokens.\<close>
  "err_too_large_3 =
     [32, 1090, 1086, 1082, 1077, 1085, 1086, 1074, 46]"

definition err_no_function_call :: pystr where \<comment> \<open>the model did not call a function although it must; the text received: \<close>
  "err_no_function_call =
     [1052, 1086, 1076, 1077, 1083, 1100, 32, 1085, 1077, 32, 1074, 1099, 1079, 1074, 1072,
      1083, 1072, 32, 1092, 1091, 1085, 1082, 1094, 1080, 1102, 44, 32, 1093, 1086, 1090, 1103,
      32, 1101, 1090, 1086, 32, 1086, 1073, 1103, 1079, 1072, 1090, 1077, 1083, 1100, 1085,
      1086, 46, 32, 1055, 1086, 1083, 1091, 1095, 1077, 1085, 32, 1090, 1077, 1082, 1089, 1090,
      58, 32]"

definition err_no_action :: pystr where \<comment> \<open>the action could not be determined\<close>
  "err_no_action =
     [1053, 1077, 32, 1091, 1076, 1072, 1083, 1086, 1089, 1100, 32, 1086, 1087, 1088, 1077,
      1076, 1077, 1083, 1080, 1090, 1100, 32, 1076, 1077, 1081, 1089, 1090, 1074, 1080, 1077]"

definition err_decide_exception :: pystr where \<comment> \<open>error while deciding: \<close>
  "err_decide_exception =
     [1054, 1096, 1080, 1073, 1082, 1072, 32, 1087, 1088, 1080, 32, 1087, 1088, 1080, 1085,
      1103, 1090, 1080, 1080, 32, 1088, 1077, 1096, 1077, 1085, 1080, 1103, 58, 32]"

text \<open>
  \<open>ContextManager.estimate_request_size\<close>. \<open>count\<close> is \<open>TokenOptimizer.count_tokens\<close>;
  \<open>tools\<close> is the JSON rendering of the tool catalogue, \<open>None\<close> for an empty catalogue.
\<close>

definition estimate_request_size ::
  "(pystr \<Rightarrow> int) \<Rightarrow> pystr \<Rightarrow> pystr \<Rightarrow> pystr option \<Rightarrow> int" where
  "estimate_request_size count system_prompt user_message tools =
     (let system_tokens = count system_prompt;
          user_tokens = count user_message;
          tools_tokens = (case tools of None \<Rightarrow> 0 | Some tools_str \<Rightarrow> count tools_str)
      in system_tokens + user_tokens + tools_tokens)"

text \<open>
  The repair of an argument text that \<open>json.loads\<close> rejected. First the unclosed braces
  and brackets of a text that ends with neither are closed, by the difference of the
  counts; then an odd number of quotes is made even by a quote before the closing brace,
  unless the last quote is the first code point or is escaped.
\<close>

definition endswith :: "pystr \<Rightarrow> nat \<Rightarrow> bool" where
  "endswith s c = (s \<noteq> [] \<and> last s = c)"

definition close_structures :: "pystr \<Rightarrow> pystr" where
  "close_structures s =
     (if \<not> endswith s 125 \<and> \<not> endswith s 93 then
        (let open_braces = int (count_list s 123);
             close_braces = int (count_list s 125);
             open_brackets = int (count_list s 91);
             close_brackets = int (count_list s 93);
             missing_braces = open_braces - close_braces;
             missing_brackets = open_brackets - close_brackets
         in s @ replicate (nat missing_braces) 125 @ replicate (nat missing_brackets) 93)
      else s)"

definition close_quote :: "pystr \<Rightarrow> pystr" where
  "close_quote s =
     (if 34 \<in> set s \<and> odd (count_list s 34) then
        (let last_quote_idx = length s - 1 - length (takeWhile (\<lambda>c. c \<noteq> 34) (rev s)) in
         if last_quote_idx > 0 then
           (let before_quote = take last_quote_idx s;
                escape_count = length before_quote - length (rstrip_chars [92] before_quote)
            in if even escape_count then
                 (if \<not> endswith s 125 then s @ [34, 125]
                  else butlast s @ [34] @ [last s])
               else s)
         else s)
      else s)"

definition repair_json :: "pystr \<Rightarrow> pystr" where
  "repair_json args_str = close_quote (close_structures (py_strip args_str))"

text \<open>
  \<open>re.findall\<close> for the pattern \<open>"(\w+)":\s*"([^"]*)"\<close>: a quoted run of word
  characters, a colon, optional whitespace and a quoted run without quotes. Each part is
  greedy and stops at a code point the next part needs, so a match at a position is
  unique; the search resumes after a match, or one code point further.
\<close>

definition simple_pair_at :: "pystr \<Rightarrow> ((pystr \<times> pystr) \<times> pystr) option" where
  "simple_pair_at s =
     (case s of
        [] \<Rightarrow> None
      | c # r \<Rightarrow>
          if c \<noteq> 34 then None
          else
            let key = takeWhile is_word r; r1 = dropWhile is_word r in
            if key = [] then None
            else (case r1 of
                    q # colon # r2 \<Rightarrow>
                      if q \<noteq> 34 \<or> colon \<noteq> 58 then None
                      else (case dropWhile is_space r2 of
                              [] \<Rightarrow> None
                            | q2 # r4 \<Rightarrow>
                                if q2 \<noteq> 34 then None
                                else (case dropWhile (\<lambda>c. c \<noteq> 34) r4 of
                                        [] \<Rightarrow> None
                                      | q3 # r6 \<Rightarrow>
                                          Some ((key, takeWhile (\<lambda>c. c \<noteq> 34) r4), r6)))
                  | _ \<Rightarrow> None))"

text \<open>
  The search over the text: the counter skips the code points of a match just found.
\<close>

fun simple_params_go :: "nat \<Rightarrow> pystr \<Rightarrow> (pystr \<times> pystr) list" where
  "simple_params_go k [] = []"
| "simple_params_go (Suc k) (c # cs) = simple_params_go k cs"
| "simple_params_go 0 (c # cs) =
     (case simple_pair_at (c # cs) of
        Some (kv, rest) \<Rightarrow> kv # simple_params_go (length cs - length rest) cs
      | None \<Rightarrow> simple_params_go 0 cs)"

definition simple_params :: "pystr \<Rightarrow> (pystr \<times> pystr) list" where
  "simple_params s = simple_params_go 0 s"

text \<open>
  The arguments of a tool call. \<open>json.loads\<close> is a parameter: it parses a text into a
  JSON value, rejects it with \<open>JSONDecodeError\<close>, or raises something else. What the
  decision carries is the parsed value or the dictionary of salvaged pairs, which is
  empty when nothing is salvaged and after any other exception.
\<close>

datatype 'j loaded = Parsed 'j | DecodeError | OtherError

datatype 'j arguments = FromJson 'j | FromPairs "(pystr \<times> pystr) list"

definition parse_arguments :: "(pystr \<Rightarrow> 'j loaded) \<Rightarrow> pystr \<Rightarrow> 'j arguments" where
  "parse_arguments loads args_str =
     (case loads args_str of
        Parsed v \<Rightarrow> FromJson v
      | OtherError \<Rightarrow> FromPairs []
      | DecodeError \<Rightarrow>
          (case loads (repair_json args_str) of
             Parsed v \<Rightarrow> FromJson v
           | DecodeError \<Rightarrow>
               FromPairs (foldl (\<lambda>d (key, v). dict_set d key v) [] (simple_params args_str))
           | OtherError \<Rightarrow> FromPairs []))"

text \<open>
  The oracle's reply to a request: a message with its tool calls (name and argument
  text) and its content, or an exception of the client.
\<close>

datatype response = Message "(pystr \<times> pystr) list" pystr | Raised pystr

record 'j decision =
  d_success :: bool
  d_action :: "pystr option"
  d_parameters :: "'j arguments option"
  d_error :: "pystr option"

definition failed :: "pystr \<Rightarrow> 'j decision" where
  "failed e = \<lparr>d_success = False, d_action = None, d_parameters = None, d_error = Some e\<rparr>"

definition read_response :: "(pystr \<Rightarrow> 'j loaded) \<Rightarrow> response \<Rightarrow> 'j decision" where
  "read_response loads resp =
     (case resp of
        Raised e \<Rightarrow> failed (err_decide_exception @ e)
      | Message tool_calls content \<Rightarrow>
          (case tool_calls of
             (function_name, args_str) # _ \<Rightarrow>
               \<lparr>d_success = True, d_action = Some function_name,
                d_parameters = Some (parse_arguments loads args_str), d_error = None\<rparr>
           | [] \<Rightarrow>
               if content \<noteq> [] then
                 failed (err_no_function_call @ take 500 content
                         @ (if length content > 500 then py ''...'' else []))
               else failed err_no_action))"

text \<open>
  \<open>_decide_action\<close> from the point where the prompt is built. What it calls is given as
  parameters: the tokenizer's count, the rendering of the tool catalogue,
  \<open>_build_user_message\<close>, \<open>prepare_context\<close> on the page model at a given ceiling, the
  oracle and \<open>json.loads\<close>. Beside the decision the model returns what the source does
  on the way: the ceilings at which the context was derived again, and the user message of
  the request sent to the oracle, if one was sent.
\<close>

record 'j deciding =
  count_tokens :: "pystr \<Rightarrow> int"
  action_tools :: "pystr option"
  build_user_message :: "pystr \<Rightarrow> pystr \<Rightarrow> pystr"
  prepare_again :: "int \<Rightarrow> pystr"
  ask_oracle :: "pystr \<Rightarrow> pystr \<Rightarrow> response"
  json_loads :: "pystr \<Rightarrow> 'j loaded"

definition decide_action ::
  "config \<Rightarrow> 'j deciding \<Rightarrow> pystr \<Rightarrow> pystr \<Rightarrow> pystr
     \<Rightarrow> 'j decision \<times> int list \<times> pystr option" where
  "decide_action conf ext system_prompt context task =
     (let user_message = build_user_message ext context task;
          request_size = estimate_request_size (count_tokens ext) system_prompt user_message
                           (action_tools ext)
      in if request_size > MAX_REQUEST_TOKENS conf then
           (let tools_tokens = estimate_request_size (count_tokens ext) [] [] (action_tools ext);
                system_tokens = count_tokens ext system_prompt;
                available_for_context =
                  MAX_REQUEST_TOKENS conf - tools_tokens - system_tokens - 500
            in if available_for_context > 0 then
                 (let context' = prepare_again ext available_for_context;
                      user_message' = build_user_message ext context' task
                  in (read_response (json_loads ext) (ask_oracle ext system_prompt user_message'),
                      [available_for_context], Some user_message'))
               else
                 (failed (err_too_large_1 @ str_int request_size @ err_too_large_2
                          @ str_int tools_tokens @ err_too_large_3),
                  [], None))
         else (read_response (json_loads ext) (ask_oracle ext system_prompt user_message),
               [], Some user_message))"

text \<open>
  The room that \<open>_decide_action\<close> computes for the context of an oversized request: the
  ceiling less the tool catalogue, the system prompt and a margin of 500 tokens.
\<close>

definition room_for_context :: "config \<Rightarrow> 'j deciding \<Rightarrow> pystr \<Rightarrow> int" where
  "room_for_context conf ext system_prompt =
     MAX_REQUEST_TOKENS conf - estimate_request_size (count_tokens ext) [] [] (action_tools ext)
       - count_tokens ext system_prompt - 500"

text \<open>
  An argument text cut off in the middle of a value, and two parsers: one that accepts a
  single text, one that rejects every text.
\<close>

definition truncated_arguments :: pystr where
  \<open>truncated_arguments = py ''{"selector": "#a", "text": "hel''\<close>

definition accepts_only :: "pystr \<Rightarrow> pystr \<Rightarrow> unit loaded" where
  "accepts_only good s = (if s = good then Parsed () else DecodeError)"

definition rejects_all :: "pystr \<Rightarrow> unit loaded" where
  "rejects_all s = DecodeError"

text \<open>
  Collaborators for running \<open>_decide_action\<close> on examples: the count is the length of the
  text, the user message is the context followed by the task, the context derived at a
  ceiling has that many code points, the oracle always calls \<open>scroll\<close> with empty
  arguments; and a configuration with a request ceiling of 1000 tokens.
\<close>

definition measuring_by_length :: "unit deciding" where
  "measuring_by_length =
     \<lparr>count_tokens = (\<lambda>s. int (length s)), action_tools = None,
      build_user_message = (\<lambda>context task. context @ task),
      prepare_again = (\<lambda>max_tokens. replicate (nat max_tokens) 120),
      ask_oracle = (\<lambda>system_prompt user_message. Message [(py ''scroll'', py ''{}'')] []),
      json_loads = accepts_only (py ''{}'')\<rparr>"

definition small_budget :: config where
  "small_budget = default_config\<lparr>MAX_REQUEST_TOKENS := 1000\<rparr>"

section \<open>ErrorHandler: classification of a failed action\<close>

text \<open>The suggestion texts of \<open>_heuristic_error_handling\<close>, in source order.\<close>

definition sugg_not_found_click :: pystr where \<comment> \<open>element not found (click)\<close>
  "sugg_not_found_click =
     [1069, 1083, 1077, 1084, 1077, 1085, 1090, 32, 1085, 1077, 32, 1085, 1072, 1081, 1076,
      1077, 1085, 32, 1085, 1072, 32, 1089, 1090, 1088, 1072, 1085, 1080, 1094, 1077, 46, 32,
      1048, 1089, 1087, 1086, 1083, 1100, 1079, 1091, 1081, 1090, 1077, 32, 113, 117, 101, 114,
      121, 95, 100, 111, 109, 32, 1076, 1083, 1103, 32, 1087, 1086, 1080, 1089, 1082, 1072, 32,
      1101, 1083, 1077, 1084, 1077, 1085, 1090, 1072, 32, 1089, 32, 1087, 1088, 1072, 1074,
      1080, 1083, 1100, 1085, 1099, 1084, 32, 1089, 1077, 1083, 1077, 1082, 1090, 1086, 1088,
      1086, 1084, 44, 32, 1087, 1088, 1086, 1082, 1088, 1091, 1090, 1080, 1090, 1077, 32, 1089,
      1090, 1088, 1072, 1085, 1080, 1094, 1091, 32, 1080, 1083, 1080, 32, 1087, 1086, 1087,
      1088, 1086, 1073, 1091, 1081, 1090, 1077, 32, 1072, 1083, 1100, 1090, 1077, 1088, 1085,
      1072, 1090, 1080, 1074, 1085, 1086, 1077, 32, 1086, 1087, 1080, 1089, 1072, 1085, 1080,
      1077, 32, 1101, 1083, 1077, 1084, 1077, 1085, 1090, 1072, 46]"

definition sugg_not_found_extract :: pystr where \<comment> \<open>element not found (extract_text)\<close>
  "sugg_not_found_extract =
     [1069, 1083, 1077, 1084, 1077, 1085, 1090, 32, 1085, 1077, 32, 1085, 1072, 1081, 1076,
      1077, 1085, 46, 32, 1050, 1056, 1048, 1058, 1048, 1063, 1045, 1057, 1050, 1048, 32, 1042,
      1040, 1046, 1053, 1054, 58, 32, 1053, 1045, 32, 1055, 1054, 1042, 1058, 1054, 1056, 1071,
      1049, 32, 101, 120, 116, 114, 97, 99, 116, 95, 116, 101, 120, 116, 32, 1089, 32, 1090,
      1077, 1084, 32, 1078, 1077, 32, 1086, 1087, 1080, 1089, 1072, 1085, 1080, 1077, 1084, 33,
      32, 1055, 1088, 1086, 1082, 1088, 1091, 1090, 1080, 1090, 1077, 32, 1089, 1090, 1088,
      1072, 1085, 1080, 1094, 1091, 44, 32, 1080, 1089, 1087, 1086, 1083, 1100, 1079, 1091,
      1081, 1090, 1077, 32, 1076, 1088, 1091, 1075, 1086, 1077, 32, 1086, 1087, 1080, 1089,
      1072, 1085, 1080, 1077, 32, 1080, 1083, 1080, 32, 1087, 1077, 1088, 1077, 1093, 1086,
      1076, 1080, 1090, 1077, 32, 1082, 32, 1089, 1083, 1077, 1076, 1091, 1102, 1097, 1077,
      1084, 1091, 32, 1096, 1072, 1075, 1091, 32, 1079, 1072, 1076, 1072, 1095, 1080, 46]"

definition sugg_not_found_type :: pystr where \<comment> \<open>input field not found (type_text)\<close>
  "sugg_not_found_type =
     [1055, 1086, 1083, 1077, 32, 1074, 1074, 1086, 1076, 1072, 32, 1085, 1077, 32, 1085, 1072,
      1081, 1076, 1077, 1085, 1086, 46, 32, 1048, 1089, 1087, 1086, 1083, 1100, 1079, 1091,
      1081, 1090, 1077, 32, 113, 117, 101, 114, 121, 95, 100, 111, 109, 32, 1076, 1083, 1103,
      32, 1087, 1086, 1080, 1089, 1082, 1072, 32, 1087, 1086, 1083, 1103, 32, 1089, 32, 1087,
      1088, 1072, 1074, 1080, 1083, 1100, 1085, 1099, 1084, 32, 1089, 1077, 1083, 1077, 1082,
      1090, 1086, 1088, 1086, 1084, 32, 1080, 1083, 1080, 32, 1087, 1088, 1086, 1074, 1077,
      1088, 1100, 1090, 1077, 44, 32, 1086, 1090, 1082, 1088, 1099, 1090, 1072, 32, 1083, 1080,
      32, 1092, 1086, 1088, 1084, 1072, 46]"

definition sugg_timeout :: pystr where \<comment> \<open>wait timeout exceeded\<close>
  "sugg_timeout =
     [1055, 1088, 1077, 1074, 1099, 1096, 1077, 1085, 32, 1090, 1072, 1081, 1084, 1072, 1091,
      1090, 32, 1086, 1078, 1080, 1076, 1072, 1085, 1080, 1103, 46, 32, 1057, 1090, 1088, 1072,
      1085, 1080, 1094, 1072, 32, 1084, 1086, 1078, 1077, 1090, 32, 1079, 1072, 1075, 1088,
      1091, 1078, 1072, 1090, 1100, 1089, 1103, 32, 1084, 1077, 1076, 1083, 1077, 1085, 1085,
      1086, 32, 1080, 1083, 1080, 32, 1101, 1083, 1077, 1084, 1077, 1085, 1090, 32, 1087, 1086,
      1103, 1074, 1083, 1103, 1077, 1090, 1089, 1103, 32, 1089, 32, 1079, 1072, 1076, 1077,
      1088, 1078, 1082, 1086, 1081, 46, 32, 1055, 1086, 1076, 1086, 1078, 1076, 1080, 1090,
      1077, 32, 1079, 1072, 1075, 1088, 1091, 1079, 1082, 1080, 32, 1089, 1090, 1088, 1072,
      1085, 1080, 1094, 1099, 32, 1080, 32, 1087, 1086, 1087, 1088, 1086, 1073, 1091, 1081,
      1090, 1077, 32, 1089, 1085, 1086, 1074, 1072, 46]"

definition sugg_not_visible :: pystr where \<comment> \<open>element not visible\<close>
  "sugg_not_visible =
     [1069, 1083, 1077, 1084, 1077, 1085, 1090, 32, 1085, 1077, 32, 1074, 1080, 1076, 1077,
      1085, 32, 1085, 1072, 32, 1101, 1082, 1088, 1072, 1085, 1077, 46, 32, 1055, 1088, 1086,
      1082, 1088, 1091, 1090, 1080, 1090, 1077, 32, 1089, 1090, 1088, 1072, 1085, 1080, 1094,
      1091, 32, 1076, 1086, 32, 1101, 1083, 1077, 1084, 1077, 1085, 1090, 1072, 44, 32, 1079,
      1072, 1082, 1088, 1086, 1081, 1090, 1077, 32, 1087, 1077, 1088, 1077, 1082, 1088, 1099,
      1074, 1072, 1102, 1097, 1080, 1077, 32, 1084, 1086, 1076, 1072, 1083, 1100, 1085, 1099,
      1077, 32, 1086, 1082, 1085, 1072, 32, 1080, 1083, 1080, 32, 1087, 1086, 1076, 1086, 1078,
      1076, 1080, 1090, 1077, 32, 1077, 1075, 1086, 32, 1087, 1086, 1103, 1074, 1083, 1077,
      1085, 1080, 1103, 46]"

definition sugg_disabled :: pystr where \<comment> \<open>element disabled\<close>
  "sugg_disabled =
     [1069, 1083, 1077, 1084, 1077, 1085, 1090, 32, 1086, 1090, 1082, 1083, 1102, 1095, 1077,
      1085, 32, 1080, 32, 1085, 1077, 1076, 1086, 1089, 1090, 1091, 1087, 1077, 1085, 32, 1076,
      1083, 1103, 32, 1074, 1079, 1072, 1080, 1084, 1086, 1076, 1077, 1081, 1089, 1090, 1074,
      1080, 1103, 46, 32, 1055, 1086, 1087, 1088, 1086, 1073, 1091, 1081, 1090, 1077, 32, 1076,
      1088, 1091, 1075, 1086, 1081, 32, 1101, 1083, 1077, 1084, 1077, 1085, 1090, 44, 32, 1074,
      1099, 1087, 1086, 1083, 1085, 1080, 1090, 1077, 32, 1085, 1077, 1086, 1073, 1093, 1086,
      1076, 1080, 1084, 1099, 1077, 32, 1076, 1077, 1081, 1089, 1090, 1074, 1080, 1103, 32,
      1076, 1083, 1103, 32, 1072, 1082, 1090, 1080, 1074, 1072, 1094, 1080, 1080, 32, 1080,
      1083, 1080, 32, 1087, 1086, 1076, 1086, 1078, 1076, 1080, 1090, 1077, 32, 1072, 1082,
      1090, 1080, 1074, 1072, 1094, 1080, 1080, 32, 1101, 1083, 1077, 1084, 1077, 1085, 1090,
      1072, 46]"

definition sugg_intercepted :: pystr where \<comment> \<open>element covered by another element\<close>
  "sugg_intercepted =
     [1069, 1083, 1077, 1084, 1077, 1085, 1090, 32, 1087, 1077, 1088, 1077, 1082, 1088, 1099,
      1090, 32, 1076, 1088, 1091, 1075, 1080, 1084, 32, 1101, 1083, 1077, 1084, 1077, 1085,
      1090, 1086, 1084, 32, 40, 1084, 1086, 1076, 1072, 1083, 1100, 1085, 1086, 1077, 32, 1086,
      1082, 1085, 1086, 44, 32, 1073, 1072, 1085, 1085, 1077, 1088, 44, 32, 111, 118, 101, 114,
      108, 97, 121, 41, 46, 32, 1047, 1072, 1082, 1088, 1086, 1081, 1090, 1077, 32, 1087, 1077,
      1088, 1077, 1082, 1088, 1099, 1074, 1072, 1102, 1097, 1080, 1077, 32, 1101, 1083, 1077,
      1084, 1077, 1085, 1090, 1099, 32, 1080, 1083, 1080, 32, 1087, 1088, 1086, 1082, 1088,
      1091, 1090, 1080, 1090, 1077, 32, 1089, 1090, 1088, 1072, 1085, 1080, 1094, 1091, 44, 32,
      1095, 1090, 1086, 1073, 1099, 32, 1101, 1083, 1077, 1084, 1077, 1085, 1090, 32, 1089,
      1090, 1072, 1083, 32, 1076, 1086, 1089, 1090, 1091, 1087, 1077, 1085, 46]"

definition sugg_invalid_selector :: pystr where \<comment> \<open>invalid selector\<close>
  "sugg_invalid_selector =
     [1053, 1077, 1074, 1077, 1088, 1085, 1099, 1081, 32, 1089, 1077, 1083, 1077, 1082, 1090,
      1086, 1088, 32, 1101, 1083, 1077, 1084, 1077, 1085, 1090, 1072, 46, 32, 1048, 1089, 1087,
      1086, 1083, 1100, 1079, 1091, 1081, 1090, 1077, 32, 113, 117, 101, 114, 121, 95, 100, 111,
      109, 32, 1076, 1083, 1103, 32, 1087, 1086, 1083, 1091, 1095, 1077, 1085, 1080, 1103, 32,
      1087, 1088, 1072, 1074, 1080, 1083, 1100, 1085, 1086, 1075, 1086, 32, 1089, 1077, 1083,
      1077, 1082, 1090, 1086, 1088, 1072, 32, 1101, 1083, 1077, 1084, 1077, 1085, 1090, 1072,
      32, 1080, 1083, 1080, 32, 1080, 1089, 1087, 1086, 1083, 1100, 1079, 1091, 1081, 1090,
      1077, 32, 1086, 1087, 1080, 1089, 1072, 1085, 1080, 1077, 32, 1101, 1083, 1077, 1084,
      1077, 1085, 1090, 1072, 32, 1074, 1084, 1077, 1089, 1090, 1086, 32, 1089, 1077, 1083,
      1077, 1082, 1090, 1086, 1088, 1072, 46]"

definition sugg_page_not_loaded :: pystr where \<comment> \<open>page not loaded yet\<close>
  "sugg_page_not_loaded =
     [1057, 1090, 1088, 1072, 1085, 1080, 1094, 1072, 32, 1077, 1097, 1077, 32, 1085, 1077, 32,
      1079, 1072, 1075, 1088, 1091, 1079, 1080, 1083, 1072, 1089, 1100, 32, 1087, 1086, 1083,
      1085, 1086, 1089, 1090, 1100, 1102, 46, 32, 1055, 1086, 1076, 1086, 1078, 1076, 1080,
      1090, 1077, 32, 1079, 1072, 1074, 1077, 1088, 1096, 1077, 1085, 1080, 1103, 32, 1079,
      1072, 1075, 1088, 1091, 1079, 1082, 1080, 32, 1089, 1090, 1088, 1072, 1085, 1080, 1094,
      1099, 32, 1080, 32, 1087, 1086, 1087, 1088, 1086, 1073, 1091, 1081, 1090, 1077, 32, 1089,
      1085, 1086, 1074, 1072, 46]"

definition sugg_viewport :: pystr where \<comment> \<open>element outside the viewport\<close>
  "sugg_viewport =
     [1069, 1083, 1077, 1084, 1077, 1085, 1090, 32, 1085, 1072, 1093, 1086, 1076, 1080, 1090,
      1089, 1103, 32, 1074, 1085, 1077, 32, 1086, 1073, 1083, 1072, 1089, 1090, 1080, 32, 1074,
      1080, 1076, 1080, 1084, 1086, 1089, 1090, 1080, 46, 32, 1055, 1088, 1086, 1082, 1088,
      1091, 1090, 1080, 1090, 1077, 32, 1089, 1090, 1088, 1072, 1085, 1080, 1094, 1091, 32,
      1076, 1086, 32, 1101, 1083, 1077, 1084, 1077, 1085, 1090, 1072, 32, 1080, 1083, 1080, 32,
      1080, 1089, 1087, 1086, 1083, 1100, 1079, 1091, 1081, 1090, 1077, 32, 115, 99, 114, 111,
      108, 108, 95, 116, 111, 95, 101, 108, 101, 109, 101, 110, 116, 46]"

definition sugg_network :: pystr where \<comment> \<open>network error\<close>
  "sugg_network =
     [1054, 1096, 1080, 1073, 1082, 1072, 32, 1089, 1077, 1090, 1080, 32, 1087, 1088, 1080, 32,
      1079, 1072, 1075, 1088, 1091, 1079, 1082, 1077, 32, 1089, 1090, 1088, 1072, 1085, 1080,
      1094, 1099, 46, 32, 1055, 1088, 1086, 1074, 1077, 1088, 1100, 1090, 1077, 32, 1087, 1086,
      1076, 1082, 1083, 1102, 1095, 1077, 1085, 1080, 1077, 32, 1082, 32, 1080, 1085, 1090,
      1077, 1088, 1085, 1077, 1090, 1091, 32, 1080, 32, 1087, 1086, 1087, 1088, 1086, 1073,
      1091, 1081, 1090, 1077, 32, 1089, 1085, 1086, 1074, 1072, 32, 1095, 1077, 1088, 1077,
      1079, 32, 1085, 1077, 1089, 1082, 1086, 1083, 1100, 1082, 1086, 32, 1089, 1077, 1082,
      1091, 1085, 1076, 46]"

definition sugg_javascript :: pystr where \<comment> \<open>JavaScript error\<close>
  "sugg_javascript =
     [1054, 1096, 1080, 1073, 1082, 1072, 32, 74, 97, 118, 97, 83, 99, 114, 105, 112, 116, 32,
      1085, 1072, 32, 1089, 1090, 1088, 1072, 1085, 1080, 1094, 1077, 46, 32, 1055, 1086, 1087,
      1088, 1086, 1073, 1091, 1081, 1090, 1077, 32, 1076, 1088, 1091, 1075, 1086, 1081, 32,
      1087, 1086, 1076, 1093, 1086, 1076, 32, 1080, 1083, 1080, 32, 1086, 1073, 1085, 1086,
      1074, 1080, 1090, 1077, 32, 1089, 1090, 1088, 1072, 1085, 1080, 1094, 1091, 32, 1095,
      1077, 1088, 1077, 1079, 32, 110, 97, 118, 105, 103, 97, 116, 101, 46]"

definition sugg_detached :: pystr where \<comment> \<open>element removed from the DOM\<close>
  "sugg_detached =
     [1069, 1083, 1077, 1084, 1077, 1085, 1090, 32, 1073, 1099, 1083, 32, 1091, 1076, 1072,
      1083, 1077, 1085, 32, 1080, 1079, 32, 68, 79, 77, 32, 1080, 1083, 1080, 32, 1089, 1090,
      1088, 1072, 1085, 1080, 1094, 1072, 32, 1080, 1079, 1084, 1077, 1085, 1080, 1083, 1072,
      1089, 1100, 46, 32, 1054, 1073, 1085, 1086, 1074, 1080, 1090, 1077, 32, 1082, 1086, 1085,
      1090, 1077, 1082, 1089, 1090, 32, 1089, 1090, 1088, 1072, 1085, 1080, 1094, 1099, 32,
      1095, 1077, 1088, 1077, 1079, 32, 113, 117, 101, 114, 121, 95, 100, 111, 109, 32, 1080,
      32, 1087, 1086, 1087, 1088, 1086, 1073, 1091, 1081, 1090, 1077, 32, 1085, 1072, 1081,
      1090, 1080, 32, 1101, 1083, 1077, 1084, 1077, 1085, 1090, 32, 1089, 1085, 1086, 1074,
      1072, 46]"

text \<open>The Cyrillic keywords of the pattern table.\<close>

definition kw_ne_najden :: pystr where \<comment> \<open>"ne najden": not found\<close>
  "kw_ne_najden =
     [1085, 1077, 32, 1085, 1072, 1081, 1076, 1077, 1085]"

definition kw_tajmaut :: pystr where \<comment> \<open>"tajmaut": timeout\<close>
  "kw_tajmaut =
     [1090, 1072, 1081, 1084, 1072, 1091, 1090]"

definition kw_ne_viden :: pystr where \<comment> \<open>"ne viden": not visible\<close>
  "kw_ne_viden =
     [1085, 1077, 32, 1074, 1080, 1076, 1077, 1085]"

definition kw_otkljuchen :: pystr where \<comment> \<open>"otkljuchen": disabled\<close>
  "kw_otkljuchen =
     [1086, 1090, 1082, 1083, 1102, 1095, 1077, 1085]"

definition kw_perekryt :: pystr where \<comment> \<open>"perekryt": covered\<close>
  "kw_perekryt =
     [1087, 1077, 1088, 1077, 1082, 1088, 1099, 1090]"

definition kw_nevernyj_selektor :: pystr where \<comment> \<open>"nevernyj selektor": invalid selector\<close>
  "kw_nevernyj_selektor =
     [1085, 1077, 1074, 1077, 1088, 1085, 1099, 1081, 32, 1089, 1077, 1083, 1077, 1082, 1090,
      1086, 1088]"

definition kw_stranica_ne_zagruzhena :: pystr where \<comment> \<open>"stranica ne zagruzhena": page not loaded\<close>
  "kw_stranica_ne_zagruzhena =
     [1089, 1090, 1088, 1072, 1085, 1080, 1094, 1072, 32, 1085, 1077, 32, 1079, 1072, 1075,
      1088, 1091, 1078, 1077, 1085, 1072]"

definition kw_vne_oblasti_vidimosti :: pystr where \<comment> \<open>"vne oblasti vidimosti": out of viewport\<close>
  "kw_vne_oblasti_vidimosti =
     [1074, 1085, 1077, 32, 1086, 1073, 1083, 1072, 1089, 1090, 1080, 32, 1074, 1080, 1076,
      1080, 1084, 1086, 1089, 1090, 1080]"

definition kw_set :: pystr where \<comment> \<open>"set": network\<close>
  "kw_set =
     [1089, 1077, 1090, 1100]"

definition kw_udalen :: pystr where \<comment> \<open>"udalen": removed\<close>
  "kw_udalen =
     [1091, 1076, 1072, 1083, 1077, 1085]"

definition sugg_retry_limit :: pystr where \<comment> \<open>retry limit exceeded, the user's help is needed\<close>
  "sugg_retry_limit =
     [1055, 1088, 1077, 1074, 1099, 1096, 1077, 1085, 32, 1083, 1080, 1084, 1080, 1090, 32,
      1087, 1086, 1087, 1099, 1090, 1086, 1082, 46, 32, 1058, 1088, 1077, 1073, 1091, 1077,
      1090, 1089, 1103, 32, 1087, 1086, 1084, 1086, 1097, 1100, 32, 1087, 1086, 1083, 1100,
      1079, 1086, 1074, 1072, 1090, 1077, 1083, 1103, 46]"

definition sugg_extract_text_extra :: pystr where \<comment> \<open>do not repeat extract_text with the same description\<close>
  "sugg_extract_text_extra =
     [32, 1042, 1040, 1046, 1053, 1054, 58, 32, 1053, 1045, 32, 1055, 1054, 1042, 1058, 1054,
      1056, 1071, 1049, 32, 101, 120, 116, 114, 97, 99, 116, 95, 116, 101, 120, 116, 32, 1089,
      32, 1090, 1077, 1084, 32, 1078, 1077, 32, 1086, 1087, 1080, 1089, 1072, 1085, 1080, 1077,
      1084, 33, 32, 1048, 1089, 1087, 1086, 1083, 1100, 1079, 1091, 1081, 32, 1072, 1083, 1100,
      1090, 1077, 1088, 1085, 1072, 1090, 1080, 1074, 1085, 1099, 1077, 32, 1089, 1090, 1088,
      1072, 1090, 1077, 1075, 1080, 1080, 46]"

text \<open>
  \<open>ErrorHandler._heuristic_error_handling\<close>: the keyword table, tried in source order.
  The result is the pair (suggestion, strategy), \<open>None\<close> when no keyword matches. The first
  test (not found) returns only for three actions and falls through for every other one.
\<close>

definition heuristic_error_handling :: "pystr \<Rightarrow> pystr \<Rightarrow> (pystr \<times> pystr) option" where
  "heuristic_error_handling error_message action =
     (let error_lower = lower error_message;
          has = (\<lambda>k. py_in k error_lower);
          not_found =
            (if has (py ''not found'') \<or> has kw_ne_najden \<or> has (py ''element not found'') then
               (if action = py ''click_element'' then Some (sugg_not_found_click, py ''scroll'')
                else if action = py ''extract_text'' then Some (sugg_not_found_extract, py ''scroll'')
                else if action = py ''type_text'' then Some (sugg_not_found_type, py ''alternative'')
                else None)
             else None) in
      case not_found of
        Some r \<Rightarrow> Some r
      | None \<Rightarrow>
         (if has (py ''timeout'') \<or> has kw_tajmaut \<or> has (py ''timed out'')
            then Some (sugg_timeout, py ''wait'')
          else if has (py ''not visible'') \<or> has kw_ne_viden \<or> has (py ''is not visible'')
            then Some (sugg_not_visible, py ''scroll_to_element'')
          else if has (py ''disabled'') \<or> has kw_otkljuchen \<or> has (py ''is disabled'')
            then Some (sugg_disabled, py ''wait'')
          else if has (py ''intercepted'') \<or> has kw_perekryt \<or> has (py ''obscured'')
                  \<or> has (py ''is not clickable'')
            then Some (sugg_intercepted, py ''close_modals'')
          else if has (py ''invalid selector'') \<or> has kw_nevernyj_selektor \<or> has (py ''malformed'')
            then Some (sugg_invalid_selector, py ''alternative_description'')
          else if has (py ''page not loaded'') \<or> has kw_stranica_ne_zagruzhena
                  \<or> has (py ''navigation'')
            then Some (sugg_page_not_loaded, py ''wait'')
          else if has (py ''out of viewport'') \<or> has kw_vne_oblasti_vidimosti
                  \<or> has (py ''not in viewport'')
            then Some (sugg_viewport, py ''scroll_to_element'')
          else if has (py ''network'') \<or> has kw_set \<or> has (py ''connection'')
            then Some (sugg_network, py ''wait'')
          else if has (py ''javascript'') \<or> has (py ''js error'') \<or> has (py ''script error'')
            then Some (sugg_javascript, py ''alternative'')
          else if has (py ''detached'') \<or> has (py ''stale'') \<or> has kw_udalen
            then Some (sugg_detached, py ''alternative'')
          else None))"

text \<open>
  The handler's state: the error log and the solution cache, a dictionary in insertion order
  keyed by a digest. \<open>max_retries\<close> is set to 3 by the constructor.
\<close>

record error_info =
  ei_error :: pystr
  ei_action :: pystr
  ei_retry_count :: int
  ei_context :: pystr

record error_handler =
  error_history :: "error_info list"
  error_solution_cache :: "(pystr \<times> pystr \<times> pystr option) list"

definition max_retries :: int where
  "max_retries = 3"

text \<open>
  What \<open>handle_error\<close> calls outside the keyword table: the pattern matcher
  (\<open>ErrorPatternMatcher.get_solution\<close>), the digest of \<open>_get_cache_key\<close> (MD5 of a JSON
  text), the oracle request of \<open>_analyze_error\<close> and \<open>_extract_strategy_from_suggestion\<close>.
  They are parameters of the model.
\<close>

record eh_collaborators =
  pattern_solution :: "pystr \<Rightarrow> pystr \<Rightarrow> (pystr \<times> pystr) option"
  solution_cache_key :: "pystr \<Rightarrow> pystr \<Rightarrow> pystr \<Rightarrow> pystr"
  analyze_error :: "pystr \<Rightarrow> pystr \<Rightarrow> pystr \<Rightarrow> pystr"
  extract_strategy :: "pystr \<Rightarrow> pystr option"

text \<open>
  The dictionary returned by \<open>handle_error\<close>. The early return at the retry limit has no
  \<open>strategy\<close>, \<open>should_retry\<close> and \<open>retry_count\<close> keys. \<open>er_tier\<close> is not in the source: it
  records which of the four tiers produced the answer (\<open>None\<close> at the retry limit).
\<close>

datatype tier = Heuristic | Pattern | Cache | Oracle

record error_result =
  er_error :: pystr
  er_suggestion :: pystr
  er_strategy :: "pystr option"
  er_should_retry :: "bool option"
  er_retry_count :: "int option"
  er_tier :: "tier option"

definition classified :: "tier \<Rightarrow> pystr \<Rightarrow> pystr \<Rightarrow> pystr option \<Rightarrow> int \<Rightarrow> error_result" where
  "classified t error_message suggestion strategy retry_count =
     \<lparr>er_error = error_message, er_suggestion = suggestion, er_strategy = strategy,
      er_should_retry = Some (retry_count < max_retries), er_retry_count = Some (retry_count + 1),
      er_tier = Some t\<rparr>"

definition handle_error ::
  "eh_collaborators \<Rightarrow> error_handler \<Rightarrow> pystr \<Rightarrow> pystr \<Rightarrow> pystr \<Rightarrow> int
     \<Rightarrow> error_result \<times> error_handler" where
  "handle_error ext h error_message action context retry_count =
     (let error_info = \<lparr>ei_error = error_message, ei_action = action,
                         ei_retry_count = retry_count, ei_context = take 500 context\<rparr>;
          h1 = h\<lparr>error_history := error_history h @ [error_info]\<rparr> in
      if retry_count \<ge> max_retries then
        (\<lparr>er_error = error_message, er_suggestion = sugg_retry_limit, er_strategy = None,
          er_should_retry = None, er_retry_count = None, er_tier = None\<rparr>, h1)
      else
        (case heuristic_error_handling error_message action of
           Some (suggestion, strategy) \<Rightarrow>
             (classified Heuristic error_message suggestion (Some strategy) retry_count, h1)
         | None \<Rightarrow>
             (case pattern_solution ext error_message action of
                Some (solution, strategy) \<Rightarrow>
                  (classified Pattern error_message
                     (if action = py ''extract_text'' then solution @ sugg_extract_text_extra
                      else solution)
                     (Some strategy) retry_count, h1)
              | None \<Rightarrow>
                  (let cache_key = solution_cache_key ext error_message action context in
                   case map_of (error_solution_cache h1) cache_key of
                     Some (suggestion, strategy) \<Rightarrow>
                       (classified Cache error_message suggestion strategy retry_count, h1)
                   | None \<Rightarrow>
                       (let suggestion = analyze_error ext error_message action context;
                            strategy = extract_strategy ext suggestion;
                            cache = error_solution_cache h1 @ [(cache_key, suggestion, strategy)];
                            cache' = (if length cache > 200 then tl cache else cache) in
                        (classified Oracle error_message suggestion strategy retry_count,
                         h1\<lparr>error_solution_cache := cache'\<rparr>))))))"

text \<open>
  A freshly constructed handler, and collaborators that answer nothing: the examples below
  are decided by the keyword table, which consults none of them.
\<close>

definition new_error_handler :: error_handler where
  "new_error_handler = \<lparr>error_history = [], error_solution_cache = []\<rparr>"

definition silent_collaborators :: eh_collaborators where
  "silent_collaborators =
     \<lparr>pattern_solution = (\<lambda>e a. None), solution_cache_key = (\<lambda>e a c. []),
      analyze_error = (\<lambda>e a c. []), extract_strategy = (\<lambda>s. None)\<rparr>"

section \<open>Properties\<close>

subsection \<open>Text\<close>

lemma lower_contains: "py_in sub s \<Longrightarrow> py_in (lower sub) (lower s)"
  by (simp add: py_in_def lower_def map_mono_sublist)

lemma py_in_trans: "py_in a b \<Longrightarrow> py_in b c \<Longrightarrow> py_in a c"
  unfolding py_in_def by (rule sublist_order.order.trans)

subsection \<open>ErrorHandler\<close>

lemma timeout_marker_lower:
  assumes "py_in (py ''Timeout 10000ms exceeded'') e"
  shows "py_in (py ''timeout'') (lower e)"
proof -
  have "py_in (py ''timeout'') (lower (py ''Timeout 10000ms exceeded''))"
    by code_simp
  then show ?thesis
    using lower_contains[OF assms] py_in_trans by blast
qed

lemma element_not_found_marker:
  assumes "py_in (py ''element not found'') s"
  shows "py_in (py ''not found'') s"
proof -
  have "py_in (py ''not found'') (py ''element not found'')"
    by code_simp
  then show ?thesis
    using assms py_in_trans by blast
qed

text \<open>
  Claim C9, as the code has it. An error text that contains \<open>Timeout 10000ms exceeded\<close> is
  classified by the keyword table as strategy \<open>wait\<close> with the timeout suggestion, which is
  not empty; the handler only appends to its error log, so neither the pattern matcher, the
  solution cache nor the oracle is consulted. Two conditions are needed: the retry count is
  below the limit of 3 (the controller always passes 0), and, for the actions
  \<open>click_element\<close>, \<open>extract_text\<close> and \<open>type_text\<close>, the text does not also contain
  \<open>not found\<close> (in any letter case) or its Russian form, because that test comes first in
  the table.
\<close>

theorem timeout_classified_wait:
  assumes marker: "py_in (py ''Timeout 10000ms exceeded'') error_message"
      and retry: "retry_count < max_retries"
      and nf: "action \<in> {py ''click_element'', py ''extract_text'', py ''type_text''} \<longrightarrow>
                 \<not> py_in (py ''not found'') (lower error_message) \<and>
                 \<not> py_in kw_ne_najden (lower error_message)"
  shows "handle_error ext h error_message action context retry_count =
           (classified Heuristic error_message sugg_timeout (Some (py ''wait'')) retry_count,
            h\<lparr>error_history := error_history h @
                [\<lparr>ei_error = error_message, ei_action = action, ei_retry_count = retry_count,
                  ei_context = take 500 context\<rparr>]\<rparr>)
         \<and> sugg_timeout \<noteq> []"
proof -
  have t: "py_in (py ''timeout'') (lower error_message)"
    by (rule timeout_marker_lower[OF marker])
  have heur: "heuristic_error_handling error_message action = Some (sugg_timeout, py ''wait'')"
    using t nf element_not_found_marker[of "lower error_message"]
    by (auto simp: heuristic_error_handling_def Let_def)
  have ne: "sugg_timeout \<noteq> []"
    by (simp add: sugg_timeout_def)
  show ?thesis
    using heur retry ne by (simp add: handle_error_def Let_def)
qed

theorem timeout_classified_wait_witness:
  "py_in (py ''Timeout 10000ms exceeded'') (py ''Timeout 10000ms exceeded'')
   \<and> (0::int) < max_retries
   \<and> \<not> py_in (py ''not found'') (lower (py ''Timeout 10000ms exceeded''))
   \<and> \<not> py_in kw_ne_najden (lower (py ''Timeout 10000ms exceeded''))
   \<and> er_strategy (fst (handle_error silent_collaborators new_error_handler
          (py ''Timeout 10000ms exceeded'') (py ''click_element'') [] 0)) = Some (py ''wait'')
   \<and> er_tier (fst (handle_error silent_collaborators new_error_handler
          (py ''Timeout 10000ms exceeded'') (py ''click_element'') [] 0)) = Some Heuristic"
proof -
  have a: "py_in (py ''Timeout 10000ms exceeded'') (py ''Timeout 10000ms exceeded'')"
    by (simp add: py_in_def)
  have b: "(0::int) < max_retries"
    by (simp add: max_retries_def)
  have c: "\<not> py_in (py ''not found'') (lower (py ''Timeout 10000ms exceeded''))"
    by code_simp
  have d: "\<not> py_in kw_ne_najden (lower (py ''Timeout 10000ms exceeded''))"
    by code_simp
  from timeout_classified_wait[OF a b, of "py ''click_element''" silent_collaborators
      new_error_handler "[]"] c d
  show ?thesis
    using a b by (simp add: classified_def)
qed

text \<open>
  Claim C9 as stated fails: the text below contains \<open>Timeout 10000ms exceeded\<close>, and for
  \<open>click_element\<close> the not-found test answers first, with strategy \<open>scroll\<close>.
\<close>

theorem timeout_not_found_counterexample:
  "py_in (py ''Timeout 10000ms exceeded'') (py ''Element not found: Timeout 10000ms exceeded'')
   \<and> er_strategy (fst (handle_error silent_collaborators new_error_handler
          (py ''Element not found: Timeout 10000ms exceeded'') (py ''click_element'') [] 0))
       = Some (py ''scroll'')
   \<and> py ''scroll'' \<noteq> py ''wait''"
  by code_simp

subsection \<open>ActionResultValidator\<close>

text \<open>
  Claim C7. For a \<open>type_text\<close> action whose result reports success, the heuristic tier
  alone answers \<open>is_valid = True\<close>, whatever the page-diff flags are; the pipeline
  returns that verdict marked \<open>heuristic\<close>, leaves the cache as it was and issues no
  oracle request.
\<close>

theorem type_text_success_heuristic_valid:
  assumes "r_success action_result"
  shows "heuristic_validation (py ''type_text'') action_result = Some (True, msg_text_entered, [])
   \<and> validate_action_result ext v (py ''type_text'') q action_result =
       (\<lparr>is_valid = True, expected_outcome = [], actual_outcome = [],
         validation_message = msg_text_entered, suggestions = [], from_cache = False,
         heuristic = True\<rparr>, v)"
proof -
  have ne1: "py ''type_text'' \<noteq> py ''navigate''"
    by (simp add: py_def)
  have ne2: "py ''type_text'' \<noteq> py ''click_element''"
    by (simp add: py_def)
  have h: "heuristic_validation (py ''type_text'') action_result
             = Some (True, msg_text_entered, [])"
    using assms ne1 ne2 by (simp add: heuristic_validation_def Let_def)
  show ?thesis
    using h by (simp add: validate_action_result_def)
qed

theorem type_text_success_heuristic_valid_witness:
  "r_success succeeded_unchanged
   \<and> \<not> r_page_changed succeeded_unchanged
   \<and> is_valid (fst (validate_action_result guessing_collaborators new_validator
                      (py ''type_text'') () succeeded_unchanged))
   \<and> oracle_requests (snd (validate_action_result guessing_collaborators new_validator
                      (py ''type_text'') () succeeded_unchanged)) = 0"
proof -
  have s: "r_success succeeded_unchanged"
    by (simp add: succeeded_unchanged_def)
  from type_text_success_heuristic_valid[OF s, of guessing_collaborators new_validator "()"]
  show ?thesis
    using s by (simp add: succeeded_unchanged_def new_validator_def)
qed

subsection \<open>Requirements and completion\<close>

lemma unmet_free_iff:
  "unmet_free counters reqs \<longleftrightarrow>
     (\<forall>(key, count) \<in> set reqs. count \<le> dict_get counters key 0)"
  by (induction reqs) (auto split: if_splits)

lemma add_to_history_keeps:
  "requirements (add_to_history cost conf m a r) = requirements m \<and>
   progress_counters (add_to_history cost conf m a r) = progress_counters m"
  by (simp add: add_to_history_def Let_def add_extracted_info_def)

lemma three_vacancies_matches:
  "requirement_matches task_three_vacancies = [(3, drop 16 task_three_vacancies)]"
  by (simp add: task_three_vacancies_def is_digit_def is_space_def in_group2_def
        int_of_digits_def Let_def)

lemma three_vacancies_requirements:
  "requirements (cm_set_task new_context_manager task_three_vacancies) = [(py ''applications'', 3)]"
proof -
  have l: "lower task_three_vacancies = task_three_vacancies"
    by (simp add: lower_def lower_cp_def task_three_vacancies_def)
  have w: "py_in kw_vakans (take 50 (drop 16 task_three_vacancies))"
    by (simp add: py_in_def kw_vakans_def task_three_vacancies_def sublist_code)
  show ?thesis
    using w
    by (simp add: cm_set_task_def parse_task_requirements_def l three_vacancies_matches
          dict_get_def)
qed

text \<open>
  Claim C3. \<open>can_complete_task\<close> holds exactly when every requirement's achieved count has
  reached its required count. A \<open>task_complete\<close> decision that arrives while some counter
  is short is rejected: the loop continues, the controller's state is not changed (so it
  is not Completed), and the counters are as before, whatever the completion check would
  have said. The controller reaches Completed only when \<open>can_complete_task\<close> holds.
\<close>

theorem requirement_gating:
  "(can_complete_task (ag_cm ag) \<longleftrightarrow>
      (\<forall>(key, count) \<in> set (requirements (ag_cm ag)).
          count \<le> dict_get (progress_counters (ag_cm ag)) key 0))
   \<and> (\<not> can_complete_task (ag_cm ag) \<longrightarrow>
        fst (on_task_complete cost conf ag parameters check) = Continue
        \<and> ag_sm (snd (on_task_complete cost conf ag parameters check)) = ag_sm ag
        \<and> requirements (ag_cm (snd (on_task_complete cost conf ag parameters check)))
            = requirements (ag_cm ag)
        \<and> progress_counters (ag_cm (snd (on_task_complete cost conf ag parameters check)))
            = progress_counters (ag_cm ag))
   \<and> (sm_state (ag_sm (snd (on_task_complete cost conf ag parameters check))) = COMPLETED
        \<and> sm_state (ag_sm ag) \<noteq> COMPLETED \<longrightarrow> can_complete_task (ag_cm ag))"
  by (auto simp: can_complete_task_def unmet_free_iff on_task_complete_def Let_def
        add_to_history_keeps split: option.splits)

theorem requirement_gating_witness:
  "\<not> can_complete_task (ag_cm (deciding_agent 2))
   \<and> dict_get (progress_counters (ag_cm (deciding_agent 2))) (py ''applications'') 0 < 3
   \<and> fst (on_task_complete one_per_record default_config (deciding_agent 2) [] None) = Continue
   \<and> sm_state (ag_sm (snd (on_task_complete one_per_record default_config
                              (deciding_agent 2) [] None))) = DECIDING
   \<and> can_complete_task (ag_cm (deciding_agent 3))
   \<and> sm_state (ag_sm (snd (on_task_complete one_per_record default_config
                              (deciding_agent 3) [] None))) = COMPLETED"
proof -
  have r: "requirements (ag_cm (deciding_agent a)) = [(py ''applications'', 3)]" for a
    using three_vacancies_requirements by (simp add: deciding_agent_def cm_set_task_def)
  have p: "progress_counters (ag_cm (deciding_agent a)) = [(py ''applications'', a)]" for a
    by (simp add: deciding_agent_def)
  have short: "\<not> can_complete_task (ag_cm (deciding_agent 2))"
    using requirement_gating[of "deciding_agent 2" one_per_record default_config "[]" None]
    by (simp add: r p dict_get_def)
  have met: "can_complete_task (ag_cm (deciding_agent 3))"
    using requirement_gating[of "deciding_agent 3" one_per_record default_config "[]" None]
    by (simp add: r p dict_get_def)
  have s: "sm_state (ag_sm (deciding_agent 2)) = DECIDING"
    by (simp add: deciding_agent_def)
  have fin: "sm_state (ag_sm (snd (on_task_complete one_per_record default_config
                               (deciding_agent 3) [] None))) = COMPLETED"
    using met by (simp add: on_task_complete_def Let_def)
  show ?thesis
    using requirement_gating[of "deciding_agent 2" one_per_record default_config "[]" None]
      short met s fin
    by (simp add: p dict_get_def)
qed

text \<open>
  Claim C4 fails on the code. \<open>update_progress\<close> has an empty body, so the calls made after
  successful actions leave the counters as \<open>set_task\<close> reset them. For the task
  \<open>task_three_vacancies\<close>, whose parsed requirement is 3 applications, the achieved count
  stays absent (read as 0) after any sequence of decisions and results, and
  \<open>can_complete_task\<close> stays false, so every \<open>task_complete\<close> decision is rejected.
\<close>

lemma reflect_progress_id: "reflect_progress m d r = m"
  by (simp add: reflect_progress_def update_progress_def)

lemma reflect_progress_fold: "foldl (\<lambda>m (d, r). reflect_progress m d r) m steps = m"
  by (induction steps arbitrary: m) (auto simp: reflect_progress_id)

theorem applications_never_advance:
  "requirements (foldl (\<lambda>m (d, r). reflect_progress m d r)
       (cm_set_task new_context_manager task_three_vacancies) steps) = [(py ''applications'', 3)]
   \<and> dict_get (progress_counters (foldl (\<lambda>m (d, r). reflect_progress m d r)
       (cm_set_task new_context_manager task_three_vacancies) steps)) (py ''applications'') 0 = 0
   \<and> \<not> can_complete_task (foldl (\<lambda>m (d, r). reflect_progress m d r)
       (cm_set_task new_context_manager task_three_vacancies) steps)"
proof -
  have p: "progress_counters (cm_set_task new_context_manager task_three_vacancies) = []"
    by (simp add: cm_set_task_def)
  show ?thesis
    unfolding reflect_progress_fold
    using three_vacancies_requirements p
    by (simp add: can_complete_task_def dict_get_def)
qed


subsection \<open>Cycle detector\<close>

lemma last_n_length: "length (last_n k xs) = (if k = 0 then length xs else min k (length xs))"
  by (auto simp: last_n_def)

lemma last_n_set: "set (last_n k xs) \<subseteq> set xs"
  by (auto simp: last_n_def dest: in_set_dropD)

lemma signature_of_repeat:
  "unchanged_repeat action_name p a \<Longrightarrow>
   get_action_signature a = (action_name @ py '':'' @ json_dumps_sorted p, False, False, action_name)"
  by (simp add: unchanged_repeat_def get_action_signature_def Let_def)

lemma signatures_of_repeats:
  "\<forall>a \<in> set w. unchanged_repeat action_name p a \<Longrightarrow>
   map get_action_signature w
     = replicate (length w) (action_name @ py '':'' @ json_dumps_sorted p, False, False, action_name)"
  by (induction w) (auto simp: signature_of_repeat)

lemma repeats_loop_replicate:
  assumes "\<forall>a \<in> set recent. a_parameters a = p" "threshold_of action_name \<le> length recent"
  shows "c < threshold_of action_name \<Longrightarrow>
   repeats_loop recent 2 3 c (Some s) (replicate n (s, False, False, action_name))
     = (if c + n \<ge> threshold_of action_name then Some (repeat_verdict action_name p) else None)"
proof (induction n arbitrary: c)
  case 0
  then show ?case by simp
next
  case (Suc n)
  have pos: "0 < threshold_of action_name" by (simp add: threshold_of_def)
  have par: "a_parameters (recent ! (length recent - threshold_of action_name)) = p"
    using assms pos by (metis diff_less length_greater_0_conv less_le_trans list.size(3) nth_mem not_less0)
  show ?case
  proof (cases "Suc c \<ge> threshold_of action_name")
    case True
    with Suc.prems have eq: "Suc c = threshold_of action_name" by simp
    show ?thesis using eq par
      by (simp add: repeat_verdict_def threshold_of_def Let_def split: if_splits)
  next
    case False
    then have lt: "Suc c < threshold_of action_name" by simp
    show ?thesis using False Suc.IH[OF lt]
      by (simp add: threshold_of_def Let_def split: if_splits)
  qed
qed

lemma check_consecutive_repeats_of_repeats:
  assumes "\<forall>a \<in> set w. unchanged_repeat action_name p a"
  shows "check_consecutive_repeats w 2 3
     = (if length w \<ge> threshold_of action_name then Some (repeat_verdict action_name p) else None)"
proof (cases "length w < 2")
  case True
  then show ?thesis by (simp add: check_consecutive_repeats_def threshold_of_def)
next
  case False
  then obtain n where n: "length w = Suc n" by (cases w) auto
  show ?thesis
  proof (cases "length w \<ge> threshold_of action_name")
    case True
    have par: "\<forall>a \<in> set w. a_parameters a = p" using assms by (simp add: unchanged_repeat_def)
    have one: "1 < threshold_of action_name" by (simp add: threshold_of_def)
    show ?thesis using False True n repeats_loop_replicate[OF par True one, of _ n]
      by (simp add: check_consecutive_repeats_def signatures_of_repeats[OF assms])
  next
    case F2: False
    then have "length w = 2" "threshold_of action_name = 3"
      using False by (auto simp: threshold_of_def split: if_splits)
    then show ?thesis 
      by (simp add: check_consecutive_repeats_def signatures_of_repeats[OF assms] numeral_2_eq_2 threshold_of_def split: if_splits)
  qed
qed

text \<open>
  Claim C2, as the code has it. For a history of N records that repeat one action and
  one parameter map with no page diff, \<open>detect_loop\<close> returns the positive verdict of the
  consecutive-repeat check once N reaches the threshold: 2 for \<open>navigate\<close> and
  \<open>click_element\<close>, 3 for every other action. Below the threshold the consecutive-repeat
  check is negative on the window that \<open>detect_loop\<close> gives it, and \<open>detect_loop\<close> returns
  \<open>None\<close> for N below 2. At N = 2 of another action the later checks of \<open>detect_loop\<close>
  still run, and they can be positive.
\<close>

theorem consecutive_repeat_threshold:
  assumes "\<forall>a \<in> set (action_history sm). unchanged_repeat action_name p a"
  shows "(length (action_history sm) \<ge> threshold_of action_name \<longrightarrow>
            detect_loop sm 4 = Inr (Some (repeat_verdict action_name p)))
       \<and> (length (action_history sm) < threshold_of action_name \<longrightarrow>
            check_consecutive_repeats (last_n 6 (last_n (4 * 2) (action_history sm))) 2 3 = None)
       \<and> (length (action_history sm) < 2 \<longrightarrow> detect_loop sm 4 = Inr None)"
proof -
  let ?w = "last_n 6 (last_n (4 * 2) (action_history sm))"
  have w: "\<forall>a \<in> set ?w. unchanged_repeat action_name p a"
    using assms last_n_set by (metis (no_types, lifting) subsetD)
  have len: "length ?w = min 6 (length (action_history sm))"
    by (simp add: last_n_length)
  have thr: "threshold_of action_name \<le> 3" "2 \<le> threshold_of action_name"
    by (simp_all add: threshold_of_def)
  have c1: "check_consecutive_repeats ?w 2 3
     = (if length (action_history sm) \<ge> threshold_of action_name
        then Some (repeat_verdict action_name p) else None)"
    using check_consecutive_repeats_of_repeats[OF w] len thr by auto
  show ?thesis
    using c1 thr by (auto simp: detect_loop_def Let_def)
qed

theorem consecutive_repeat_threshold_witness:
  "unchanged_repeat (py ''extract_text'') [(py ''description'', PStr (py ''price''))]
     extract_price_unchanged
   \<and> threshold_of (py ''extract_text'') = 3
   \<and> detect_loop (new_state_manager\<lparr>action_history :=
        [extract_price_unchanged, extract_price_unchanged, extract_price_unchanged]\<rparr>) 4
       = Inr (Some (repeat_verdict (py ''extract_text'') [(py ''description'', PStr (py ''price''))]))"
proof -
  let ?sm = "new_state_manager\<lparr>action_history :=
        [extract_price_unchanged, extract_price_unchanged, extract_price_unchanged]\<rparr>"
  have u: "unchanged_repeat (py ''extract_text'') [(py ''description'', PStr (py ''price''))]
             extract_price_unchanged"
    by (simp add: unchanged_repeat_def extract_price_unchanged_def)
  have h: "\<forall>a \<in> set (action_history ?sm).
      unchanged_repeat (py ''extract_text'') [(py ''description'', PStr (py ''price''))] a"
    using u by simp
  have t: "threshold_of (py ''extract_text'') = 3"
    by (simp add: threshold_of_def sm_is_critical_action_def py_def)
  from consecutive_repeat_threshold[OF h] t u show ?thesis
    by simp
qed

text \<open>
  Claim C2 as stated fails: two \<open>extract_text\<close> records with the same description and no
  page diff are below the threshold of 3, and \<open>detect_loop\<close> is positive through its
  check of repeated \<open>extract_text\<close>.
\<close>

theorem two_extract_text_counterexample:
  "length (action_history (new_state_manager\<lparr>action_history :=
        [extract_price_unchanged, extract_price_unchanged]\<rparr>)) < threshold_of (py ''extract_text'')
   \<and> unchanged_repeat (py ''extract_text'') [(py ''description'', PStr (py ''price''))]
        extract_price_unchanged
   \<and> detect_loop (new_state_manager\<lparr>action_history :=
        [extract_price_unchanged, extract_price_unchanged]\<rparr>) 4
     = Inr (Some \<lparr>v_check = RepeatedExtractText, v_action = Some (py ''extract_text''),
                 v_parameters = Some [(py ''description'', PStr (py ''price''))],
                 v_repeats = Some 2, v_error = None, v_url = None, v_pattern = [],
                 v_is_critical = None\<rparr>)"
proof -
  let ?h = "[extract_price_unchanged, extract_price_unchanged]"
  have u: "unchanged_repeat (py ''extract_text'') [(py ''description'', PStr (py ''price''))]
        extract_price_unchanged"
    by (simp add: unchanged_repeat_def extract_price_unchanged_def)
  have t: "threshold_of (py ''extract_text'') = 3"
    by (simp add: threshold_of_def sm_is_critical_action_def py_def)
  have w: "last_n 6 ?h = ?h" "last_n 4 ?h = ?h" "last_n 8 ?h = ?h"
    by (simp_all add: last_n_def)
  have c1: "check_consecutive_repeats ?h 2 3 = None"
    using check_consecutive_repeats_of_repeats[of ?h "py ''extract_text''" "[(py ''description'', PStr (py ''price''))]"] u t
    by simp
  have c2: "check_repeating_errors ?h 2 = None"
    by (simp add: check_repeating_errors_def is_failure_def extract_price_unchanged_def
          succeeded_unchanged_def)
  have c3: "check_repeating_urls ?h 2 = Inr None"
    by (simp add: check_repeating_urls_def navigated_url_def extract_price_unchanged_def
          bind_err_def py_def List.map_filter_simps)
  have d: "action_description extract_price_unchanged = Inr (py ''extract_text:price'')"
    by (simp add: action_description_def extract_price_unchanged_def dict_get_def py_def)
  have c4: "map_err action_description ?h = Inr [py ''extract_text:price'', py ''extract_text:price'']"
    by (simp add: d bind_err_def)
  have c5: "check_extract_text ?h = Some \<lparr>v_check = RepeatedExtractText, v_action = Some (py ''extract_text''),
                 v_parameters = Some [(py ''description'', PStr (py ''price''))],
                 v_repeats = Some 2, v_error = None, v_url = None, v_pattern = [],
                 v_is_critical = None\<rparr>"
    by (simp add: check_extract_text_def last_n_def extract_price_unchanged_def dict_get_def py_def Let_def)
  show ?thesis
    using u t by (simp add: detect_loop_def w c1 c2 c3 d c5 bind_err_def check_pattern_repetition_def Let_def)
qed

subsection \<open>Questions already asked\<close>








subsection \<open>Deciding\<close>

lemma repair_truncated:
  \<open>repair_json truncated_arguments = py ''{"selector": "#a", "text": "hel"}''\<close>
  by (simp add: truncated_arguments_def repair_json_def close_quote_def close_structures_def
        py_strip_def is_space_def endswith_def rstrip_chars_def py_def Let_def)

lemma salvage_truncated:
  \<open>simple_params truncated_arguments = [(py ''selector'', py ''#a'')]\<close>
  by (simp add: truncated_arguments_def simple_params_def simple_pair_at_def is_word_def
        is_space_def py_def Let_def)

lemma count_list_replicate: "count_list (replicate n x) y = (if x = y then n else 0)"
  by (induction n) auto

lemma close_structures_balanced:
  assumes "\<not> endswith s 125" "\<not> endswith s 93"
  shows "count_list (close_structures s) 125 = max (count_list s 125) (count_list s 123)
       \<and> count_list (close_structures s) 93 = max (count_list s 93) (count_list s 91)
       \<and> count_list (close_structures s) 123 = count_list s 123
       \<and> count_list (close_structures s) 91 = count_list s 91"
  using assms by (auto simp: close_structures_def Let_def count_list_replicate)

lemma scroll_decided:
  "read_response (accepts_only (py ''{}'')) (Message [(py ''scroll'', py ''{}'')] [])
     = \<lparr>d_success = True, d_action = Some (py ''scroll''), d_parameters = Some (FromJson ()),
        d_error = None\<rparr>"
  by (simp add: read_response_def parse_arguments_def accepts_only_def)

text \<open>
  Claim C10. When the oracle's reply selects an action and \<open>json.loads\<close> rejects its
  argument text, the decision is still a success for that action: its parameters are the
  value parsed from the repaired text, or else the simple string pairs salvaged by the
  pattern, or the empty dictionary. (\<open>close_structures_balanced\<close> shows what the repair
  closes; the example after the theorem runs a text cut off inside a value through both
  paths.)
\<close>

theorem malformed_arguments_still_decide:
  assumes "loads args_str = DecodeError"
  shows "read_response loads (Message ((function_name, args_str) # others) content) =
           \<lparr>d_success = True, d_action = Some function_name,
            d_parameters =
              Some (case loads (repair_json args_str) of
                      Parsed v \<Rightarrow> FromJson v
                    | DecodeError \<Rightarrow>
                        FromPairs (foldl (\<lambda>d (key, v). dict_set d key v) []
                                     (simple_params args_str))
                    | OtherError \<Rightarrow> FromPairs []),
            d_error = None\<rparr>"
  using assms by (simp add: read_response_def parse_arguments_def)

theorem malformed_arguments_still_decide_witness:
  \<open>accepts_only (py ''{"selector": "#a", "text": "hel"}'') truncated_arguments = DecodeError
   \<and> rejects_all truncated_arguments = DecodeError
   \<and> read_response (accepts_only (py ''{"selector": "#a", "text": "hel"}''))
        (Message [(py ''type_text'', truncated_arguments)] []) =
         \<lparr>d_success = True, d_action = Some (py ''type_text''),
          d_parameters = Some (FromJson ()), d_error = None\<rparr>
   \<and> read_response rejects_all (Message [(py ''type_text'', truncated_arguments)] []) =
         \<lparr>d_success = True, d_action = Some (py ''type_text''),
          d_parameters = Some (FromPairs [(py ''selector'', py ''#a'')]), d_error = None\<rparr>\<close>
proof -
  have a: \<open>accepts_only (py ''{"selector": "#a", "text": "hel"}'') truncated_arguments = DecodeError\<close>
    by (simp add: accepts_only_def truncated_arguments_def py_def)
  have b: "rejects_all truncated_arguments = DecodeError"
    by (simp add: rejects_all_def)
  from malformed_arguments_still_decide[of \<open>accepts_only (py ''{"selector": "#a", "text": "hel"}'')\<close>
         truncated_arguments "py ''type_text''" "[]" "[]", OF a]
       malformed_arguments_still_decide[of rejects_all truncated_arguments "py ''type_text''"
         "[]" "[]", OF b]
  show ?thesis
    using a b by (simp add: repair_truncated salvage_truncated accepts_only_def rejects_all_def)
qed

text \<open>
  Claim C5, as the code has it. When the request measures above the whole-request ceiling,
  the controller computes the room left for the context. If the room is positive, the
  context is derived again once, by \<open>prepare_context\<close> at that ceiling, and the request
  with it is sent to the oracle whatever it measures then. If the room is not positive,
  the iteration fails at once: nothing is derived again and nothing is sent.
\<close>

theorem oversized_request_rederived_once:
  assumes "estimate_request_size (count_tokens ext) system_prompt
             (build_user_message ext context task) (action_tools ext) > MAX_REQUEST_TOKENS conf"
  shows "(room_for_context conf ext system_prompt > 0 \<longrightarrow>
            decide_action conf ext system_prompt context task =
              (read_response (json_loads ext)
                 (ask_oracle ext system_prompt
                    (build_user_message ext
                       (prepare_again ext (room_for_context conf ext system_prompt)) task)),
               [room_for_context conf ext system_prompt],
               Some (build_user_message ext
                       (prepare_again ext (room_for_context conf ext system_prompt)) task)))
       \<and> (room_for_context conf ext system_prompt \<le> 0 \<longrightarrow>
            \<not> d_success (fst (decide_action conf ext system_prompt context task))
            \<and> snd (decide_action conf ext system_prompt context task) = ([], None))"
  using assms by (simp add: decide_action_def room_for_context_def Let_def failed_def)

theorem oversized_request_rederived_once_witness:
  "estimate_request_size (count_tokens measuring_by_length) (replicate 100 115)
     (build_user_message measuring_by_length (replicate 2000 99) (replicate 100 116))
     (action_tools measuring_by_length) > MAX_REQUEST_TOKENS small_budget
   \<and> room_for_context small_budget measuring_by_length (replicate 100 115) = 400
   \<and> decide_action small_budget measuring_by_length (replicate 100 115) (replicate 2000 99)
        (replicate 100 116)
      = (\<lparr>d_success = True, d_action = Some (py ''scroll''), d_parameters = Some (FromJson ()),
          d_error = None\<rparr>, [400], Some (replicate 400 120 @ replicate 100 116))
   \<and> estimate_request_size (count_tokens measuring_by_length) (replicate 100 115)
        (replicate 400 120 @ replicate 100 116) (action_tools measuring_by_length)
      \<le> MAX_REQUEST_TOKENS small_budget"
proof -
  have big: "estimate_request_size (count_tokens measuring_by_length) (replicate 100 115)
     (build_user_message measuring_by_length (replicate 2000 99) (replicate 100 116))
     (action_tools measuring_by_length) > MAX_REQUEST_TOKENS small_budget"
    by (simp add: estimate_request_size_def measuring_by_length_def small_budget_def default_config_def)
  have room: "room_for_context small_budget measuring_by_length (replicate 100 115) = 400"
    by (simp add: room_for_context_def estimate_request_size_def measuring_by_length_def
          small_budget_def default_config_def)
  have fits: "estimate_request_size (count_tokens measuring_by_length) (replicate 100 115)
        (replicate 400 120 @ replicate 100 116) (action_tools measuring_by_length)
      \<le> MAX_REQUEST_TOKENS small_budget"
    by (simp add: estimate_request_size_def measuring_by_length_def small_budget_def default_config_def)
  from oversized_request_rederived_once[OF big] room
  have "decide_action small_budget measuring_by_length (replicate 100 115) (replicate 2000 99)
        (replicate 100 116)
      = (read_response (json_loads measuring_by_length)
                 (ask_oracle measuring_by_length (replicate 100 115)
                    (build_user_message measuring_by_length
                       (prepare_again measuring_by_length 400) (replicate 100 116))),
               [400],
               Some (build_user_message measuring_by_length
                       (prepare_again measuring_by_length 400) (replicate 100 116)))"
    by simp
  then show ?thesis
    using big room fits by (simp add: measuring_by_length_def scroll_decided)
qed

text \<open>
  Claim C5 as stated fails in both directions. A request that is still above the ceiling
  after the context was derived again is sent and decided, not failed; and with a system
  prompt that leaves no room, the iteration fails without deriving the context again,
  although a request with a short context would have fitted.
\<close>

theorem oversized_retry_counterexample:
  "estimate_request_size (count_tokens measuring_by_length) (replicate 100 115)
     (build_user_message measuring_by_length (replicate 2000 99) (replicate 1500 116))
     (action_tools measuring_by_length) > MAX_REQUEST_TOKENS small_budget
   \<and> decide_action small_budget measuring_by_length (replicate 100 115) (replicate 2000 99)
        (replicate 1500 116)
      = (\<lparr>d_success = True, d_action = Some (py ''scroll''), d_parameters = Some (FromJson ()),
          d_error = None\<rparr>, [400], Some (replicate 400 120 @ replicate 1500 116))
   \<and> estimate_request_size (count_tokens measuring_by_length) (replicate 100 115)
        (replicate 400 120 @ replicate 1500 116) (action_tools measuring_by_length)
      > MAX_REQUEST_TOKENS small_budget
   \<and> estimate_request_size (count_tokens measuring_by_length) (replicate 600 115)
        (build_user_message measuring_by_length (replicate 2000 99) (replicate 10 116))
        (action_tools measuring_by_length) > MAX_REQUEST_TOKENS small_budget
   \<and> \<not> d_success (fst (decide_action small_budget measuring_by_length (replicate 600 115)
                          (replicate 2000 99) (replicate 10 116)))
   \<and> snd (decide_action small_budget measuring_by_length (replicate 600 115)
             (replicate 2000 99) (replicate 10 116)) = ([], None)
   \<and> estimate_request_size (count_tokens measuring_by_length) (replicate 600 115)
        (build_user_message measuring_by_length (replicate 100 120) (replicate 10 116))
        (action_tools measuring_by_length) \<le> MAX_REQUEST_TOKENS small_budget"
  by (simp add: decide_action_def estimate_request_size_def measuring_by_length_def
        small_budget_def default_config_def scroll_decided failed_def Let_def)

subsection \<open>The token cache\<close>

lemma cache_ok_lookup:
  "cache_ok ext cache \<Longrightarrow> map_of cache t = Some n \<Longrightarrow> n = length (tk_encode ext t)"
  by (auto simp: cache_ok_def dest: map_of_SomeD)

lemma count_cached_value:
  "cache_ok ext cache \<Longrightarrow> fst (count_tokens_cached ext cache t) = length (tk_encode ext t)"
  by (auto simp: count_tokens_cached_def Let_def dest: cache_ok_lookup split: option.splits)

lemma cache_ok_tl: "cache_ok ext cache \<Longrightarrow> cache_ok ext (tl cache)"
  by (cases cache) (auto simp: cache_ok_def)

lemma count_cached_ok:
  "cache_ok ext cache \<Longrightarrow> cache_ok ext (snd (count_tokens_cached ext cache t))"
proof -
  assume ok: "cache_ok ext cache"
  have app: "cache_ok ext (cache @ [(t, length (tk_encode ext t))])"
    using ok by (auto simp: cache_ok_def)
  show ?thesis
    using ok app cache_ok_tl[OF app]
    by (auto simp: count_tokens_cached_def Let_def split: option.splits)
qed

lemma foldl_cache:
  assumes keep: "\<And>a c x. I c \<Longrightarrow> I (snd (f (a, c) x))"
      and same: "\<And>a c c' x. I c \<Longrightarrow> I c' \<Longrightarrow> fst (f (a, c) x) = fst (f (a, c') x)"
  shows "I c \<Longrightarrow> I c' \<Longrightarrow>
           fst (foldl f (a, c) xs) = fst (foldl f (a, c') xs) \<and> I (snd (foldl f (a, c) xs))"
proof (induction xs arbitrary: a c c')
  case Nil
  then show ?case by simp
next
  case (Cons x xs)
  have e: "fst (f (a, c) x) = fst (f (a, c') x)"
    using same Cons.prems by blast
  have "foldl f (a, c) (x # xs) = foldl f (fst (f (a, c) x), snd (f (a, c) x)) xs"
    by simp
  moreover have "f (a, c') x = (fst (f (a, c) x), snd (f (a, c') x))"
    by (simp add: e prod_eq_iff)
  then have "foldl f (a, c') (x # xs) = foldl f (fst (f (a, c) x), snd (f (a, c') x)) xs"
    by simp
  ultimately show ?case
    using Cons.IH[of "snd (f (a, c) x)" "snd (f (a, c') x)" "fst (f (a, c) x)"]
      keep Cons.prems by metis
qed

lemma place_element_ok:
  "cache_ok ext c \<Longrightarrow> cache_ok ext (snd (place_element ext tt mt (a, c) e))"
  by (auto simp: place_element_def Let_def count_cached_ok)

lemma place_element_same:
  "cache_ok ext c \<Longrightarrow> cache_ok ext c' \<Longrightarrow>
     fst (place_element ext tt mt (a, c) e) = fst (place_element ext tt mt (a, c') e)"
  by (auto simp: place_element_def Let_def count_cached_ok count_cached_value)

lemma optimize_elements_cache:
  assumes "cache_ok ext c" "cache_ok ext c'"
  shows "fst (optimize_elements ext c es mt tt) = fst (optimize_elements ext c' es mt tt)
       \<and> cache_ok ext (snd (optimize_elements ext c es mt tt))"
proof (cases "es = []")
  case True
  then show ?thesis
    using assms by (simp add: optimize_elements_def)
next
  case False
  define xs where "xs = sorted_reverse (sort_key_of tt) (filter e_in_modal es)
                          @ sorted_reverse (sort_key_of tt) (filter (\<lambda>e. e_in_form e \<and> \<not> e_in_modal e) es)
                          @ sorted_reverse (sort_key_of tt) (filter (\<lambda>e. \<not> e_in_modal e \<and> \<not> e_in_form e) es)"
  have fold: "fst (foldl (place_element ext tt mt) (([], 0), c) xs)
                = fst (foldl (place_element ext tt mt) (([], 0), c') xs)
              \<and> cache_ok ext (snd (foldl (place_element ext tt mt) (([], 0), c) xs))"
  proof (rule foldl_cache[where I = "cache_ok ext" and f = "place_element ext tt mt"])
    show "\<And>a c x. cache_ok ext c \<Longrightarrow> cache_ok ext (snd (place_element ext tt mt (a, c) x))"
      by (rule place_element_ok)
    show "\<And>a c c' x. cache_ok ext c \<Longrightarrow> cache_ok ext c' \<Longrightarrow>
            fst (place_element ext tt mt (a, c) x) = fst (place_element ext tt mt (a, c') x)"
      by (rule place_element_same)
    show "cache_ok ext c" by (rule assms)
    show "cache_ok ext c'" by (rule assms)
  qed
  have u: "optimize_elements ext k es mt tt
        = (fst (fst (foldl (place_element ext tt mt) (([], 0), k) xs)),
           snd (foldl (place_element ext tt mt) (([], 0), k) xs))" for k
    using False unfolding optimize_elements_def xs_def Let_def by simp
  show ?thesis
    unfolding u using fold by simp
qed

lemma optimize_page_info_cache:
  assumes "cache_ok ext c" "cache_ok ext c'"
  shows "fst (optimize_page_info ext conf c page mt tt) = fst (optimize_page_info ext conf c' page mt tt)
       \<and> cache_ok ext (snd (optimize_page_info ext conf c page mt tt))"
proof -
  let ?et = "fl_seven_tenths ext
               (int_or mt (MAX_CONTEXT_TOKENS conf)
                - max 500 (fl_fifth ext (int_or mt (MAX_CONTEXT_TOKENS conf))))"
  have e: "fst (optimize_elements ext c (p_interactive_elements page) ?et tt)
           = fst (optimize_elements ext c' (p_interactive_elements page) ?et tt)"
    and k: "cache_ok ext (snd (optimize_elements ext c (p_interactive_elements page) ?et tt))"
    using optimize_elements_cache[OF assms] by auto
  have k': "cache_ok ext (snd (optimize_elements ext c' (p_interactive_elements page) ?et tt))"
    using optimize_elements_cache[OF assms(2) assms(1)] by auto
  show ?thesis
    unfolding optimize_page_info_def Let_def
    using e k k'
    by (auto simp: count_cached_value count_cached_ok split: option.splits)
qed

lemma assemble_page_cache:
  assumes "cache_ok ext (token_count_cache m)" "cache_ok ext c'"
  shows "fst (assemble_page ext conf (m\<lparr>token_count_cache := c'\<rparr>) page mt)
           = fst (assemble_page ext conf m page mt)
       \<and> cache_ok ext (snd (assemble_page ext conf m page mt))"
proof -
  let ?o = "\<lambda>k tt. optimize_page_info ext conf k page (Some mt) tt"
  have r: "get_requirements_status (m\<lparr>token_count_cache := c'\<rparr>) = get_requirements_status m"
    by (simp add: get_requirements_status_def)
  have o: "fst (?o c' tt) = fst (?o (token_count_cache m) tt)"
    and k: "cache_ok ext (snd (?o (token_count_cache m) tt))" for tt
    using optimize_page_info_cache[OF assms(2) assms(1)] optimize_page_info_cache[OF assms(1) assms(2)]
    by auto
  have "fst (assemble_page ext conf (m\<lparr>token_count_cache := c'\<rparr>) page mt)
           = fst (assemble_page ext conf m page mt)"
    unfolding assemble_page_def Let_def by (simp add: r o cong: option.case_cong if_cong)
  moreover have "cache_ok ext (snd (assemble_page ext conf m page mt))"
    unfolding assemble_page_def Let_def using k by simp
  ultimately show ?thesis by simp
qed

lemma prepare_context_cache:
  assumes "cache_ok ext (token_count_cache m)" "cache_ok ext c'"
  shows "fst (prepare_context ext conf (m\<lparr>token_count_cache := c'\<rparr>) page mt)
           = fst (prepare_context ext conf m page mt)
       \<and> cache_ok ext (token_count_cache (snd (prepare_context ext conf m page mt)))
       \<and> (snd (prepare_context ext conf m page mt))\<lparr>token_count_cache := token_count_cache m\<rparr> = m"
proof -
  let ?mt = "int_or mt (MAX_CONTEXT_TOKENS conf)"
  let ?m' = "m\<lparr>token_count_cache := c'\<rparr>"
  have a: "fst (assemble_page ext conf ?m' page ?mt) = fst (assemble_page ext conf m page ?mt)"
    and k: "cache_ok ext (snd (assemble_page ext conf m page ?mt))"
    using assemble_page_cache[OF assms] by auto
  have m'ok: "cache_ok ext (token_count_cache ?m')" using assms by simp
  have k': "cache_ok ext (snd (assemble_page ext conf ?m' page ?mt))"
    using assemble_page_cache[OF m'ok assms(1), of conf page ?mt] by simp
  have h: "cm_history ?m' = cm_history m" by simp
  have 1: "fst (prepare_context ext conf ?m' page mt) = fst (prepare_context ext conf m page mt)"
    unfolding prepare_context_def Let_def
    by (simp add: a h k k' count_cached_value count_cached_ok cong: if_cong)
  have 2: "cache_ok ext (token_count_cache (snd (prepare_context ext conf m page mt)))"
    unfolding prepare_context_def Let_def
    by (simp add: k count_cached_ok)
  have 3: "(snd (prepare_context ext conf m page mt))\<lparr>token_count_cache := token_count_cache m\<rparr> = m"
    unfolding prepare_context_def Let_def by simp
  show ?thesis using 1 2 3 by simp
qed

lemma count_cached_nonempty:
  "length t \<le> 500 \<Longrightarrow> snd (count_tokens_cached ext cache t) \<noteq> []"
proof -
  assume l: "length t \<le> 500"
  show ?thesis
  proof (cases "map_of cache t")
    case None
    have "tl (cache @ [(t, n)]) \<noteq> []" if "length (cache @ [(t, n)]) > 1000" for n
      using that by (cases cache) auto
    then show ?thesis using None l
      by (auto simp: count_tokens_cached_def Let_def)
  next
    case (Some n)
    then have "cache \<noteq> []" by auto
    then show ?thesis using Some l by (simp add: count_tokens_cached_def)
  qed
qed

subsection \<open>Preparing the context\<close>

lemma prepare_context_stages:
  assumes "cache_ok ext (token_count_cache m)" and "0 < max_tokens"
  shows "fst (prepare_context ext conf m page (Some max_tokens)) =
           Inr (if token_measure ext (first_context ext conf m page max_tokens) \<le> max_tokens
                then first_context ext conf m page max_tokens
                else if token_measure ext (second_context ext conf m page max_tokens) \<le> max_tokens
                then second_context ext conf m page max_tokens
                else third_context ext conf m page max_tokens)"
proof -
  have mt: "int_or (Some max_tokens) (MAX_CONTEXT_TOKENS conf) = max_tokens"
    using assms(2) by (simp add: int_or_def)
  have k: "cache_ok ext (snd (assemble_page ext conf m page max_tokens))"
    using assemble_page_cache[OF assms(1) assms(1)] by simp
  show ?thesis
    unfolding prepare_context_def Let_def mt
    using assms(2)
    by (simp add: k count_cached_value count_cached_ok first_context_def second_context_def
          third_context_def token_measure_def Let_def)
qed

lemma empty_page_assembled:
  "fst (assemble_page ext conf new_context_manager empty_page mt)
     = \<lparr>o_url = [], o_title = [], o_interactive_elements = [], o_visible_text_preview = [],
        o_location_context = None, o_visible_modals = None, o_completed_steps = [],
        o_extracted_info = [], o_requirements_status = []\<rparr>"
  by (simp add: assemble_page_def optimize_page_info_def optimize_elements_def truncate_text_def
        new_context_manager_def empty_page_def get_requirements_status_def task_type_of_def Let_def)

lemma header_rendered:
  "format_context \<lparr>o_url = [], o_title = [], o_interactive_elements = [], o_visible_text_preview = [],
        o_location_context = None, o_visible_modals = None, o_completed_steps = [],
        o_extracted_info = [], o_requirements_status = []\<rparr> [] = lbl_current_page @ [10] @ lbl_title"
  by (simp add: format_context_def Let_def)

lemma header_length: "length (lbl_current_page @ [10] @ lbl_title) = 30"
  by (simp add: lbl_current_page_def lbl_title_def)

lemma new_manager_fields:
  "cm_history new_context_manager = []" "token_count_cache new_context_manager = []"
  "current_task new_context_manager = None"
  by (simp_all add: new_context_manager_def)

lemma empty_page_contexts:
  "first_context ext conf new_context_manager empty_page mt
     = lbl_current_page @ [10] @ lbl_title"
  "second_context ext conf new_context_manager empty_page mt
     = lbl_current_page @ [10] @ lbl_title"
  "third_context ext conf new_context_manager empty_page mt
     = lbl_current_page @ [10] @ lbl_title"
proof -
  show f: "first_context ext conf new_context_manager empty_page mt
     = lbl_current_page @ [10] @ lbl_title"
    by (simp add: first_context_def empty_page_assembled header_rendered new_manager_fields)
  have c: "combined_history [] = []"
    by (simp add: combined_history_def)
  show "second_context ext conf new_context_manager empty_page mt
     = lbl_current_page @ [10] @ lbl_title"
    using header_rendered
    by (simp add: second_context_def empty_page_assembled reduce_once_def new_manager_fields c
          last_n_def Let_def)
  show "third_context ext conf new_context_manager empty_page mt
     = lbl_current_page @ [10] @ lbl_title"
    using header_rendered
    by (simp add: third_context_def empty_page_assembled reduce_once_def reduce_twice_def
          new_manager_fields c Let_def)
qed

text \<open>
  Claim C8. \<open>prepare_context\<close> writes nothing of the manager but the token cache, which
  stays sound, and its result does not depend on the cache: a second call with the same
  page and ceiling, from the state the first call left, returns the same context (or the
  same exception).
\<close>

theorem prepare_context_repeatable:
  assumes "cache_ok ext (token_count_cache m)"
  shows "fst (prepare_context ext conf (snd (prepare_context ext conf m page max_tokens)) page max_tokens)
           = fst (prepare_context ext conf m page max_tokens)
       \<and> (snd (prepare_context ext conf m page max_tokens))\<lparr>token_count_cache := token_count_cache m\<rparr> = m
       \<and> cache_ok ext (token_count_cache (snd (prepare_context ext conf m page max_tokens)))"
proof -
  let ?m1 = "snd (prepare_context ext conf m page max_tokens)"
  from prepare_context_cache[OF assms assms, of conf page max_tokens]
  have ok1: "cache_ok ext (token_count_cache ?m1)"
    and restored: "?m1\<lparr>token_count_cache := token_count_cache m\<rparr> = m"
    by auto
  have "?m1 = m\<lparr>token_count_cache := token_count_cache ?m1\<rparr>"
    by (subst (2) restored[symmetric]) simp
  then have "fst (prepare_context ext conf ?m1 page max_tokens)
               = fst (prepare_context ext conf (m\<lparr>token_count_cache := token_count_cache ?m1\<rparr>) page max_tokens)"
    by simp
  also have "\<dots> = fst (prepare_context ext conf m page max_tokens)"
    using prepare_context_cache[OF assms ok1] by simp
  finally show ?thesis using ok1 restored by simp
qed

theorem prepare_context_repeatable_witness:
  "token_count_cache new_context_manager = []
   \<and> fst (prepare_context exact_arithmetic_tokenizer default_config
            (snd (prepare_context exact_arithmetic_tokenizer default_config new_context_manager
                    empty_page None)) empty_page None)
     = fst (prepare_context exact_arithmetic_tokenizer default_config new_context_manager
              empty_page None)
   \<and> token_count_cache (snd (prepare_context exact_arithmetic_tokenizer default_config
                               new_context_manager empty_page None)) \<noteq> []"
proof -
  let ?ext = exact_arithmetic_tokenizer
  have ok: "cache_ok ?ext (token_count_cache new_context_manager)"
    by (simp add: cache_ok_def new_context_manager_def)
  have mt: "int_or None (MAX_CONTEXT_TOKENS default_config) = 3000"
    by (simp add: int_or_def default_config_def)
  have k: "cache_ok ?ext (snd (assemble_page ?ext default_config new_context_manager empty_page 3000))"
    using assemble_page_cache[OF ok ok] by simp
  have f: "format_context (fst (assemble_page ?ext default_config new_context_manager empty_page 3000))
             (cm_history new_context_manager) = lbl_current_page @ [10] @ lbl_title"
    using empty_page_contexts(1)[of ?ext default_config 3000] by (simp add: first_context_def)
  have n: "length (tk_encode ?ext (lbl_current_page @ 10 # lbl_title)) = 30"
    using header_length by (simp add: exact_arithmetic_tokenizer_def)
  have short: "length (lbl_current_page @ 10 # lbl_title) \<le> 500"
    using header_length by simp
  have c: "token_count_cache (snd (prepare_context ?ext default_config
                               new_context_manager empty_page None)) \<noteq> []"
    unfolding prepare_context_def Let_def mt f
    using count_cached_nonempty[OF short, of ?ext]
    by (simp add: count_cached_value[OF k] n)
  from prepare_context_repeatable[OF ok, of default_config empty_page None]
  show ?thesis using c by (simp add: new_manager_fields)
qed

text \<open>
  Claim C1, as the code has it. For a positive ceiling \<open>prepare_context\<close> returns a
  context, and that context measures at most the ceiling whenever the first rendering
  or the rendering after the first reduction does. When both measure above the ceiling,
  the rendering after the second reduction is returned as it is, without being measured.
\<close>

theorem prepare_context_within_ceiling:
  assumes "cache_ok ext (token_count_cache m)" and "0 < max_tokens"
  shows "\<exists>context. fst (prepare_context ext conf m page (Some max_tokens)) = Inr context
           \<and> (token_measure ext context \<le> max_tokens
                \<or> (max_tokens < token_measure ext (first_context ext conf m page max_tokens)
                    \<and> max_tokens < token_measure ext (second_context ext conf m page max_tokens)
                    \<and> context = third_context ext conf m page max_tokens))"
  using prepare_context_stages[OF assms, of conf page] by auto

theorem prepare_context_within_ceiling_witness:
  "token_count_cache new_context_manager = []
   \<and> (0::int) < 3000
   \<and> token_measure exact_arithmetic_tokenizer
        (first_context exact_arithmetic_tokenizer default_config new_context_manager empty_page 3000)
       \<le> 3000
   \<and> (\<exists>context. fst (prepare_context exact_arithmetic_tokenizer default_config
                        new_context_manager empty_page (Some 3000)) = Inr context
          \<and> token_measure exact_arithmetic_tokenizer context \<le> 3000)"
proof -
  have ok: "cache_ok exact_arithmetic_tokenizer (token_count_cache new_context_manager)"
    by (simp add: cache_ok_def new_context_manager_def)
  have pos: "(0::int) < 3000" by simp
  have fits: "token_measure exact_arithmetic_tokenizer (lbl_current_page @ [10] @ lbl_title) \<le> 3000"
    using header_length by (simp add: token_measure_def exact_arithmetic_tokenizer_def)
  from prepare_context_within_ceiling[OF ok pos, of default_config empty_page]
  show ?thesis
    using fits by (auto simp: empty_page_contexts new_manager_fields)
qed

text \<open>
  Claim C1 as stated fails. For a page with nothing on it and no history the context is
  the two header lines, thirty code points, at every ceiling and with every tokenizer
  (\<open>empty_page_contexts\<close>); at the ceiling 1 it measures above the ceiling as soon as the
  tokenizer gives the header two tokens, here thirty.
\<close>

theorem ceiling_of_one_counterexample:
  "fst (prepare_context exact_arithmetic_tokenizer default_config new_context_manager empty_page
          (Some 1)) = Inr (lbl_current_page @ [10] @ lbl_title)
   \<and> token_measure exact_arithmetic_tokenizer (lbl_current_page @ [10] @ lbl_title) = 30
   \<and> \<not> (30::int) \<le> 1"
proof -
  have ok: "cache_ok exact_arithmetic_tokenizer (token_count_cache new_context_manager)"
    by (simp add: cache_ok_def new_context_manager_def)
  have m: "token_measure exact_arithmetic_tokenizer (lbl_current_page @ [10] @ lbl_title) = 30"
    using header_length by (simp add: token_measure_def exact_arithmetic_tokenizer_def)
  have "fst (prepare_context exact_arithmetic_tokenizer default_config new_context_manager empty_page
          (Some 1)) = Inr (lbl_current_page @ [10] @ lbl_title)"
    using prepare_context_stages[OF ok, of 1 default_config empty_page]
    by (simp add: empty_page_contexts)
  then show ?thesis using m by simp
qed

end
